theory Spec2Isabelle
  imports Main "HOL-Library.Product_Lexorder"
begin

section \<open>Text, dates and the two date formats\<close>

text \<open>
  A Python \<open>str\<close> is a sequence of code points, modelled as a list of natural numbers;
  \<open>ascii\<close> turns a literal into one. \<open>isspace\<close> is the set of code points that
  \<open>str.strip\<close> and the regular expression class \<open>\s\<close> treat as white space. The class
  \<open>\d\<close> of a \<open>str\<close> pattern is every Unicode decimal digit (category Nd), and \<open>int\<close>
  reads each of them as its digit value: in Unicode 14, which Python 3.11 carries, these are
  66 runs of ten consecutive code points for the values 0 to 9, the ASCII digits among
  them; \<open>nd_zeros\<close> lists the code point of the zero of each run. A bracketed class such
  as \<^verbatim>\<open>[0-2]\<close> is the ASCII range it names.

  \<open>datetime.strptime\<close> compiles the format \<open>%Y-%m-%d %H:%M\<close> to the regular expression
  \<^verbatim>\<open>(?P<Y>\d\d\d\d)-(?P<m>1[0-2]|0[1-9]|[1-9])-(?P<d>3[0-1]|[1-2]\d|0[1-9]|[1-9]| [1-9])\<close>
  \<^verbatim>\<open>\s+(?P<H>2[0-3]|[0-1]\d|\d):(?P<M>[0-5]\d|\d)\<close>,
  takes the first match at the start of the string in backtracking order, raises
  \<open>ValueError\<close> when there is none or when text remains after it, and then builds the date,
  which raises \<open>ValueError\<close> for year 0 and for a day the month does not have. A regular
  expression is a function from the input to the list of its matches (value and rest) in
  backtracking order, so the first match is the head of the list. \<open>None\<close> stands for
  \<open>ValueError\<close>.

  \<open>strftime\<close> hands the format to the C library. With glibc, \<open>%Y\<close> is the year in
  decimal with no padding (year 999 is written \<open>999\<close>), and \<open>%m\<close>, \<open>%d\<close>, \<open>%H\<close> and
  \<open>%M\<close> are zero-filled to two digits.
\<close>


type_synonym str = "nat list"

definition ascii :: "string \<Rightarrow> str" where
  "ascii s = map of_char s"

definition isdigit :: "nat \<Rightarrow> bool" where
  "isdigit c = (48 \<le> c \<and> c \<le> 57)"

definition isspace :: "nat \<Rightarrow> bool" where
  "isspace c = ((9 \<le> c \<and> c \<le> 13) \<or> (28 \<le> c \<and> c \<le> 32) \<or> c = 133 \<or> c = 160
     \<or> c = 5760 \<or> (8192 \<le> c \<and> c \<le> 8202) \<or> c = 8232 \<or> c = 8233 \<or> c = 8239
     \<or> c = 8287 \<or> c = 12288)"

record date =
  year :: nat
  month :: nat
  day :: nat

record datetime = date +
  hour :: nat
  minute :: nat
  second :: nat
  microsecond :: nat

definition is_leap :: "nat \<Rightarrow> bool" where
  "is_leap y = (y mod 4 = 0 \<and> (y mod 100 \<noteq> 0 \<or> y mod 400 = 0))"

definition days_in_month :: "nat \<Rightarrow> nat \<Rightarrow> nat" where
  "days_in_month y m =
     (if m = 2 then (if is_leap y then 29 else 28)
      else if m = 4 \<or> m = 6 \<or> m = 9 \<or> m = 11 then 30 else 31)"

definition valid_date :: "nat \<Rightarrow> nat \<Rightarrow> nat \<Rightarrow> bool" where
  "valid_date y m d = (1 \<le> y \<and> y \<le> 9999 \<and> 1 \<le> m \<and> m \<le> 12 \<and> 1 \<le> d \<and> d \<le> days_in_month y m)"


type_synonym 'a re = "str \<Rightarrow> ('a \<times> str) list"

definition re_range :: "nat \<Rightarrow> nat \<Rightarrow> nat re" where
  "re_range lo hi s = (case s of [] \<Rightarrow> []
     | c # cs \<Rightarrow> if 48 + lo \<le> c \<and> c \<le> 48 + hi then [(c - 48, cs)] else [])"

definition nd_zeros :: "nat list" where
  "nd_zeros =
    [48, 1632, 1776, 1984, 2406, 2534, 2662, 2790, 2918, 3046, 3174, 3302, 3430, 3558,
     3664, 3792, 3872, 4160, 4240, 6112, 6160, 6470, 6608, 6784, 6800, 6992, 7088, 7232,
     7248, 42528, 43216, 43264, 43472, 43504, 43600, 44016, 65296, 66720, 68912, 69734,
     69872, 69942, 70096, 70384, 70736, 70864, 71248, 71360, 71472, 71904, 72016, 72784,
     73040, 73120, 92768, 92864, 93008, 120782, 120792, 120802, 120812, 120822, 123200,
     123632, 125264, 130032]"

definition decimal_digit :: "nat \<Rightarrow> nat option" where
  "decimal_digit c =
     (case find (\<lambda>z. z \<le> c \<and> c < z + 10) nd_zeros of None \<Rightarrow> None | Some z \<Rightarrow> Some (c - z))"

definition re_digit :: "nat re" where
  "re_digit s = (case s of [] \<Rightarrow> []
     | c # cs \<Rightarrow> (case decimal_digit c of None \<Rightarrow> [] | Some v \<Rightarrow> [(v, cs)]))"

definition re_char :: "nat \<Rightarrow> unit re" where
  "re_char x s = (case s of [] \<Rightarrow> [] | c # cs \<Rightarrow> if c = x then [((), cs)] else [])"

fun re_spaces :: "unit re" where
  "re_spaces [] = []"
| "re_spaces (c # cs) = (if isspace c then re_spaces cs @ [((), cs)] else [])"

definition re_then :: "'a re \<Rightarrow> ('a \<Rightarrow> 'b re) \<Rightarrow> 'b re" where
  "re_then p f s = concat (map (\<lambda>(a, r). f a r) (p s))"

definition re_return :: "'a \<Rightarrow> 'a re" where
  "re_return a s = [(a, s)]"

definition re_alt :: "'a re \<Rightarrow> 'a re \<Rightarrow> 'a re" where
  "re_alt p q s = p s @ q s"

definition re_two :: "nat re \<Rightarrow> nat re \<Rightarrow> nat re" where
  "re_two p q = re_then p (\<lambda>a. re_then q (\<lambda>b. re_return (10 * a + b)))"

definition re_Y :: "nat re" where
  "re_Y = re_then re_digit (\<lambda>a. re_then re_digit (\<lambda>b. re_then re_digit (\<lambda>c.
          re_then re_digit (\<lambda>d. re_return (1000 * a + 100 * b + 10 * c + d)))))"

definition re_m :: "nat re" where
  "re_m = re_alt (re_two (re_range 1 1) (re_range 0 2))
         (re_alt (re_two (re_range 0 0) (re_range 1 9)) (re_range 1 9))"

definition re_d :: "nat re" where
  "re_d = re_alt (re_two (re_range 3 3) (re_range 0 1))
         (re_alt (re_two (re_range 1 2) re_digit)
         (re_alt (re_two (re_range 0 0) (re_range 1 9))
         (re_alt (re_range 1 9)
                 (re_then (re_char 32) (\<lambda>_. re_range 1 9)))))"

definition re_H :: "nat re" where
  "re_H = re_alt (re_two (re_range 2 2) (re_range 0 3))
         (re_alt (re_two (re_range 0 1) re_digit) re_digit)"

definition re_M :: "nat re" where
  "re_M = re_alt (re_two (re_range 0 5) re_digit) re_digit"

definition re_Ymd :: "(nat \<times> nat \<times> nat) re" where
  "re_Ymd = re_then re_Y (\<lambda>y. re_then (re_char 45) (\<lambda>_. re_then re_m (\<lambda>m.
            re_then (re_char 45) (\<lambda>_. re_then re_d (\<lambda>d. re_return (y, m, d))))))"

definition re_YmdHM :: "((nat \<times> nat \<times> nat) \<times> nat \<times> nat) re" where
  "re_YmdHM = re_then re_Ymd (\<lambda>ymd. re_then re_spaces (\<lambda>_. re_then re_H (\<lambda>h.
              re_then (re_char 58) (\<lambda>_. re_then re_M (\<lambda>mi. re_return (ymd, h, mi))))))"

definition re_match :: "'a re \<Rightarrow> str \<Rightarrow> ('a \<times> str) option" where
  "re_match p s = (case p s of [] \<Rightarrow> None | x # _ \<Rightarrow> Some x)"

definition strptime :: "str \<Rightarrow> datetime option" where
  "strptime s =
     (case re_match re_YmdHM s of
        None \<Rightarrow> None
      | Some (((y, m, d), h, mi), rest) \<Rightarrow>
          if rest \<noteq> [] then None
          else if valid_date y m d
          then Some \<lparr>year = y, month = m, day = d, hour = h, minute = mi, second = 0, microsecond = 0\<rparr>
          else None)"

definition strptime_date :: "str \<Rightarrow> date option" where
  "strptime_date s =
     (case re_match re_Ymd s of
        None \<Rightarrow> None
      | Some ((y, m, d), rest) \<Rightarrow>
          if rest \<noteq> [] then None
          else if valid_date y m d then Some \<lparr>year = y, month = m, day = d\<rparr> else None)"

function decimal :: "nat \<Rightarrow> str" where
  "decimal n = (if n < 10 then [48 + n] else decimal (n div 10) @ [48 + n mod 10])"
  by pat_completeness auto
termination
  by (relation "measure id") auto

declare decimal.simps [simp del]

definition zfill :: "nat \<Rightarrow> str \<Rightarrow> str" where
  "zfill w s = replicate (w - length s) 48 @ s"

definition strftime :: "datetime \<Rightarrow> str" where
  "strftime t = decimal (year t) @ [45] @ zfill 2 (decimal (month t)) @ [45]
     @ zfill 2 (decimal (day t)) @ [32] @ zfill 2 (decimal (hour t)) @ [58]
     @ zfill 2 (decimal (minute t))"

definition strip :: "str \<Rightarrow> str" where
  "strip s = rev (dropWhile isspace (rev (dropWhile isspace s)))"

definition date_of :: "datetime \<Rightarrow> date" where
  "date_of t = \<lparr>year = year t, month = month t, day = day t\<rparr>"

definition datetime_key :: "datetime \<Rightarrow> nat \<times> nat \<times> nat \<times> nat \<times> nat \<times> nat \<times> nat" where
  "datetime_key t = (year t, month t, day t, hour t, minute t, second t, microsecond t)"

section \<open>models.py: the four tables\<close>

text \<open>
  A table is the list of its rows in rowid order, which is the order in which SQLite (the
  configured default engine) scans a table. The primary keys are \<open>au_id\<close>, \<open>p_id\<close>,
  \<open>d_id\<close> and \<open>a_id\<close>; a nullable column is an \<open>option\<close>. An inserted row gets the key
  \<open>next_id\<close>, one more than the largest key in use.
\<close>

record AdminUser =
  au_id :: int
  username :: str
  password_hash :: str

record Patient =
  p_id :: int
  p_full_name :: str
  p_phone :: str
  p_email :: "str option"
  p_birth_date :: "date option"
  p_address :: "str option"

record Doctor =
  d_id :: int
  d_full_name :: str
  d_specialty :: str
  d_phone :: str
  d_email :: "str option"
  d_room :: "str option"

record Appointment =
  a_id :: int
  patient_id :: int
  doctor_id :: int
  appointment_date :: datetime
  status :: "str option"

record db =
  admin_users :: "AdminUser list"
  patients :: "Patient list"
  doctors :: "Doctor list"
  appointments :: "Appointment list"

text \<open>The three status values of the source, as code points (Cyrillic words for
  scheduled, completed and cancelled).\<close>

definition status_scheduled :: str where
  "status_scheduled = [1079, 1072, 1087, 1083, 1072, 1085, 1080, 1088, 1086, 1074, 1072, 1085]"

definition status_completed :: str where
  "status_completed = [1079, 1072, 1074, 1077, 1088, 1096, 1105, 1085]"

definition status_cancelled :: str where
  "status_cancelled = [1086, 1090, 1084, 1077, 1085, 1105, 1085]"

definition next_id :: "int list \<Rightarrow> int" where
  "next_id ids = fold max ids 0 + 1"

definition query_get :: "('r \<Rightarrow> int) \<Rightarrow> 'r list \<Rightarrow> int \<Rightarrow> 'r option" where
  "query_get key rows i = find (\<lambda>r. key r = i) rows"

text \<open>\<open>Appointment(...)\<close> followed by \<open>db.session.add\<close> and \<open>commit\<close>: the column default
  of \<open>status\<close> is used when no status is given.\<close>

definition Appointment_add ::
    "int \<Rightarrow> int \<Rightarrow> datetime \<Rightarrow> str option \<Rightarrow> db \<Rightarrow> db" where
  "Appointment_add pid did t st_opt st =
     st\<lparr>appointments := appointments st @
        [\<lparr>a_id = next_id (map a_id (appointments st)), patient_id = pid, doctor_id = did,
          appointment_date = t,
          status = (case st_opt of None \<Rightarrow> Some status_scheduled | Some s \<Rightarrow> Some s)\<rparr>]\<rparr>"

record 'r pagination =
  items :: "'r list"
  page :: int
  per_page :: nat
  total :: nat

text \<open>\<open>query.paginate(page, per_page)\<close>; \<open>None\<close> is \<open>abort(404)\<close>.\<close>

definition paginate :: "'r list \<Rightarrow> int \<Rightarrow> nat \<Rightarrow> 'r pagination option" where
  "paginate rows pg n =
     (if pg < 1 then None
      else let its = take n (drop (nat (pg - 1) * n) rows)
           in if its = [] \<and> pg \<noteq> 1 then None
              else Some \<lparr>items = its, page = pg, per_page = n, total = length rows\<rparr>)"

section \<open>Requests, sessions and responses\<close>

text \<open>
  The library primitives the application calls are parameters, collected in \<open>env\<close>:
  werkzeug's \<open>check_password_hash\<close>, the syntax check behind the \<open>Email\<close> validator, the
  built-in \<open>int\<close> (\<open>None\<close> for \<open>ValueError\<close>) and the date the server's clock shows.

  A request carries its method, the URL rule it matched (with the rule's \<open>id\<close>), the query
  arguments, the posted form, whether the posted CSRF token is the session's, and the
  session cookie. A view returns the response, the new session and the new database.
  The flashed messages are named after what the source's Russian texts say.
\<close>

record env =
  check_password_hash :: "str \<Rightarrow> str \<Rightarrow> bool"
  validate_email :: "str \<Rightarrow> bool"
  py_int :: "str \<Rightarrow> int option"
  today :: date

datatype http_method = GET | HEAD | POST | PUT | PATCH | DELETE | OPTIONS

datatype endpoint =
    E_index | E_login | E_logout | E_dashboard
  | E_patients | E_add_patient | E_edit_patient int | E_delete_patient int
  | E_doctors | E_add_doctor | E_edit_doctor int | E_delete_doctor int
  | E_appointments | E_add_appointment | E_edit_appointment int | E_delete_appointment int

datatype category = C_success | C_danger | C_info | C_warning | C_message

datatype flash_msg =
    M_logged_in | M_login_invalid | M_logged_out | M_please_log_in
  | M_patient_added | M_patient_updated | M_patient_deleted
  | M_doctor_added | M_doctor_updated | M_doctor_deleted
  | M_appointment_added | M_appointment_updated | M_appointment_deleted
  | M_bad_date_format

record session =
  user_id :: "int option"
  flashes :: "(flash_msg \<times> category) list"

record request =
  meth :: http_method
  url :: endpoint
  args :: "string \<rightharpoonup> str"
  form :: "string \<rightharpoonup> str"
  csrf_valid :: bool
  cookie :: session

definition flash :: "flash_msg \<Rightarrow> category \<Rightarrow> session \<Rightarrow> session" where
  "flash m c s = s\<lparr>flashes := flashes s @ [(m, c)]\<rparr>"

section \<open>Forms\<close>

text \<open>
  A validator passes, fails with a message, or stops the chain (\<open>DataRequired\<close> clears the
  errors collected so far and stops). A field is valid when it ends with no error. A
  form is bound to the posted data when the request is a submission; a field whose key is
  not posted keeps the value of the object the form was built from.
\<close>

datatype ferror =
  Required | TooLong | InvalidEmail | NotValidDate | NotValidChoice | InvalidChoice | CsrfInvalid

datatype verdict = Pass | Fail ferror | Stop ferror

fun run_validation_chain :: "ferror list \<Rightarrow> verdict list \<Rightarrow> ferror list" where
  "run_validation_chain errs [] = errs"
| "run_validation_chain errs (Pass # vs) = run_validation_chain errs vs"
| "run_validation_chain errs (Fail x # vs) = run_validation_chain (errs @ [x]) vs"
| "run_validation_chain errs (Stop x # vs) = [x]"

definition DataRequired :: "str option \<Rightarrow> verdict" where
  "DataRequired data =
     (case data of None \<Rightarrow> Stop Required
      | Some s \<Rightarrow> if s \<noteq> [] \<and> strip s \<noteq> [] then Pass else Stop Required)"

definition DataRequired_int :: "int option \<Rightarrow> verdict" where
  "DataRequired_int data =
     (case data of None \<Rightarrow> Stop Required | Some n \<Rightarrow> if n \<noteq> 0 then Pass else Stop Required)"

definition Length :: "nat \<Rightarrow> str option \<Rightarrow> verdict" where
  "Length mx data =
     (case data of None \<Rightarrow> Pass | Some s \<Rightarrow> if length s \<le> mx then Pass else Fail TooLong)"

definition Email :: "env \<Rightarrow> str option \<Rightarrow> verdict" where
  "Email e data =
     (case data of None \<Rightarrow> Fail InvalidEmail
      | Some s \<Rightarrow> if validate_email e s then Pass else Fail InvalidEmail)"

definition tag :: "string \<Rightarrow> ferror list \<Rightarrow> (string \<times> ferror) list" where
  "tag name errs = map (Pair name) errs"

definition is_submitted :: "request \<Rightarrow> bool" where
  "is_submitted req = (meth req \<in> {POST, PUT, PATCH, DELETE})"

definition formdata :: "request \<Rightarrow> (string \<rightharpoonup> str) option" where
  "formdata req = (if is_submitted req then Some (form req) else None)"

definition csrf_errors :: "request \<Rightarrow> (string \<times> ferror) list" where
  "csrf_errors req = (if csrf_valid req then [] else [(''csrf_token'', CsrfInvalid)])"

definition process_str :: "(string \<rightharpoonup> str) option \<Rightarrow> string \<Rightarrow> str option \<Rightarrow> str option" where
  "process_str fd name obj =
     (case fd of None \<Rightarrow> obj
      | Some f \<Rightarrow> (case f name of None \<Rightarrow> obj | Some v \<Rightarrow> Some v))"

definition process_date ::
    "(string \<rightharpoonup> str) option \<Rightarrow> string \<Rightarrow> date option \<Rightarrow> date option \<times> ferror list" where
  "process_date fd name obj =
     (case fd of None \<Rightarrow> (obj, [])
      | Some f \<Rightarrow>
          (case f name of None \<Rightarrow> (obj, [])
           | Some v \<Rightarrow>
               (case strptime_date v of
                  Some d \<Rightarrow> (Some d, [])
                | None \<Rightarrow> (None, [NotValidDate]))))"

definition process_int ::
    "env \<Rightarrow> (string \<rightharpoonup> str) option \<Rightarrow> string \<Rightarrow> int option \<Rightarrow> int option \<times> ferror list" where
  "process_int e fd name obj =
     (case fd of None \<Rightarrow> (obj, [])
      | Some f \<Rightarrow>
          (case f name of None \<Rightarrow> (obj, [])
           | Some v \<Rightarrow>
               (case py_int e v of
                  Some n \<Rightarrow> (Some n, [])
                | None \<Rightarrow> (obj, [InvalidChoice]))))"

definition pre_validate :: "'a list \<Rightarrow> 'a option \<Rightarrow> ferror list" where
  "pre_validate choices data =
     (case data of None \<Rightarrow> [NotValidChoice]
      | Some v \<Rightarrow> if v \<in> set choices then [] else [NotValidChoice])"

subsection \<open>LoginForm\<close>

record LoginForm =
  lf_username :: "str option"
  lf_password :: "str option"
  lf_errors :: "(string \<times> ferror) list"

definition LoginForm_init :: "request \<Rightarrow> LoginForm" where
  "LoginForm_init req =
     \<lparr>lf_username = process_str (formdata req) ''username'' None,
      lf_password = process_str (formdata req) ''password'' None,
      lf_errors = []\<rparr>"

definition LoginForm_validate :: "request \<Rightarrow> LoginForm \<Rightarrow> LoginForm" where
  "LoginForm_validate req f =
     f\<lparr>lf_errors :=
         tag ''username'' (run_validation_chain [] [DataRequired (lf_username f)])
       @ tag ''password'' (run_validation_chain [] [DataRequired (lf_password f)])
       @ csrf_errors req\<rparr>"

text \<open>The form as it stands once the view has called \<open>validate_on_submit\<close>, which
  validates only a submission; the call returns true when the request is a submission
  and the form has no error.\<close>

definition LoginForm_validate_on_submit :: "request \<Rightarrow> LoginForm" where
  "LoginForm_validate_on_submit req =
     (let f0 = LoginForm_init req
      in if is_submitted req then LoginForm_validate req f0 else f0)"

subsection \<open>PatientForm and DoctorForm\<close>

record PatientForm =
  pf_full_name :: "str option"
  pf_phone :: "str option"
  pf_email :: "str option"
  pf_birth_date :: "date option"
  pf_address :: "str option"
  pf_process_errors :: "(string \<times> ferror) list"
  pf_errors :: "(string \<times> ferror) list"

definition PatientForm_init :: "Patient option \<Rightarrow> request \<Rightarrow> PatientForm" where
  "PatientForm_init obj req =
     (let fd = formdata req;
          bd = process_date fd ''birth_date'' (case obj of None \<Rightarrow> None | Some p \<Rightarrow> p_birth_date p)
      in \<lparr>pf_full_name = process_str fd ''full_name'' (map_option p_full_name obj),
          pf_phone = process_str fd ''phone'' (map_option p_phone obj),
          pf_email = process_str fd ''email'' (case obj of None \<Rightarrow> None | Some p \<Rightarrow> p_email p),
          pf_birth_date = fst bd,
          pf_address = process_str fd ''address'' (case obj of None \<Rightarrow> None | Some p \<Rightarrow> p_address p),
          pf_process_errors = tag ''birth_date'' (snd bd),
          pf_errors = []\<rparr>)"

definition PatientForm_validate :: "env \<Rightarrow> request \<Rightarrow> PatientForm \<Rightarrow> PatientForm" where
  "PatientForm_validate e req f =
     f\<lparr>pf_errors :=
         tag ''full_name'' (run_validation_chain [] [DataRequired (pf_full_name f), Length 150 (pf_full_name f)])
       @ tag ''phone'' (run_validation_chain [] [DataRequired (pf_phone f), Length 20 (pf_phone f)])
       @ tag ''email'' (run_validation_chain [] [Length 120 (pf_email f), Email e (pf_email f)])
       @ pf_process_errors f
       @ csrf_errors req\<rparr>"

definition PatientForm_validate_on_submit :: "env \<Rightarrow> Patient option \<Rightarrow> request \<Rightarrow> PatientForm" where
  "PatientForm_validate_on_submit e obj req =
     (let f0 = PatientForm_init obj req
      in if is_submitted req then PatientForm_validate e req f0 else f0)"

record DoctorForm =
  df_full_name :: "str option"
  df_specialty :: "str option"
  df_phone :: "str option"
  df_email :: "str option"
  df_room :: "str option"
  df_errors :: "(string \<times> ferror) list"

definition DoctorForm_init :: "Doctor option \<Rightarrow> request \<Rightarrow> DoctorForm" where
  "DoctorForm_init obj req =
     (let fd = formdata req
      in \<lparr>df_full_name = process_str fd ''full_name'' (map_option d_full_name obj),
          df_specialty = process_str fd ''specialty'' (map_option d_specialty obj),
          df_phone = process_str fd ''phone'' (map_option d_phone obj),
          df_email = process_str fd ''email'' (case obj of None \<Rightarrow> None | Some d \<Rightarrow> d_email d),
          df_room = process_str fd ''room'' (case obj of None \<Rightarrow> None | Some d \<Rightarrow> d_room d),
          df_errors = []\<rparr>)"

definition DoctorForm_validate :: "env \<Rightarrow> request \<Rightarrow> DoctorForm \<Rightarrow> DoctorForm" where
  "DoctorForm_validate e req f =
     f\<lparr>df_errors :=
         tag ''full_name'' (run_validation_chain [] [DataRequired (df_full_name f), Length 150 (df_full_name f)])
       @ tag ''specialty'' (run_validation_chain [] [DataRequired (df_specialty f), Length 100 (df_specialty f)])
       @ tag ''phone'' (run_validation_chain [] [DataRequired (df_phone f), Length 20 (df_phone f)])
       @ tag ''email'' (run_validation_chain [] [Length 120 (df_email f), Email e (df_email f)])
       @ tag ''room'' (run_validation_chain [] [Length 20 (df_room f)])
       @ csrf_errors req\<rparr>"

definition DoctorForm_validate_on_submit :: "env \<Rightarrow> Doctor option \<Rightarrow> request \<Rightarrow> DoctorForm" where
  "DoctorForm_validate_on_submit e obj req =
     (let f0 = DoctorForm_init obj req
      in if is_submitted req then DoctorForm_validate e req f0 else f0)"

subsection \<open>AppointmentForm\<close>

text \<open>
  The data of \<open>appointment_date\<close> is the posted text, or, when the key is not posted, the
  value of the object the form was built from: nothing, or the stored \<open>datetime\<close> object.
  \<open>strptime\<close> raises \<open>TypeError\<close> on anything but text, which the views do not catch.
\<close>

datatype field_data = No_data | Text str | Object datetime

datatype parsed = ValueError | TypeError | Parsed datetime

definition strptime_field :: "field_data \<Rightarrow> parsed" where
  "strptime_field d =
     (case d of
        Text s \<Rightarrow> (case strptime s of None \<Rightarrow> ValueError | Some t \<Rightarrow> Parsed t)
      | No_data \<Rightarrow> TypeError
      | Object t \<Rightarrow> TypeError)"

definition DataRequired_field :: "field_data \<Rightarrow> verdict" where
  "DataRequired_field d =
     (case d of No_data \<Rightarrow> Stop Required | Text s \<Rightarrow> DataRequired (Some s) | Object t \<Rightarrow> Pass)"

definition process_text ::
    "(string \<rightharpoonup> str) option \<Rightarrow> string \<Rightarrow> field_data \<Rightarrow> field_data" where
  "process_text fd name obj =
     (case fd of None \<Rightarrow> obj
      | Some f \<Rightarrow> (case f name of None \<Rightarrow> obj | Some v \<Rightarrow> Text v))"

definition status_choices :: "str list" where
  "status_choices = [status_scheduled, status_completed, status_cancelled]"

record AppointmentForm =
  af_patient_id :: "int option"
  af_patient_choices :: "(int \<times> str) list"
  af_doctor_id :: "int option"
  af_doctor_choices :: "(int \<times> str) list"
  af_appointment_date :: field_data
  af_status :: "str option"
  af_patient_id_errors :: "ferror list"
  af_doctor_id_errors :: "ferror list"
  af_errors :: "(string \<times> ferror) list"

definition AppointmentForm_init :: "env \<Rightarrow> Appointment option \<Rightarrow> request \<Rightarrow> AppointmentForm" where
  "AppointmentForm_init e obj req =
     (let fd = formdata req;
          pid = process_int e fd ''patient_id'' (map_option patient_id obj);
          did = process_int e fd ''doctor_id'' (map_option doctor_id obj)
      in \<lparr>af_patient_id = fst pid,
          af_patient_choices = [],
          af_doctor_id = fst did,
          af_doctor_choices = [],
          af_appointment_date = process_text fd ''appointment_date''
             (case obj of None \<Rightarrow> No_data | Some a \<Rightarrow> Object (appointment_date a)),
          af_status = process_str fd ''status'' (case obj of None \<Rightarrow> None | Some a \<Rightarrow> status a),
          af_patient_id_errors = snd pid,
          af_doctor_id_errors = snd did,
          af_errors = []\<rparr>)"

definition AppointmentForm_validate :: "request \<Rightarrow> AppointmentForm \<Rightarrow> AppointmentForm" where
  "AppointmentForm_validate req f =
     f\<lparr>af_errors :=
         tag ''patient_id'' (run_validation_chain
            (af_patient_id_errors f @ pre_validate (map fst (af_patient_choices f)) (af_patient_id f))
            [DataRequired_int (af_patient_id f)])
       @ tag ''doctor_id'' (run_validation_chain
            (af_doctor_id_errors f @ pre_validate (map fst (af_doctor_choices f)) (af_doctor_id f))
            [DataRequired_int (af_doctor_id f)])
       @ tag ''appointment_date'' (run_validation_chain [] [DataRequired_field (af_appointment_date f)])
       @ tag ''status'' (pre_validate status_choices (af_status f))
       @ csrf_errors req\<rparr>"

text \<open>The views fill the choices of the two select fields from the tables before they
  call \<open>validate_on_submit\<close>.\<close>

definition set_choices :: "db \<Rightarrow> AppointmentForm \<Rightarrow> AppointmentForm" where
  "set_choices st f =
     f\<lparr>af_patient_choices := map (\<lambda>p. (p_id p, p_full_name p)) (patients st),
       af_doctor_choices :=
         map (\<lambda>d. (d_id d, d_full_name d @ ascii '' ('' @ d_specialty d @ ascii '')'')) (doctors st)\<rparr>"

definition AppointmentForm_validate_on_submit ::
    "env \<Rightarrow> db \<Rightarrow> Appointment option \<Rightarrow> request \<Rightarrow> AppointmentForm" where
  "AppointmentForm_validate_on_submit e st obj req =
     (let f0 = set_choices st (AppointmentForm_init e obj req)
      in if is_submitted req then AppointmentForm_validate req f0 else f0)"

section \<open>app.py: the views\<close>

datatype title = Add_title | Edit_title

record stats =
  stat_patients :: nat
  stat_doctors :: nat
  stat_appointments :: nat
  stat_today_appointments :: nat

datatype template =
    login_html LoginForm
  | dashboard_html stats
  | patients_html "Patient pagination"
  | patient_form_html PatientForm title
  | doctors_html "Doctor pagination"
  | doctor_form_html DoctorForm title
  | appointments_html "Appointment pagination"
  | appointment_form_html AppointmentForm title

text \<open>\<open>Abort n\<close> is the error response with status \<open>n\<close>: 404 from \<open>get_or_404\<close> and
  \<open>paginate\<close>, 405 from the router, 500 for an exception no view catches.\<close>

datatype response = Redirect endpoint | Render template | Abort nat | Options_response

type_synonym result = "response \<times> session \<times> db"

type_synonym view = "env \<Rightarrow> db \<Rightarrow> request \<Rightarrow> result"

subsection \<open>Loading the user, creating the first administrator\<close>

definition load_user :: "db \<Rightarrow> int \<Rightarrow> AdminUser option" where
  "load_user st uid = query_get au_id (admin_users st) uid"

definition current_user :: "db \<Rightarrow> session \<Rightarrow> AdminUser option" where
  "current_user st s = (case user_id s of None \<Rightarrow> None | Some uid \<Rightarrow> load_user st uid)"

definition is_authenticated :: "db \<Rightarrow> session \<Rightarrow> bool" where
  "is_authenticated st s = (current_user st s \<noteq> None)"

text \<open>\<open>create_admin\<close> is the \<open>before_first_request\<close> hook; \<open>hash\<close> is werkzeug's
  \<open>generate_password_hash\<close>. The tables always exist in the model, so \<open>db.create_all\<close>
  has nothing to do.\<close>

definition create_admin :: "(str \<Rightarrow> str) \<Rightarrow> db \<Rightarrow> db" where
  "create_admin hash st =
     (if find (\<lambda>u. username u = ascii ''admin'') (admin_users st) = None
      then st\<lparr>admin_users := admin_users st @
             [\<lparr>au_id = next_id (map au_id (admin_users st)), username = ascii ''admin'',
               password_hash = hash (ascii ''admin123'')\<rparr>]\<rparr>
      else st)"

definition unauthorized :: "db \<Rightarrow> request \<Rightarrow> result" where
  "unauthorized st req = (Redirect E_login, flash M_please_log_in C_message (cookie req), st)"

definition login_required :: "view \<Rightarrow> view" where
  "login_required v e st req =
     (if meth req = OPTIONS then v e st req
      else if \<not> is_authenticated st (cookie req) then unauthorized st req
      else v e st req)"

subsection \<open>Login, logout, index, dashboard\<close>

definition login :: view where
  "login e st req =
     (if is_authenticated st (cookie req) then (Redirect E_dashboard, cookie req, st)
      else
        let f = LoginForm_validate_on_submit req
        in if is_submitted req \<and> lf_errors f = [] then
             (case (lf_username f, lf_password f) of
                (Some u, Some p) \<Rightarrow>
                  (case find (\<lambda>a. username a = u) (admin_users st) of
                     Some user \<Rightarrow>
                       if check_password_hash e (password_hash user) p
                       then (Redirect E_dashboard,
                             flash M_logged_in C_success ((cookie req)\<lparr>user_id := Some (au_id user)\<rparr>), st)
                       else (Render (login_html f), flash M_login_invalid C_danger (cookie req), st)
                   | None \<Rightarrow> (Render (login_html f), flash M_login_invalid C_danger (cookie req), st))
              | _ \<Rightarrow> (Abort 500, cookie req, st))
           else (Render (login_html f), cookie req, st))"

definition logout :: view where
  "logout e st req = (Redirect E_login, flash M_logged_out C_info ((cookie req)\<lparr>user_id := None\<rparr>), st)"

definition index :: view where
  "index e st req =
     (if is_authenticated st (cookie req) then (Redirect E_dashboard, cookie req, st)
      else (Redirect E_login, cookie req, st))"

definition dashboard :: view where
  "dashboard e st req =
     (Render (dashboard_html
        \<lparr>stat_patients = length (patients st),
         stat_doctors = length (doctors st),
         stat_appointments = length (appointments st),
         stat_today_appointments =
           length (filter (\<lambda>a. date_of (appointment_date a) = today e) (appointments st))\<rparr>),
      cookie req, st)"

definition page_arg :: "env \<Rightarrow> request \<Rightarrow> int" where
  "page_arg e req =
     (case args req ''page'' of None \<Rightarrow> 1
      | Some v \<Rightarrow> (case py_int e v of None \<Rightarrow> 1 | Some n \<Rightarrow> n))"

subsection \<open>Patients\<close>

definition patients_view :: view where
  "patients_view e st req =
     (case paginate (patients st) (page_arg e req) 10 of
        None \<Rightarrow> (Abort 404, cookie req, st)
      | Some pg \<Rightarrow> (Render (patients_html pg), cookie req, st))"

definition add_patient :: view where
  "add_patient e st req =
     (let f = PatientForm_validate_on_submit e None req
      in if is_submitted req \<and> pf_errors f = [] then
           (case (pf_full_name f, pf_phone f) of
              (Some n, Some ph) \<Rightarrow>
                (Redirect E_patients, flash M_patient_added C_success (cookie req),
                 st\<lparr>patients := patients st @
                    [\<lparr>p_id = next_id (map p_id (patients st)), p_full_name = n, p_phone = ph,
                      p_email = pf_email f, p_birth_date = pf_birth_date f,
                      p_address = pf_address f\<rparr>]\<rparr>)
            | _ \<Rightarrow> (Abort 500, cookie req, st))
         else (Render (patient_form_html f Add_title), cookie req, st))"

definition edit_patient :: "int \<Rightarrow> view" where
  "edit_patient i e st req =
     (case query_get p_id (patients st) i of
        None \<Rightarrow> (Abort 404, cookie req, st)
      | Some patient \<Rightarrow>
          let f = PatientForm_validate_on_submit e (Some patient) req
          in if is_submitted req \<and> pf_errors f = [] then
               (case (pf_full_name f, pf_phone f) of
                  (Some n, Some ph) \<Rightarrow>
                    (Redirect E_patients, flash M_patient_updated C_success (cookie req),
                     st\<lparr>patients := map (\<lambda>r. if p_id r = i
                          then r\<lparr>p_full_name := n, p_phone := ph, p_email := pf_email f,
                                 p_birth_date := pf_birth_date f, p_address := pf_address f\<rparr>
                          else r) (patients st)\<rparr>)
                | _ \<Rightarrow> (Abort 500, cookie req, st))
             else (Render (patient_form_html f Edit_title), cookie req, st))"

text \<open>
  Deleting a patient or a doctor: the relationship \<open>appointments\<close> (the \<open>backref\<close> of
  models.py) has no delete cascade, so the session first sets the foreign key of each
  dependent appointment to NULL; the column is \<open>nullable=False\<close>, the flush raises
  \<open>IntegrityError\<close>, nothing is committed and the response is the error 500.
\<close>

definition delete_patient :: "int \<Rightarrow> view" where
  "delete_patient i e st req =
     (case query_get p_id (patients st) i of
        None \<Rightarrow> (Abort 404, cookie req, st)
      | Some patient \<Rightarrow>
          if \<exists>a \<in> set (appointments st). patient_id a = i then (Abort 500, cookie req, st)
          else (Redirect E_patients, flash M_patient_deleted C_warning (cookie req),
                st\<lparr>patients := filter (\<lambda>r. p_id r \<noteq> i) (patients st)\<rparr>))"

subsection \<open>Doctors\<close>

definition doctors_view :: view where
  "doctors_view e st req =
     (case paginate (doctors st) (page_arg e req) 10 of
        None \<Rightarrow> (Abort 404, cookie req, st)
      | Some pg \<Rightarrow> (Render (doctors_html pg), cookie req, st))"

definition add_doctor :: view where
  "add_doctor e st req =
     (let f = DoctorForm_validate_on_submit e None req
      in if is_submitted req \<and> df_errors f = [] then
           (case (df_full_name f, df_specialty f, df_phone f) of
              (Some n, Some sp, Some ph) \<Rightarrow>
                (Redirect E_doctors, flash M_doctor_added C_success (cookie req),
                 st\<lparr>doctors := doctors st @
                    [\<lparr>d_id = next_id (map d_id (doctors st)), d_full_name = n, d_specialty = sp,
                      d_phone = ph, d_email = df_email f, d_room = df_room f\<rparr>]\<rparr>)
            | _ \<Rightarrow> (Abort 500, cookie req, st))
         else (Render (doctor_form_html f Add_title), cookie req, st))"

definition edit_doctor :: "int \<Rightarrow> view" where
  "edit_doctor i e st req =
     (case query_get d_id (doctors st) i of
        None \<Rightarrow> (Abort 404, cookie req, st)
      | Some doctor \<Rightarrow>
          let f = DoctorForm_validate_on_submit e (Some doctor) req
          in if is_submitted req \<and> df_errors f = [] then
               (case (df_full_name f, df_specialty f, df_phone f) of
                  (Some n, Some sp, Some ph) \<Rightarrow>
                    (Redirect E_doctors, flash M_doctor_updated C_success (cookie req),
                     st\<lparr>doctors := map (\<lambda>r. if d_id r = i
                          then r\<lparr>d_full_name := n, d_specialty := sp, d_phone := ph,
                                 d_email := df_email f, d_room := df_room f\<rparr>
                          else r) (doctors st)\<rparr>)
                | _ \<Rightarrow> (Abort 500, cookie req, st))
             else (Render (doctor_form_html f Edit_title), cookie req, st))"

definition delete_doctor :: "int \<Rightarrow> view" where
  "delete_doctor i e st req =
     (case query_get d_id (doctors st) i of
        None \<Rightarrow> (Abort 404, cookie req, st)
      | Some doctor \<Rightarrow>
          if \<exists>a \<in> set (appointments st). doctor_id a = i then (Abort 500, cookie req, st)
          else (Redirect E_doctors, flash M_doctor_deleted C_warning (cookie req),
                st\<lparr>doctors := filter (\<lambda>r. d_id r \<noteq> i) (doctors st)\<rparr>))"

subsection \<open>Appointments\<close>

text \<open>The list is ordered by \<open>appointment_date\<close>, latest first.\<close>

definition appointments_view :: view where
  "appointments_view e st req =
     (case paginate (rev (sort_key (\<lambda>a. datetime_key (appointment_date a)) (appointments st)))
             (page_arg e req) 10 of
        None \<Rightarrow> (Abort 404, cookie req, st)
      | Some pg \<Rightarrow> (Render (appointments_html pg), cookie req, st))"

definition add_appointment :: view where
  "add_appointment e st req =
     (let f = AppointmentForm_validate_on_submit e st None req
      in if is_submitted req \<and> af_errors f = [] then
           (case strptime_field (af_appointment_date f) of
              ValueError \<Rightarrow>
                (Render (appointment_form_html f Add_title),
                 flash M_bad_date_format C_danger (cookie req), st)
            | TypeError \<Rightarrow> (Abort 500, cookie req, st)
            | Parsed t \<Rightarrow>
                (case (af_patient_id f, af_doctor_id f) of
                   (Some pid, Some did) \<Rightarrow>
                     (Redirect E_appointments, flash M_appointment_added C_success (cookie req),
                      Appointment_add pid did t (af_status f) st)
                 | _ \<Rightarrow> (Abort 500, cookie req, st)))
         else (Render (appointment_form_html f Add_title), cookie req, st))"

definition edit_appointment :: "int \<Rightarrow> view" where
  "edit_appointment i e st req =
     (case query_get a_id (appointments st) i of
        None \<Rightarrow> (Abort 404, cookie req, st)
      | Some appointment \<Rightarrow>
          let f = AppointmentForm_validate_on_submit e st (Some appointment) req
          in if is_submitted req \<and> af_errors f = [] then
               (case strptime_field (af_appointment_date f) of
                  ValueError \<Rightarrow>
                    (Render (appointment_form_html f Edit_title),
                     flash M_bad_date_format C_danger (cookie req), st)
                | TypeError \<Rightarrow> (Abort 500, cookie req, st)
                | Parsed t \<Rightarrow>
                    (case (af_patient_id f, af_doctor_id f) of
                       (Some pid, Some did) \<Rightarrow>
                         (Redirect E_appointments,
                          flash M_appointment_updated C_success (cookie req),
                          st\<lparr>appointments := map (\<lambda>r. if a_id r = i
                               then r\<lparr>patient_id := pid, doctor_id := did,
                                      appointment_date := t, status := af_status f\<rparr>
                               else r) (appointments st)\<rparr>)
                     | _ \<Rightarrow> (Abort 500, cookie req, st)))
             else (Render (appointment_form_html
                     (f\<lparr>af_appointment_date := Text (strftime (appointment_date appointment))\<rparr>)
                     Edit_title),
                   cookie req, st))"

definition delete_appointment :: "int \<Rightarrow> view" where
  "delete_appointment i e st req =
     (case query_get a_id (appointments st) i of
        None \<Rightarrow> (Abort 404, cookie req, st)
      | Some appointment \<Rightarrow>
          (Redirect E_appointments, flash M_appointment_deleted C_warning (cookie req),
           st\<lparr>appointments := filter (\<lambda>r. a_id r \<noteq> i) (appointments st)\<rparr>))"

section \<open>Routing\<close>

text \<open>
  The methods for which a route calls its view: the \<open>methods\<close> of the \<open>route\<close>
  decorator (\<open>GET\<close> when none are given), and \<open>HEAD\<close> wherever \<open>GET\<close> is accepted. Flask
  answers \<open>OPTIONS\<close> itself and any other method with the error 405, without calling the
  view.

  Flask serves a request in \<open>full_dispatch_request\<close>, in two steps. First
  \<open>try_trigger_before_first_request_functions\<close>: if this is the first request the
  process serves (\<open>got_first_request\<close> is false), the \<open>before_first_request\<close> hook
  \<open>create_admin\<close> runs, whatever the URL and the method, and before the 405 or \<open>OPTIONS\<close>
  answer is given. Then Flask's \<open>dispatch_request\<close>, here \<open>handle_request\<close>: the 405,
  the \<open>OPTIONS\<close> answer or the call of the view, on the database the hook has left. For
  every request but the first, \<open>handle_request\<close> is all that happens.
\<close>

definition route_methods :: "endpoint \<Rightarrow> http_method list" where
  "route_methods ep =
     (case ep of
        E_login \<Rightarrow> [GET, POST, HEAD]
      | E_add_patient \<Rightarrow> [GET, POST, HEAD]
      | E_edit_patient i \<Rightarrow> [GET, POST, HEAD]
      | E_delete_patient i \<Rightarrow> [POST]
      | E_add_doctor \<Rightarrow> [GET, POST, HEAD]
      | E_edit_doctor i \<Rightarrow> [GET, POST, HEAD]
      | E_delete_doctor i \<Rightarrow> [POST]
      | E_add_appointment \<Rightarrow> [GET, POST, HEAD]
      | E_edit_appointment i \<Rightarrow> [GET, POST, HEAD]
      | E_delete_appointment i \<Rightarrow> [POST]
      | _ \<Rightarrow> [GET, HEAD])"

definition dispatch :: view where
  "dispatch e st req =
     (case url req of
        E_index \<Rightarrow> index e st req
      | E_login \<Rightarrow> login e st req
      | E_logout \<Rightarrow> login_required logout e st req
      | E_dashboard \<Rightarrow> login_required dashboard e st req
      | E_patients \<Rightarrow> login_required patients_view e st req
      | E_add_patient \<Rightarrow> login_required add_patient e st req
      | E_edit_patient i \<Rightarrow> login_required (edit_patient i) e st req
      | E_delete_patient i \<Rightarrow> login_required (delete_patient i) e st req
      | E_doctors \<Rightarrow> login_required doctors_view e st req
      | E_add_doctor \<Rightarrow> login_required add_doctor e st req
      | E_edit_doctor i \<Rightarrow> login_required (edit_doctor i) e st req
      | E_delete_doctor i \<Rightarrow> login_required (delete_doctor i) e st req
      | E_appointments \<Rightarrow> login_required appointments_view e st req
      | E_add_appointment \<Rightarrow> login_required add_appointment e st req
      | E_edit_appointment i \<Rightarrow> login_required (edit_appointment i) e st req
      | E_delete_appointment i \<Rightarrow> login_required (delete_appointment i) e st req)"

definition handle_request :: view where
  "handle_request e st req =
     (if meth req = OPTIONS then (Options_response, cookie req, st)
      else if meth req \<notin> set (route_methods (url req)) then (Abort 405, cookie req, st)
      else dispatch e st req)"

definition try_trigger_before_first_request_functions :: "(str \<Rightarrow> str) \<Rightarrow> bool \<Rightarrow> db \<Rightarrow> db" where
  "try_trigger_before_first_request_functions hash got_first_request st =
     (if got_first_request then st else create_admin hash st)"

definition full_dispatch_request :: "(str \<Rightarrow> str) \<Rightarrow> bool \<Rightarrow> view" where
  "full_dispatch_request hash got_first_request e st req =
     handle_request e (try_trigger_before_first_request_functions hash got_first_request st) req"

text \<open>The routes under \<open>/admin\<close>.\<close>

definition is_admin_route :: "endpoint \<Rightarrow> bool" where
  "is_admin_route ep = (ep \<noteq> E_index \<and> ep \<noteq> E_login \<and> ep \<noteq> E_logout)"

section \<open>A small clinic, used for the examples\<close>

text \<open>
  Stand-ins for the library primitives: a password hash that is the password itself, an
  e-mail check (one \<open>@\<close>, a local part of 1 to 64 characters, a domain with a dot, no
  blank, at most 254 characters) and \<open>int\<close> on plain decimal digits. The clock shows
  15 March 2024.
\<close>

definition ex_hash :: "str \<Rightarrow> str" where
  "ex_hash pw = pw"

definition ex_validate_email :: "str \<Rightarrow> bool" where
  "ex_validate_email s =
     (let l = takeWhile (\<lambda>c. c \<noteq> 64) s; d = drop (length l + 1) s
      in l \<noteq> [] \<and> length l \<le> 64 \<and> d \<noteq> [] \<and> 64 \<notin> set d \<and> 46 \<in> set d
         \<and> length s \<le> 254 \<and> (\<forall>c \<in> set s. \<not> isspace c))"

definition ex_int :: "str \<Rightarrow> int option" where
  "ex_int s =
     (if s \<noteq> [] \<and> (\<forall>c \<in> set s. isdigit c)
      then Some (int (foldl (\<lambda>a c. 10 * a + (c - 48)) 0 s)) else None)"

definition ex_env :: env where
  "ex_env = \<lparr>check_password_hash = (\<lambda>h p. h = p), validate_email = ex_validate_email,
             py_int = ex_int, today = \<lparr>year = 2024, month = 3, day = 15\<rparr>\<rparr>"

definition ex_db :: db where
  "ex_db =
     \<lparr>admin_users = [\<lparr>au_id = 1, username = ascii ''admin'', password_hash = ascii ''admin123''\<rparr>],
      patients =
        [\<lparr>p_id = 1, p_full_name = ascii ''Ivan Petrov'', p_phone = ascii ''555-0101'',
          p_email = Some (ascii ''ivan@example.org''), p_birth_date = None, p_address = None\<rparr>,
         \<lparr>p_id = 2, p_full_name = ascii ''Anna Orlova'', p_phone = ascii ''555-0102'',
          p_email = Some (ascii ''anna@example.org''),
          p_birth_date = Some \<lparr>year = 1980, month = 2, day = 29\<rparr>, p_address = Some []\<rparr>],
      doctors =
        [\<lparr>d_id = 1, d_full_name = ascii ''Olga Belova'', d_specialty = ascii ''Therapist'',
          d_phone = ascii ''555-0201'', d_email = Some (ascii ''olga@example.org''),
          d_room = Some (ascii ''12'')\<rparr>,
         \<lparr>d_id = 2, d_full_name = ascii ''Pavel Serov'', d_specialty = ascii ''Surgeon'',
          d_phone = ascii ''555-0202'', d_email = Some (ascii ''pavel@example.org''),
          d_room = None\<rparr>],
      appointments =
        [\<lparr>a_id = 1, patient_id = 1, doctor_id = 1,
          appointment_date = \<lparr>year = 2024, month = 3, day = 15, hour = 14, minute = 30,
                               second = 0, microsecond = 0\<rparr>,
          status = Some status_scheduled\<rparr>,
         \<lparr>a_id = 2, patient_id = 1, doctor_id = 1,
          appointment_date = \<lparr>year = 2024, month = 3, day = 14, hour = 9, minute = 0,
                               second = 0, microsecond = 0\<rparr>,
          status = Some status_completed\<rparr>]\<rparr>"

text \<open>An address of 125 characters: a local part of 60 letters, a domain of 60 letters
  and \<open>.com\<close>.\<close>

definition long_email :: str where
  "long_email = replicate 60 97 @ [64] @ replicate 60 98 @ ascii ''.com''"

definition anonymous :: session where
  "anonymous = \<lparr>user_id = None, flashes = []\<rparr>"

definition admin_session :: session where
  "admin_session = \<lparr>user_id = Some 1, flashes = []\<rparr>"

definition ex_request ::
    "http_method \<Rightarrow> endpoint \<Rightarrow> (string \<times> str) list \<Rightarrow> session \<Rightarrow> request" where
  "ex_request m ep posted s =
     \<lparr>meth = m, url = ep, args = Map.empty, form = map_of posted, csrf_valid = True, cookie = s\<rparr>"

text \<open>A logged-in \<open>GET\<close> with the query argument \<open>page\<close>, and a clinic with twelve doctors:
  more than one page.\<close>

definition ex_page_request :: "endpoint \<Rightarrow> str \<Rightarrow> request" where
  "ex_page_request ep v = (ex_request GET ep [] admin_session)\<lparr>args := [''page'' \<mapsto> v]\<rparr>"

definition twelve_doctors :: db where
  "twelve_doctors =
     ex_db\<lparr>doctors := map (\<lambda>k. \<lparr>d_id = k, d_full_name = ascii ''Olga Belova'',
                                 d_specialty = ascii ''Therapist'', d_phone = ascii ''555-0201'',
                                 d_email = None, d_room = None\<rparr>)
                          [1, 2, 3, 4, 5, 6, 7, 8, 9, 10, 11, 12]\<rparr>"

section \<open>Formatting a date and reading it back\<close>

text \<open>The digits \<open>strftime\<close> writes, and what each group of the regular expression
  makes of them.\<close>

lemma decimal_small: "n < 10 \<Longrightarrow> decimal n = [48 + n]"
  by (subst decimal.simps) simp

lemma decimal_2: "10 \<le> n \<Longrightarrow> n < 100 \<Longrightarrow> decimal n = [48 + n div 10, 48 + n mod 10]"
proof -
  assume a: "10 \<le> n" "n < 100"
  then have "n div 10 < 10" by simp
  with a show ?thesis by (subst decimal.simps) (simp add: decimal_small)
qed

lemma decimal_3: "100 \<le> n \<Longrightarrow> n < 1000 \<Longrightarrow> decimal n = [48 + n div 100, 48 + n div 10 mod 10, 48 + n mod 10]"
proof -
  assume a: "100 \<le> n" "n < 1000"
  then have b: "10 \<le> n div 10" "n div 10 < 100" by simp_all
  have c: "n div 10 div 10 = n div 100" by (simp add: div_mult2_eq[symmetric])
  from a b c show ?thesis by (subst decimal.simps) (simp add: decimal_2)
qed

lemma decimal_4: "1000 \<le> n \<Longrightarrow> n < 10000 \<Longrightarrow>
   decimal n = [48 + n div 1000, 48 + n div 100 mod 10, 48 + n div 10 mod 10, 48 + n mod 10]"
proof -
  assume a: "1000 \<le> n" "n < 10000"
  then have b: "100 \<le> n div 10" "n div 10 < 1000" by simp_all
  have c: "n div 10 div 100 = n div 1000" "n div 10 div 10 = n div 100" by (simp_all add: div_mult2_eq[symmetric])
  from a b c show ?thesis by (subst decimal.simps) (simp add: decimal_3)
qed


lemma zfill4: "n < 10000 \<Longrightarrow>
   zfill 4 (decimal n) = [48 + n div 1000, 48 + n div 100 mod 10, 48 + n div 10 mod 10, 48 + n mod 10]"
proof -
  assume n: "n < 10000"
  consider "n < 10" | "10 \<le> n" "n < 100" | "100 \<le> n" "n < 1000" | "1000 \<le> n" by linarith
  then show ?thesis
  proof cases
    case 1 then show ?thesis by (simp add: zfill_def decimal_small numeral_3_eq_3)
  next
    case 2 then show ?thesis by (simp add: zfill_def decimal_2 numeral_2_eq_2)
  next
    case 3 then show ?thesis by (simp add: zfill_def decimal_3)
  next
    case 4 with n show ?thesis by (simp add: zfill_def decimal_4)
  qed
qed

lemma re_range_digit [simp]:
  "a < 10 \<Longrightarrow> re_range lo hi ((48 + a) # cs) = (if lo \<le> a \<and> a \<le> hi then [(a, cs)] else [])"
  by (simp add: re_range_def)

lemma re_char_Cons [simp]: "re_char x (c # cs) = (if c = x then [((), cs)] else [])"
  by (simp add: re_char_def)

lemma decimal_digit_ascii: "a < 10 \<Longrightarrow> decimal_digit (48 + a) = Some a"
  by (simp add: decimal_digit_def nd_zeros_def)

lemma re_digit_ascii [simp]: "a < 10 \<Longrightarrow> re_digit ((48 + a) # cs) = [(a, cs)]"
  by (simp add: re_digit_def decimal_digit_ascii)


lemma re_match_then:
  "p s = (a, r) # alts \<Longrightarrow> k a r \<noteq> [] \<Longrightarrow> re_match (re_then p k) s = re_match (k a) r"
  by (cases "k a r") (simp_all add: re_match_def re_then_def)

lemmas re_unfold = re_alt_def re_two_def re_then_def re_return_def














section \<open>The login gate\<close>

lemma login_required_anonymous:
  "\<not> is_authenticated st (cookie req) \<Longrightarrow> meth req \<noteq> OPTIONS \<Longrightarrow>
   login_required v e st req = (Redirect E_login, flash M_please_log_in C_message (cookie req), st)"
  by (simp add: login_required_def unauthorized_def)

lemma login_required_authenticated:
  "is_authenticated st (cookie req) \<Longrightarrow> login_required v e st req = v e st req"
  by (simp add: login_required_def)

lemma ex_request_sel [simp]:
  "meth (ex_request m ep posted s) = m"
  "url (ex_request m ep posted s) = ep"
  "cookie (ex_request m ep posted s) = s"
  "csrf_valid (ex_request m ep posted s)"
  "form (ex_request m ep posted s) = map_of posted"
  "args (ex_request m ep posted s) = Map.empty"
  by (simp_all add: ex_request_def)

lemma anonymous_not_authenticated [simp]: "\<not> is_authenticated st anonymous"
  by (simp add: is_authenticated_def current_user_def anonymous_def)

lemma admin_session_authenticated [simp]: "is_authenticated ex_db admin_session"
  by (simp add: is_authenticated_def current_user_def admin_session_def load_user_def
      query_get_def ex_db_def)

lemma handle_request_anonymous:
  assumes "is_admin_route (url req)" and "\<not> is_authenticated st (cookie req)"
  shows "handle_request e st req =
     (if meth req = OPTIONS then (Options_response, cookie req, st)
      else if meth req \<notin> set (route_methods (url req)) then (Abort 405, cookie req, st)
      else (Redirect E_login, flash M_please_log_in C_message (cookie req), st))"
proof (cases "meth req = OPTIONS \<or> meth req \<notin> set (route_methods (url req))")
  case True
  then show ?thesis by (auto simp: handle_request_def)
next
  case False
  then have m: "meth req \<noteq> OPTIONS" "meth req \<in> set (route_methods (url req))" by auto
  have "dispatch e st req = (Redirect E_login, flash M_please_log_in C_message (cookie req), st)"
    using assms m(1)
    by (cases "url req") (simp_all add: dispatch_def is_admin_route_def login_required_anonymous)
  with m show ?thesis by (simp add: handle_request_def)
qed

lemma OPTIONS_not_routed: "OPTIONS \<notin> set (route_methods ep)"
  by (simp add: route_methods_def split: endpoint.splits)

lemma hook_tables:
  "patients (try_trigger_before_first_request_functions hash got st) = patients st"
  "doctors (try_trigger_before_first_request_functions hash got st) = doctors st"
  "appointments (try_trigger_before_first_request_functions hash got st) = appointments st"
  by (simp_all add: try_trigger_before_first_request_functions_def create_admin_def)

lemma find_None_iff_Ball: "find P xs = None \<longleftrightarrow> (\<forall>x \<in> set xs. \<not> P x)"
  by (auto simp: find_None_iff)

lemma hook_admin_users:
  "got \<or> (\<exists>u \<in> set (admin_users st). username u = ascii ''admin'') \<Longrightarrow>
     try_trigger_before_first_request_functions hash got st = st"
  "\<not> got \<Longrightarrow> \<forall>u \<in> set (admin_users st). username u \<noteq> ascii ''admin'' \<Longrightarrow>
     admin_users (try_trigger_before_first_request_functions hash got st)
       = admin_users st @ [\<lparr>au_id = next_id (map au_id (admin_users st)), username = ascii ''admin'',
                            password_hash = hash (ascii ''admin123'')\<rparr>]"
  by (auto simp: try_trigger_before_first_request_functions_def create_admin_def find_None_iff_Ball)

text \<open>
  Claim C1. A request to a route under \<open>/admin\<close> that carries no authenticated session
  (none that loads a user once the first-request hook has run) is answered as follows,
  whatever its method and whether or not it is the first request served. The tables of
  patients, doctors and appointments are unchanged. The table \<open>admin_users\<close> is unchanged
  too, with one exception: on the first request the process serves, when no user is named
  \<open>admin\<close>, the hook \<open>create_admin\<close> appends that user. When the method is one the route
  accepts, the response is the redirect to the login page, with the message asking to log
  in flashed into the session; the answer to \<open>OPTIONS\<close> is Flask's own, and any other
  method gets the error 405.
\<close>

theorem unauthenticated_admin_request:
  assumes "is_admin_route (url req)"
    and "\<not> is_authenticated (try_trigger_before_first_request_functions hash got_first_request st)
             (cookie req)"
  shows "snd (snd (full_dispatch_request hash got_first_request e st req))
           = try_trigger_before_first_request_functions hash got_first_request st
       \<and> patients (snd (snd (full_dispatch_request hash got_first_request e st req))) = patients st
       \<and> doctors (snd (snd (full_dispatch_request hash got_first_request e st req))) = doctors st
       \<and> appointments (snd (snd (full_dispatch_request hash got_first_request e st req)))
           = appointments st
       \<and> (got_first_request \<or> (\<exists>u \<in> set (admin_users st). username u = ascii ''admin'') \<longrightarrow>
            snd (snd (full_dispatch_request hash got_first_request e st req)) = st)
       \<and> (\<not> got_first_request \<and> (\<forall>u \<in> set (admin_users st). username u \<noteq> ascii ''admin'') \<longrightarrow>
            admin_users (snd (snd (full_dispatch_request hash got_first_request e st req)))
              = admin_users st @
                [\<lparr>au_id = next_id (map au_id (admin_users st)), username = ascii ''admin'',
                  password_hash = hash (ascii ''admin123'')\<rparr>])
       \<and> (meth req \<in> set (route_methods (url req)) \<longrightarrow>
            fst (full_dispatch_request hash got_first_request e st req) = Redirect E_login
          \<and> fst (snd (full_dispatch_request hash got_first_request e st req))
              = flash M_please_log_in C_message (cookie req))
       \<and> (meth req = OPTIONS \<longrightarrow>
            fst (full_dispatch_request hash got_first_request e st req) = Options_response)
       \<and> (meth req \<noteq> OPTIONS \<and> meth req \<notin> set (route_methods (url req)) \<longrightarrow>
            fst (full_dispatch_request hash got_first_request e st req) = Abort 405)"
proof -
  let ?st = "try_trigger_before_first_request_functions hash got_first_request st"
  let ?r = "full_dispatch_request hash got_first_request e st req"
  have r: "?r = (if meth req = OPTIONS then (Options_response, cookie req, ?st)
      else if meth req \<notin> set (route_methods (url req)) then (Abort 405, cookie req, ?st)
      else (Redirect E_login, flash M_please_log_in C_message (cookie req), ?st))"
    unfolding full_dispatch_request_def by (rule handle_request_anonymous[OF assms])
  have 1: "snd (snd ?r) = ?st" by (simp add: r)
  have 5: "got_first_request \<or> (\<exists>u \<in> set (admin_users st). username u = ascii ''admin'') \<longrightarrow>
            snd (snd ?r) = st"
    unfolding 1 using hook_admin_users(1)[of got_first_request st hash] by blast
  have 6: "\<not> got_first_request \<and> (\<forall>u \<in> set (admin_users st). username u \<noteq> ascii ''admin'') \<longrightarrow>
            admin_users (snd (snd ?r))
              = admin_users st @
                [\<lparr>au_id = next_id (map au_id (admin_users st)), username = ascii ''admin'',
                  password_hash = hash (ascii ''admin123'')\<rparr>]"
    unfolding 1 using hook_admin_users(2)[of got_first_request st hash] by blast
  have 7: "meth req \<in> set (route_methods (url req)) \<longrightarrow>
            fst ?r = Redirect E_login
          \<and> fst (snd ?r) = flash M_please_log_in C_message (cookie req)"
    using OPTIONS_not_routed[of "url req"] by (auto simp: r)
  have 8: "meth req = OPTIONS \<longrightarrow> fst ?r = Options_response" by (simp add: r)
  have 9: "meth req \<noteq> OPTIONS \<and> meth req \<notin> set (route_methods (url req)) \<longrightarrow> fst ?r = Abort 405"
    by (simp add: r)
  show ?thesis
    by (rule conjI[OF 1 conjI[OF _ conjI[OF _ conjI[OF _ conjI[OF 5 conjI[OF 6 conjI[OF 7
          conjI[OF 8 9]]]]]]]]) (simp_all only: 1 hook_tables)
qed

theorem unauthenticated_admin_request_witness:
  "is_admin_route (E_delete_patient 2)
   \<and> \<not> is_authenticated (try_trigger_before_first_request_functions ex_hash False
          (ex_db\<lparr>admin_users := []\<rparr>)) anonymous
   \<and> query_get p_id (patients ex_db) 2 \<noteq> None
   \<and> full_dispatch_request ex_hash False ex_env (ex_db\<lparr>admin_users := []\<rparr>)
        (ex_request POST (E_delete_patient 2) [] anonymous)
       = (Redirect E_login, flash M_please_log_in C_message anonymous, ex_db)
   \<and> full_dispatch_request ex_hash True ex_env ex_db
        (ex_request GET E_patients [] anonymous)
       = (Redirect E_login, flash M_please_log_in C_message anonymous, ex_db)"
proof -
  let ?p = "ex_request POST (E_delete_patient 2) [] anonymous"
  let ?g = "ex_request GET E_patients [] anonymous"
  let ?st = "ex_db\<lparr>admin_users := []\<rparr>"
  have a: "is_admin_route (url ?p)" "is_admin_route (url ?g)"
    by (simp_all add: is_admin_route_def)
  have b: "\<not> is_authenticated (try_trigger_before_first_request_functions ex_hash False ?st) (cookie ?p)"
    "\<not> is_authenticated (try_trigger_before_first_request_functions ex_hash True ex_db) (cookie ?g)"
    by simp_all
  have c: "meth ?p \<in> set (route_methods (url ?p))" "meth ?g \<in> set (route_methods (url ?g))"
    by (simp_all add: route_methods_def)
  have d: "query_get p_id (patients ex_db) 2 \<noteq> None"
    by (simp add: query_get_def ex_db_def)
  have h: "try_trigger_before_first_request_functions ex_hash False ?st = ex_db"
    by (simp add: try_trigger_before_first_request_functions_def create_admin_def ex_hash_def
        next_id_def ex_db_def)
  note P = unauthenticated_admin_request[OF a(1) b(1), where e = ex_env]
  note G = unauthenticated_admin_request[OF a(2) b(2), where e = ex_env]
  have P1: "snd (snd (full_dispatch_request ex_hash False ex_env ?st ?p)) = ex_db"
    using P h by simp
  have P2: "fst (full_dispatch_request ex_hash False ex_env ?st ?p) = Redirect E_login
          \<and> fst (snd (full_dispatch_request ex_hash False ex_env ?st ?p))
              = flash M_please_log_in C_message (cookie ?p)"
    using P c(1) by blast
  have G1: "snd (snd (full_dispatch_request ex_hash True ex_env ex_db ?g)) = ex_db"
    using G by blast
  have G2: "fst (full_dispatch_request ex_hash True ex_env ex_db ?g) = Redirect E_login
          \<and> fst (snd (full_dispatch_request ex_hash True ex_env ex_db ?g))
              = flash M_please_log_in C_message (cookie ?g)"
    using G c(2) by blast
  have Pe: "full_dispatch_request ex_hash False ex_env ?st ?p
       = (Redirect E_login, flash M_please_log_in C_message anonymous, ex_db)"
    using P1 P2 by (simp add: prod_eq_iff)
  have Ge: "full_dispatch_request ex_hash True ex_env ex_db ?g
       = (Redirect E_login, flash M_please_log_in C_message anonymous, ex_db)"
    using G1 G2 by (simp add: prod_eq_iff)
  show ?thesis using a(1) b(1) d Pe Ge by (simp only: ex_request_sel simp_thms)
qed

text \<open>
  Two requests without a session that are not answered with the redirect and an
  unchanged database. A \<open>GET\<close> of a delete URL is answered with the error 405, not with
  the redirect: the delete routes take \<open>POST\<close> only. And when the first request the
  process serves is a \<open>GET\<close> of the dashboard, on a database with no user named
  \<open>admin\<close>, the hook writes that user into \<open>admin_users\<close> before the redirect is given.
\<close>

theorem admin_request_not_redirected:
  "is_admin_route (E_delete_patient 2) \<and> is_admin_route E_dashboard
   \<and> \<not> is_authenticated ex_db anonymous
   \<and> full_dispatch_request ex_hash True ex_env ex_db
        (ex_request GET (E_delete_patient 2) [] anonymous)
       = (Abort 405, anonymous, ex_db)
   \<and> admin_users (ex_db\<lparr>admin_users := []\<rparr>) = []
   \<and> full_dispatch_request ex_hash False ex_env (ex_db\<lparr>admin_users := []\<rparr>)
        (ex_request GET E_dashboard [] anonymous)
       = (Redirect E_login, flash M_please_log_in C_message anonymous,
          ex_db\<lparr>admin_users := [\<lparr>au_id = 1, username = ascii ''admin'',
                                   password_hash = ascii ''admin123''\<rparr>]\<rparr>)"
proof -
  have h: "try_trigger_before_first_request_functions ex_hash False (ex_db\<lparr>admin_users := []\<rparr>)
      = ex_db\<lparr>admin_users := [\<lparr>au_id = 1, username = ascii ''admin'',
                                   password_hash = ascii ''admin123''\<rparr>]\<rparr>"
    by (simp add: try_trigger_before_first_request_functions_def create_admin_def ex_hash_def
        next_id_def)
  have 1: "full_dispatch_request ex_hash True ex_env ex_db
        (ex_request GET (E_delete_patient 2) [] anonymous) = (Abort 405, anonymous, ex_db)"
    by (simp add: full_dispatch_request_def try_trigger_before_first_request_functions_def
        handle_request_def route_methods_def)
  have 2: "full_dispatch_request ex_hash False ex_env (ex_db\<lparr>admin_users := []\<rparr>)
        (ex_request GET E_dashboard [] anonymous)
       = (Redirect E_login, flash M_please_log_in C_message anonymous,
          ex_db\<lparr>admin_users := [\<lparr>au_id = 1, username = ascii ''admin'',
                                   password_hash = ascii ''admin123''\<rparr>]\<rparr>)"
    unfolding full_dispatch_request_def h
    by (simp add: handle_request_def route_methods_def dispatch_def login_required_anonymous)
  show ?thesis using 1 2 by (simp add: is_admin_route_def)
qed

lemma is_submitted_POST [simp]: "meth req = POST \<Longrightarrow> is_submitted req"
  by (simp add: is_submitted_def)

lemma handle_request_view:
  assumes "is_authenticated st (cookie req)" "meth req \<in> set (route_methods (url req))"
  shows "handle_request e st req =
     (case url req of
        E_index \<Rightarrow> index e st req
      | E_login \<Rightarrow> login e st req
      | E_logout \<Rightarrow> logout e st req
      | E_dashboard \<Rightarrow> dashboard e st req
      | E_patients \<Rightarrow> patients_view e st req
      | E_add_patient \<Rightarrow> add_patient e st req
      | E_edit_patient i \<Rightarrow> edit_patient i e st req
      | E_delete_patient i \<Rightarrow> delete_patient i e st req
      | E_doctors \<Rightarrow> doctors_view e st req
      | E_add_doctor \<Rightarrow> add_doctor e st req
      | E_edit_doctor i \<Rightarrow> edit_doctor i e st req
      | E_delete_doctor i \<Rightarrow> delete_doctor i e st req
      | E_appointments \<Rightarrow> appointments_view e st req
      | E_add_appointment \<Rightarrow> add_appointment e st req
      | E_edit_appointment i \<Rightarrow> edit_appointment i e st req
      | E_delete_appointment i \<Rightarrow> delete_appointment i e st req)"
proof -
  have "meth req \<noteq> OPTIONS"
    using assms(2) by (auto simp: route_methods_def split: endpoint.splits)
  with assms show ?thesis
    by (simp add: handle_request_def dispatch_def login_required_authenticated split: endpoint.splits)
qed

section \<open>Logging in\<close>

lemma DataRequired_Pass: "strip s \<noteq> [] \<Longrightarrow> DataRequired (Some s) = Pass"
  by (auto simp: DataRequired_def strip_def)

lemma LoginForm_posted:
  assumes "meth req = POST" "csrf_valid req"
    "form req ''username'' = Some u" "form req ''password'' = Some p"
    "strip u \<noteq> []" "strip p \<noteq> []"
  shows "LoginForm_validate_on_submit req = \<lparr>lf_username = Some u, lf_password = Some p, lf_errors = []\<rparr>"
  using assms
  by (simp add: LoginForm_validate_on_submit_def LoginForm_init_def LoginForm_validate_def
      formdata_def process_str_def DataRequired_Pass tag_def csrf_errors_def)

lemma login_rejected:
  assumes "\<not> is_authenticated st (cookie req)" "meth req = POST" "csrf_valid req"
    "form req ''username'' = Some u" "form req ''password'' = Some p"
    "strip u \<noteq> []" "strip p \<noteq> []"
    "case find (\<lambda>a. username a = u) (admin_users st) of
       None \<Rightarrow> True | Some a \<Rightarrow> \<not> check_password_hash e (password_hash a) p"
  shows "login e st req =
     (Render (login_html \<lparr>lf_username = Some u, lf_password = Some p, lf_errors = []\<rparr>),
      flash M_login_invalid C_danger (cookie req), st)"
  using assms(1,2,8) LoginForm_posted[OF assms(2-7)]
  by (simp add: login_def split: option.splits)

lemma flash_user_id [simp]: "user_id (flash m c s) = user_id s"
  by (simp add: flash_def)

lemma is_authenticated_flash [simp]: "is_authenticated st (flash m c s) = is_authenticated st s"
  by (simp add: is_authenticated_def current_user_def)

text \<open>
  Claim C2. Take two submissions of the login form that pass its validation (a posted
  user name and password that are not blank, a valid CSRF token), neither from a
  logged-in session: one names a user the table does not have, the other names a user it
  has, with a password the stored hash rejects. Both get the same answer: the login page
  rendered again with the form as it was posted, the one message that the user name or
  the password is wrong flashed into the session, no user stored in the session, the
  database untouched. The answer is a function of the request alone, so the same
  submission gets the same response and session whether or not the user exists.
\<close>

theorem failed_logins_indistinguishable:
  assumes "\<not> is_authenticated st1 (cookie r1)" and "\<not> is_authenticated st2 (cookie r2)"
    and "meth r1 = POST" and "meth r2 = POST" and "csrf_valid r1" and "csrf_valid r2"
    and "form r1 ''username'' = Some u1" and "form r1 ''password'' = Some p1"
    and "form r2 ''username'' = Some u2" and "form r2 ''password'' = Some p2"
    and "strip u1 \<noteq> []" and "strip p1 \<noteq> []" and "strip u2 \<noteq> []" and "strip p2 \<noteq> []"
    and unknown: "find (\<lambda>a. username a = u1) (admin_users st1) = None"
    and known: "find (\<lambda>a. username a = u2) (admin_users st2) = Some a"
    and wrong: "\<not> check_password_hash e (password_hash a) p2"
  shows "login e st1 r1 =
           (Render (login_html \<lparr>lf_username = Some u1, lf_password = Some p1, lf_errors = []\<rparr>),
            flash M_login_invalid C_danger (cookie r1), st1)
       \<and> login e st2 r2 =
           (Render (login_html \<lparr>lf_username = Some u2, lf_password = Some p2, lf_errors = []\<rparr>),
            flash M_login_invalid C_danger (cookie r2), st2)
       \<and> \<not> is_authenticated st1 (fst (snd (login e st1 r1)))
       \<and> \<not> is_authenticated st2 (fst (snd (login e st2 r2)))
       \<and> (u1 = u2 \<and> p1 = p2 \<and> cookie r1 = cookie r2 \<longrightarrow>
            fst (login e st1 r1) = fst (login e st2 r2)
          \<and> fst (snd (login e st1 r1)) = fst (snd (login e st2 r2)))"
proof -
  have 1: "login e st1 r1 =
           (Render (login_html \<lparr>lf_username = Some u1, lf_password = Some p1, lf_errors = []\<rparr>),
            flash M_login_invalid C_danger (cookie r1), st1)"
    using assms by (intro login_rejected) simp_all
  have 2: "login e st2 r2 =
           (Render (login_html \<lparr>lf_username = Some u2, lf_password = Some p2, lf_errors = []\<rparr>),
            flash M_login_invalid C_danger (cookie r2), st2)"
    using assms by (intro login_rejected) simp_all
  show ?thesis using assms(1,2) by (simp add: 1 2)
qed

theorem failed_logins_indistinguishable_witness:
  "find (\<lambda>a. username a = ascii ''admin'') (admin_users (ex_db\<lparr>admin_users := []\<rparr>)) = None
   \<and> find (\<lambda>a. username a = ascii ''admin'') (admin_users ex_db)
       = Some \<lparr>au_id = 1, username = ascii ''admin'', password_hash = ascii ''admin123''\<rparr>
   \<and> login ex_env (ex_db\<lparr>admin_users := []\<rparr>)
        (ex_request POST E_login [(''username'', ascii ''admin''), (''password'', ascii ''letmein'')] anonymous)
     = (Render (login_html \<lparr>lf_username = Some (ascii ''admin''), lf_password = Some (ascii ''letmein''),
                            lf_errors = []\<rparr>),
        flash M_login_invalid C_danger anonymous, ex_db\<lparr>admin_users := []\<rparr>)
   \<and> fst (login ex_env ex_db
        (ex_request POST E_login [(''username'', ascii ''admin''), (''password'', ascii ''letmein'')] anonymous))
     = fst (login ex_env (ex_db\<lparr>admin_users := []\<rparr>)
        (ex_request POST E_login [(''username'', ascii ''admin''), (''password'', ascii ''letmein'')] anonymous))
   \<and> fst (snd (login ex_env ex_db
        (ex_request POST E_login [(''username'', ascii ''admin''), (''password'', ascii ''letmein'')] anonymous)))
     = flash M_login_invalid C_danger anonymous"
proof -
  let ?r = "ex_request POST E_login [(''username'', ascii ''admin''), (''password'', ascii ''letmein'')] anonymous"
  have s1: "strip (ascii ''admin'') \<noteq> []" by code_simp
  have s2: "strip (ascii ''letmein'') \<noteq> []" by code_simp
  have k: "find (\<lambda>a. username a = ascii ''admin'') (admin_users ex_db)
       = Some \<lparr>au_id = 1, username = ascii ''admin'', password_hash = ascii ''admin123''\<rparr>"
    by (simp add: ex_db_def)
  have w: "\<not> check_password_hash ex_env
       (password_hash \<lparr>au_id = 1, username = ascii ''admin'', password_hash = ascii ''admin123''\<rparr>)
       (ascii ''letmein'')"
    by (simp add: ex_env_def ascii_def)
  have u: "find (\<lambda>a. username a = ascii ''admin'') (admin_users (ex_db\<lparr>admin_users := []\<rparr>)) = None"
    by simp
  from failed_logins_indistinguishable[of "ex_db\<lparr>admin_users := []\<rparr>" ?r ex_db ?r
      "ascii ''admin''" "ascii ''letmein''" "ascii ''admin''" "ascii ''letmein''" _ ex_env, OF _ _ _ _ _ _ _ _ _ _ s1 s2 s1 s2 u k w]
  show ?thesis using k by simp
qed

section \<open>The dashboard\<close>

text \<open>
  Claim C9. For a logged-in \<open>GET\<close> of the dashboard the database and the session come
  back unchanged, and the count of today's appointments is the number of rows of the
  appointments table whose date part is the date the server's clock shows; with two
  rows, one dated today and one dated another day, the count is 1.
\<close>

theorem dashboard_counts_today:
  assumes "is_authenticated st (cookie req)" and "url req = E_dashboard" and "meth req = GET"
  shows "\<exists>s. handle_request e st req = (Render (dashboard_html s), cookie req, st)
     \<and> stat_today_appointments s
        = card {k. k < length (appointments st)
                 \<and> date_of (appointment_date (appointments st ! k)) = today e}
     \<and> (\<forall>a b. appointments st = [a, b] \<and> date_of (appointment_date a) = today e
               \<and> date_of (appointment_date b) \<noteq> today e
            \<longrightarrow> stat_today_appointments s = 1)"
proof -
  let ?n = "length (filter (\<lambda>a. date_of (appointment_date a) = today e) (appointments st))"
  let ?s = "\<lparr>stat_patients = length (patients st), stat_doctors = length (doctors st),
             stat_appointments = length (appointments st), stat_today_appointments = ?n\<rparr>"
  have "handle_request e st req = dashboard e st req"
    using assms by (simp add: handle_request_view route_methods_def)
  then have 1: "handle_request e st req = (Render (dashboard_html ?s), cookie req, st)"
    by (simp add: dashboard_def)
  have 2: "?n = card {k. k < length (appointments st)
                 \<and> date_of (appointment_date (appointments st ! k)) = today e}"
    by (rule length_filter_conv_card)
  have 3: "\<forall>a b. appointments st = [a, b] \<and> date_of (appointment_date a) = today e
               \<and> date_of (appointment_date b) \<noteq> today e \<longrightarrow> ?n = 1"
    by simp
  have "handle_request e st req = (Render (dashboard_html ?s), cookie req, st)
     \<and> stat_today_appointments ?s
        = card {k. k < length (appointments st)
                 \<and> date_of (appointment_date (appointments st ! k)) = today e}
     \<and> (\<forall>a b. appointments st = [a, b] \<and> date_of (appointment_date a) = today e
               \<and> date_of (appointment_date b) \<noteq> today e
            \<longrightarrow> stat_today_appointments ?s = 1)"
    using 1 2 3 by simp
  then show ?thesis by blast
qed

theorem dashboard_counts_today_witness:
  "is_authenticated ex_db admin_session
   \<and> map (\<lambda>a. date_of (appointment_date a)) (appointments ex_db)
       = [today ex_env, \<lparr>year = 2024, month = 3, day = 14\<rparr>]
   \<and> (\<exists>s. handle_request ex_env ex_db (ex_request GET E_dashboard [] admin_session)
            = (Render (dashboard_html s), admin_session, ex_db)
          \<and> stat_today_appointments s = 1)"
proof -
  have d: "map (\<lambda>a. date_of (appointment_date a)) (appointments ex_db)
       = [today ex_env, \<lparr>year = 2024, month = 3, day = 14\<rparr>]"
    by (simp add: ex_db_def ex_env_def date_of_def)
  then obtain a b where ab: "appointments ex_db = [a, b]" "date_of (appointment_date a) = today ex_env"
     "date_of (appointment_date b) \<noteq> today ex_env"
    by (auto simp: ex_env_def)
  from dashboard_counts_today[of ex_db "ex_request GET E_dashboard [] admin_session" ex_env] ab d
  show ?thesis by auto
qed

section \<open>Editing an appointment keeps its date\<close>

lemma query_get_map_update:
  assumes "\<And>r. key (g r) = key r"
  shows "query_get key (map (\<lambda>r. if key r = i then g r else r) rows) i
       = map_option g (query_get key rows i)"
  using assms by (induction rows) (simp_all add: query_get_def)








section \<open>Deleting and listing\<close>

lemma fold_max_ge: "a \<le> fold max ids a \<and> (\<forall>x \<in> set ids. x \<le> fold max ids a)" for a :: int
proof (induction ids arbitrary: a)
  case Nil
  show ?case by simp
next
  case (Cons y ys)
  from Cons[of "max y a"] show ?case by auto
qed

lemma next_id_fresh: "next_id ids \<notin> set ids"
  using fold_max_ge[of 0 ids] by (auto simp: next_id_def)

lemma query_get_filter_None: "query_get key (filter (\<lambda>r. key r \<noteq> i) rows) i = None"
  by (induction rows) (simp_all add: query_get_def)

lemma paginate_items:
  "paginate rows pg n = Some p \<Longrightarrow>
   items p = take n (drop (nat (pg - 1) * n) rows) \<and> page p = pg \<and> 1 \<le> pg"
  by (auto simp: paginate_def Let_def split: if_splits)

lemma paginate_subset: "paginate rows pg n = Some p \<Longrightarrow> set (items p) \<subseteq> set rows"
proof -
  assume "paginate rows pg n = Some p"
  then have "items p = take n (drop (nat (pg - 1) * n) rows)" by (simp add: paginate_items)
  then show ?thesis
    using set_take_subset[of n "drop (nat (pg - 1) * n) rows"] set_drop_subset[of "nat (pg - 1) * n" rows]
    by simp
qed

lemma delete_patient_gone:
  assumes "delete_patient i e st req = (Redirect E_patients, s', st')"
  shows "(\<forall>e2 r2 pg s2 st2. patients_view e2 st' r2 = (Render (patients_html pg), s2, st2)
            \<longrightarrow> i \<notin> p_id ` set (items pg))
       \<and> (\<forall>e3 r3. delete_patient i e3 st' r3 = (Abort 404, cookie r3, st'))"
proof -
  from assms have st': "patients st' = filter (\<lambda>r. p_id r \<noteq> i) (patients st)"
    by (auto simp: delete_patient_def split: option.splits if_splits)
  have "i \<notin> p_id ` set (items pg)"
    if "patients_view e2 st' r2 = (Render (patients_html pg), s2, st2)" for e2 r2 pg s2 st2
  proof -
    from that have "paginate (patients st') (page_arg e2 r2) 10 = Some pg"
      by (auto simp: patients_view_def split: option.splits)
    from paginate_subset[OF this] show ?thesis by (auto simp: st')
  qed
  moreover have "delete_patient i e3 st' r3 = (Abort 404, cookie r3, st')" for e3 r3
    by (simp add: delete_patient_def st' query_get_filter_None)
  ultimately show ?thesis by blast
qed

lemma delete_doctor_gone:
  assumes "delete_doctor i e st req = (Redirect E_doctors, s', st')"
  shows "(\<forall>e2 r2 pg s2 st2. doctors_view e2 st' r2 = (Render (doctors_html pg), s2, st2)
            \<longrightarrow> i \<notin> d_id ` set (items pg))
       \<and> (\<forall>e3 r3. delete_doctor i e3 st' r3 = (Abort 404, cookie r3, st'))"
proof -
  from assms have st': "doctors st' = filter (\<lambda>r. d_id r \<noteq> i) (doctors st)"
    by (auto simp: delete_doctor_def split: option.splits if_splits)
  have "i \<notin> d_id ` set (items pg)"
    if "doctors_view e2 st' r2 = (Render (doctors_html pg), s2, st2)" for e2 r2 pg s2 st2
  proof -
    from that have "paginate (doctors st') (page_arg e2 r2) 10 = Some pg"
      by (auto simp: doctors_view_def split: option.splits)
    from paginate_subset[OF this] show ?thesis by (auto simp: st')
  qed
  moreover have "delete_doctor i e3 st' r3 = (Abort 404, cookie r3, st')" for e3 r3
    by (simp add: delete_doctor_def st' query_get_filter_None)
  ultimately show ?thesis by blast
qed

lemma delete_appointment_gone:
  assumes "delete_appointment i e st req = (Redirect E_appointments, s', st')"
  shows "(\<forall>e2 r2 pg s2 st2. appointments_view e2 st' r2 = (Render (appointments_html pg), s2, st2)
            \<longrightarrow> i \<notin> a_id ` set (items pg))
       \<and> (\<forall>e3 r3. delete_appointment i e3 st' r3 = (Abort 404, cookie r3, st'))"
proof -
  from assms have st': "appointments st' = filter (\<lambda>r. a_id r \<noteq> i) (appointments st)"
    by (auto simp: delete_appointment_def split: option.splits if_splits)
  have "i \<notin> a_id ` set (items pg)"
    if "appointments_view e2 st' r2 = (Render (appointments_html pg), s2, st2)" for e2 r2 pg s2 st2
  proof -
    from that have "paginate (rev (sort_key (\<lambda>a. datetime_key (appointment_date a)) (appointments st')))
        (page_arg e2 r2) 10 = Some pg"
      by (auto simp: appointments_view_def split: option.splits)
    from paginate_subset[OF this] show ?thesis by (auto simp: st')
  qed
  moreover have "delete_appointment i e3 st' r3 = (Abort 404, cookie r3, st')" for e3 r3
    by (simp add: delete_appointment_def st' query_get_filter_None)
  ultimately show ?thesis by blast
qed

text \<open>What each delete view answers when the row is there.\<close>

lemma delete_patient_succeeds:
  assumes "query_get p_id (patients st) i = Some p"
    and "\<forall>a \<in> set (appointments st). patient_id a \<noteq> i"
  shows "delete_patient i e st req
       = (Redirect E_patients, flash M_patient_deleted C_warning (cookie req),
          st\<lparr>patients := filter (\<lambda>r. p_id r \<noteq> i) (patients st)\<rparr>)"
  using assms by (simp add: delete_patient_def)

lemma delete_doctor_succeeds:
  assumes "query_get d_id (doctors st) i = Some d"
    and "\<forall>a \<in> set (appointments st). doctor_id a \<noteq> i"
  shows "delete_doctor i e st req
       = (Redirect E_doctors, flash M_doctor_deleted C_warning (cookie req),
          st\<lparr>doctors := filter (\<lambda>r. d_id r \<noteq> i) (doctors st)\<rparr>)"
  using assms by (simp add: delete_doctor_def)

lemma delete_appointment_succeeds:
  assumes "query_get a_id (appointments st) i = Some a"
  shows "delete_appointment i e st req
       = (Redirect E_appointments, flash M_appointment_deleted C_warning (cookie req),
          st\<lparr>appointments := filter (\<lambda>r. a_id r \<noteq> i) (appointments st)\<rparr>)"
  using assms by (simp add: delete_appointment_def)

lemma delete_patient_Redirect:
  assumes "delete_patient i e st req = (Redirect E_patients, s', st')"
  shows "query_get p_id (patients st) i \<noteq> None
       \<and> st' = st\<lparr>patients := filter (\<lambda>r. p_id r \<noteq> i) (patients st)\<rparr>"
  using assms by (auto simp: delete_patient_def split: option.splits if_splits)

lemma delete_doctor_Redirect:
  assumes "delete_doctor i e st req = (Redirect E_doctors, s', st')"
  shows "query_get d_id (doctors st) i \<noteq> None
       \<and> st' = st\<lparr>doctors := filter (\<lambda>r. d_id r \<noteq> i) (doctors st)\<rparr>"
  using assms by (auto simp: delete_doctor_def split: option.splits if_splits)

lemma delete_appointment_Redirect:
  assumes "delete_appointment i e st req = (Redirect E_appointments, s', st')"
  shows "query_get a_id (appointments st) i \<noteq> None
       \<and> st' = st\<lparr>appointments := filter (\<lambda>r. a_id r \<noteq> i) (appointments st)\<rparr>"
  using assms by (auto simp: delete_appointment_def split: option.splits if_splits)

text \<open>The first page of a list is always rendered.\<close>

lemma paginate_first: "paginate rows 1 n = Some \<lparr>items = take n rows, page = 1, per_page = n, total = length rows\<rparr>"
  by (simp add: paginate_def)

lemma patients_view_first:
  "page_arg e req = 1 \<Longrightarrow>
   patients_view e st req
     = (Render (patients_html \<lparr>items = take 10 (patients st), page = 1, per_page = 10,
                               total = length (patients st)\<rparr>), cookie req, st)"
  by (simp add: patients_view_def paginate_first)

lemma doctors_view_first:
  "page_arg e req = 1 \<Longrightarrow>
   doctors_view e st req
     = (Render (doctors_html \<lparr>items = take 10 (doctors st), page = 1, per_page = 10,
                              total = length (doctors st)\<rparr>), cookie req, st)"
  by (simp add: doctors_view_def paginate_first)

lemma appointments_view_first:
  "page_arg e req = 1 \<Longrightarrow>
   appointments_view e st req
     = (Render (appointments_html
          \<lparr>items = take 10 (rev (sort_key (\<lambda>a. datetime_key (appointment_date a)) (appointments st))),
           page = 1, per_page = 10, total = length (appointments st)\<rparr>), cookie req, st)"
  by (simp add: appointments_view_def paginate_first)

lemma page_arg_default: "args req ''page'' = None \<Longrightarrow> page_arg e req = 1"
  by (simp add: page_arg_def)

text \<open>
  Claim C5. A delete succeeds, with the redirect to the list and the row taken out of the
  table, whenever the row is there and, for a patient or a doctor, no appointment refers
  to it (a patient or doctor that appointments still refer to is not deleted: error 500,
  nothing changed). A delete that has answered with the redirect had the row, and has
  left the table without it: afterwards no page of the list that is rendered shows a row
  with the deleted id, the first page of the list is rendered and does not show it, and
  deleting the same id again answers 404. For patients, doctors and appointments alike.
\<close>

theorem delete_then_gone:
  "(\<forall>p. query_get p_id (patients st) i = Some p \<and> (\<forall>a \<in> set (appointments st). patient_id a \<noteq> i) \<longrightarrow>
      delete_patient i e st req
        = (Redirect E_patients, flash M_patient_deleted C_warning (cookie req),
           st\<lparr>patients := filter (\<lambda>r. p_id r \<noteq> i) (patients st)\<rparr>))
 \<and> (\<forall>d. query_get d_id (doctors st) i = Some d \<and> (\<forall>a \<in> set (appointments st). doctor_id a \<noteq> i) \<longrightarrow>
      delete_doctor i e st req
        = (Redirect E_doctors, flash M_doctor_deleted C_warning (cookie req),
           st\<lparr>doctors := filter (\<lambda>r. d_id r \<noteq> i) (doctors st)\<rparr>))
 \<and> (\<forall>a. query_get a_id (appointments st) i = Some a \<longrightarrow>
      delete_appointment i e st req
        = (Redirect E_appointments, flash M_appointment_deleted C_warning (cookie req),
           st\<lparr>appointments := filter (\<lambda>r. a_id r \<noteq> i) (appointments st)\<rparr>))
 \<and> (\<forall>p. query_get p_id (patients st) i = Some p \<and> (\<exists>a \<in> set (appointments st). patient_id a = i) \<longrightarrow>
      delete_patient i e st req = (Abort 500, cookie req, st))
 \<and> (\<forall>d. query_get d_id (doctors st) i = Some d \<and> (\<exists>a \<in> set (appointments st). doctor_id a = i) \<longrightarrow>
      delete_doctor i e st req = (Abort 500, cookie req, st))
 \<and> (delete_patient i e st req = (Redirect E_patients, s', st') \<longrightarrow>
      query_get p_id (patients st) i \<noteq> None
       \<and> st' = st\<lparr>patients := filter (\<lambda>r. p_id r \<noteq> i) (patients st)\<rparr>
       \<and> (\<forall>e2 r2 pg s2 st2. patients_view e2 st' r2 = (Render (patients_html pg), s2, st2)
            \<longrightarrow> i \<notin> p_id ` set (items pg))
       \<and> (\<forall>e2 r2. page_arg e2 r2 = 1 \<longrightarrow>
            (\<exists>pg. patients_view e2 st' r2 = (Render (patients_html pg), cookie r2, st')
                 \<and> items pg = take 10 (patients st') \<and> i \<notin> p_id ` set (items pg)))
       \<and> (\<forall>e3 r3. delete_patient i e3 st' r3 = (Abort 404, cookie r3, st')))
 \<and> (delete_doctor i e st req = (Redirect E_doctors, s', st') \<longrightarrow>
      query_get d_id (doctors st) i \<noteq> None
       \<and> st' = st\<lparr>doctors := filter (\<lambda>r. d_id r \<noteq> i) (doctors st)\<rparr>
       \<and> (\<forall>e2 r2 pg s2 st2. doctors_view e2 st' r2 = (Render (doctors_html pg), s2, st2)
            \<longrightarrow> i \<notin> d_id ` set (items pg))
       \<and> (\<forall>e2 r2. page_arg e2 r2 = 1 \<longrightarrow>
            (\<exists>pg. doctors_view e2 st' r2 = (Render (doctors_html pg), cookie r2, st')
                 \<and> items pg = take 10 (doctors st') \<and> i \<notin> d_id ` set (items pg)))
       \<and> (\<forall>e3 r3. delete_doctor i e3 st' r3 = (Abort 404, cookie r3, st')))
 \<and> (delete_appointment i e st req = (Redirect E_appointments, s', st') \<longrightarrow>
      query_get a_id (appointments st) i \<noteq> None
       \<and> st' = st\<lparr>appointments := filter (\<lambda>r. a_id r \<noteq> i) (appointments st)\<rparr>
       \<and> (\<forall>e2 r2 pg s2 st2. appointments_view e2 st' r2 = (Render (appointments_html pg), s2, st2)
            \<longrightarrow> i \<notin> a_id ` set (items pg))
       \<and> (\<forall>e2 r2. page_arg e2 r2 = 1 \<longrightarrow>
            (\<exists>pg. appointments_view e2 st' r2 = (Render (appointments_html pg), cookie r2, st')
                 \<and> items pg = take 10 (rev (sort_key (\<lambda>a. datetime_key (appointment_date a))
                                                (appointments st')))
                 \<and> i \<notin> a_id ` set (items pg)))
       \<and> (\<forall>e3 r3. delete_appointment i e3 st' r3 = (Abort 404, cookie r3, st')))"
proof -
  have 1: "\<forall>p. query_get p_id (patients st) i = Some p \<and> (\<forall>a \<in> set (appointments st). patient_id a \<noteq> i) \<longrightarrow>
      delete_patient i e st req
        = (Redirect E_patients, flash M_patient_deleted C_warning (cookie req),
           st\<lparr>patients := filter (\<lambda>r. p_id r \<noteq> i) (patients st)\<rparr>)"
    using delete_patient_succeeds by blast
  have 2: "\<forall>d. query_get d_id (doctors st) i = Some d \<and> (\<forall>a \<in> set (appointments st). doctor_id a \<noteq> i) \<longrightarrow>
      delete_doctor i e st req
        = (Redirect E_doctors, flash M_doctor_deleted C_warning (cookie req),
           st\<lparr>doctors := filter (\<lambda>r. d_id r \<noteq> i) (doctors st)\<rparr>)"
    using delete_doctor_succeeds by blast
  have 3: "\<forall>a. query_get a_id (appointments st) i = Some a \<longrightarrow>
      delete_appointment i e st req
        = (Redirect E_appointments, flash M_appointment_deleted C_warning (cookie req),
           st\<lparr>appointments := filter (\<lambda>r. a_id r \<noteq> i) (appointments st)\<rparr>)"
    using delete_appointment_succeeds by blast
  have 4: "\<forall>p. query_get p_id (patients st) i = Some p \<and> (\<exists>a \<in> set (appointments st). patient_id a = i) \<longrightarrow>
      delete_patient i e st req = (Abort 500, cookie req, st)"
    by (auto simp: delete_patient_def)
  have 5: "\<forall>d. query_get d_id (doctors st) i = Some d \<and> (\<exists>a \<in> set (appointments st). doctor_id a = i) \<longrightarrow>
      delete_doctor i e st req = (Abort 500, cookie req, st)"
    by (auto simp: delete_doctor_def)
  have 6: "delete_patient i e st req = (Redirect E_patients, s', st') \<longrightarrow>
      query_get p_id (patients st) i \<noteq> None
       \<and> st' = st\<lparr>patients := filter (\<lambda>r. p_id r \<noteq> i) (patients st)\<rparr>
       \<and> (\<forall>e2 r2 pg s2 st2. patients_view e2 st' r2 = (Render (patients_html pg), s2, st2)
            \<longrightarrow> i \<notin> p_id ` set (items pg))
       \<and> (\<forall>e2 r2. page_arg e2 r2 = 1 \<longrightarrow>
            (\<exists>pg. patients_view e2 st' r2 = (Render (patients_html pg), cookie r2, st')
                 \<and> items pg = take 10 (patients st') \<and> i \<notin> p_id ` set (items pg)))
       \<and> (\<forall>e3 r3. delete_patient i e3 st' r3 = (Abort 404, cookie r3, st'))"
  proof
    assume d: "delete_patient i e st req = (Redirect E_patients, s', st')"
    note R = delete_patient_Redirect[OF d] and G = delete_patient_gone[OF d]
    have "\<exists>pg. patients_view e2 st' r2 = (Render (patients_html pg), cookie r2, st')
                 \<and> items pg = take 10 (patients st') \<and> i \<notin> p_id ` set (items pg)"
      if "page_arg e2 r2 = 1" for e2 r2
    proof -
      let ?pg = "\<lparr>items = take 10 (patients st'), page = 1, per_page = 10, total = length (patients st')\<rparr>"
      have v: "patients_view e2 st' r2 = (Render (patients_html ?pg), cookie r2, st')"
        by (rule patients_view_first[OF that])
      from conjunct1[OF G, rule_format, OF v] have "i \<notin> p_id ` set (items ?pg)" .
      with v show ?thesis by (intro exI[of _ ?pg]) simp
    qed
    with R G show "query_get p_id (patients st) i \<noteq> None
       \<and> st' = st\<lparr>patients := filter (\<lambda>r. p_id r \<noteq> i) (patients st)\<rparr>
       \<and> (\<forall>e2 r2 pg s2 st2. patients_view e2 st' r2 = (Render (patients_html pg), s2, st2)
            \<longrightarrow> i \<notin> p_id ` set (items pg))
       \<and> (\<forall>e2 r2. page_arg e2 r2 = 1 \<longrightarrow>
            (\<exists>pg. patients_view e2 st' r2 = (Render (patients_html pg), cookie r2, st')
                 \<and> items pg = take 10 (patients st') \<and> i \<notin> p_id ` set (items pg)))
       \<and> (\<forall>e3 r3. delete_patient i e3 st' r3 = (Abort 404, cookie r3, st'))"
      by blast
  qed
  have 7: "delete_doctor i e st req = (Redirect E_doctors, s', st') \<longrightarrow>
      query_get d_id (doctors st) i \<noteq> None
       \<and> st' = st\<lparr>doctors := filter (\<lambda>r. d_id r \<noteq> i) (doctors st)\<rparr>
       \<and> (\<forall>e2 r2 pg s2 st2. doctors_view e2 st' r2 = (Render (doctors_html pg), s2, st2)
            \<longrightarrow> i \<notin> d_id ` set (items pg))
       \<and> (\<forall>e2 r2. page_arg e2 r2 = 1 \<longrightarrow>
            (\<exists>pg. doctors_view e2 st' r2 = (Render (doctors_html pg), cookie r2, st')
                 \<and> items pg = take 10 (doctors st') \<and> i \<notin> d_id ` set (items pg)))
       \<and> (\<forall>e3 r3. delete_doctor i e3 st' r3 = (Abort 404, cookie r3, st'))"
  proof
    assume d: "delete_doctor i e st req = (Redirect E_doctors, s', st')"
    note R = delete_doctor_Redirect[OF d] and G = delete_doctor_gone[OF d]
    have "\<exists>pg. doctors_view e2 st' r2 = (Render (doctors_html pg), cookie r2, st')
                 \<and> items pg = take 10 (doctors st') \<and> i \<notin> d_id ` set (items pg)"
      if "page_arg e2 r2 = 1" for e2 r2
    proof -
      let ?pg = "\<lparr>items = take 10 (doctors st'), page = 1, per_page = 10, total = length (doctors st')\<rparr>"
      have v: "doctors_view e2 st' r2 = (Render (doctors_html ?pg), cookie r2, st')"
        by (rule doctors_view_first[OF that])
      from conjunct1[OF G, rule_format, OF v] have "i \<notin> d_id ` set (items ?pg)" .
      with v show ?thesis by (intro exI[of _ ?pg]) simp
    qed
    with R G show "query_get d_id (doctors st) i \<noteq> None
       \<and> st' = st\<lparr>doctors := filter (\<lambda>r. d_id r \<noteq> i) (doctors st)\<rparr>
       \<and> (\<forall>e2 r2 pg s2 st2. doctors_view e2 st' r2 = (Render (doctors_html pg), s2, st2)
            \<longrightarrow> i \<notin> d_id ` set (items pg))
       \<and> (\<forall>e2 r2. page_arg e2 r2 = 1 \<longrightarrow>
            (\<exists>pg. doctors_view e2 st' r2 = (Render (doctors_html pg), cookie r2, st')
                 \<and> items pg = take 10 (doctors st') \<and> i \<notin> d_id ` set (items pg)))
       \<and> (\<forall>e3 r3. delete_doctor i e3 st' r3 = (Abort 404, cookie r3, st'))"
      by blast
  qed
  have 8: "delete_appointment i e st req = (Redirect E_appointments, s', st') \<longrightarrow>
      query_get a_id (appointments st) i \<noteq> None
       \<and> st' = st\<lparr>appointments := filter (\<lambda>r. a_id r \<noteq> i) (appointments st)\<rparr>
       \<and> (\<forall>e2 r2 pg s2 st2. appointments_view e2 st' r2 = (Render (appointments_html pg), s2, st2)
            \<longrightarrow> i \<notin> a_id ` set (items pg))
       \<and> (\<forall>e2 r2. page_arg e2 r2 = 1 \<longrightarrow>
            (\<exists>pg. appointments_view e2 st' r2 = (Render (appointments_html pg), cookie r2, st')
                 \<and> items pg = take 10 (rev (sort_key (\<lambda>a. datetime_key (appointment_date a))
                                                (appointments st')))
                 \<and> i \<notin> a_id ` set (items pg)))
       \<and> (\<forall>e3 r3. delete_appointment i e3 st' r3 = (Abort 404, cookie r3, st'))"
  proof
    assume d: "delete_appointment i e st req = (Redirect E_appointments, s', st')"
    note R = delete_appointment_Redirect[OF d] and G = delete_appointment_gone[OF d]
    have "\<exists>pg. appointments_view e2 st' r2 = (Render (appointments_html pg), cookie r2, st')
                 \<and> items pg = take 10 (rev (sort_key (\<lambda>a. datetime_key (appointment_date a))
                                                (appointments st')))
                 \<and> i \<notin> a_id ` set (items pg)"
      if "page_arg e2 r2 = 1" for e2 r2
    proof -
      let ?pg = "\<lparr>items = take 10 (rev (sort_key (\<lambda>a. datetime_key (appointment_date a)) (appointments st'))),
                  page = 1, per_page = 10, total = length (appointments st')\<rparr>"
      have v: "appointments_view e2 st' r2 = (Render (appointments_html ?pg), cookie r2, st')"
        by (rule appointments_view_first[OF that])
      from conjunct1[OF G, rule_format, OF v] have "i \<notin> a_id ` set (items ?pg)" .
      with v show ?thesis by (intro exI[of _ ?pg]) simp
    qed
    with R G show "query_get a_id (appointments st) i \<noteq> None
       \<and> st' = st\<lparr>appointments := filter (\<lambda>r. a_id r \<noteq> i) (appointments st)\<rparr>
       \<and> (\<forall>e2 r2 pg s2 st2. appointments_view e2 st' r2 = (Render (appointments_html pg), s2, st2)
            \<longrightarrow> i \<notin> a_id ` set (items pg))
       \<and> (\<forall>e2 r2. page_arg e2 r2 = 1 \<longrightarrow>
            (\<exists>pg. appointments_view e2 st' r2 = (Render (appointments_html pg), cookie r2, st')
                 \<and> items pg = take 10 (rev (sort_key (\<lambda>a. datetime_key (appointment_date a))
                                                (appointments st')))
                 \<and> i \<notin> a_id ` set (items pg)))
       \<and> (\<forall>e3 r3. delete_appointment i e3 st' r3 = (Abort 404, cookie r3, st'))"
      by blast
  qed
  show ?thesis
    by (rule conjI[OF 1 conjI[OF 2 conjI[OF 3 conjI[OF 4 conjI[OF 5 conjI[OF 6 conjI[OF 7 8]]]]]]])
qed

theorem delete_then_gone_witness:
  "map p_id (patients ex_db) = [1, 2] \<and> map d_id (doctors ex_db) = [1, 2]
   \<and> map a_id (appointments ex_db) = [1, 2]
   \<and> map patient_id (appointments ex_db) = [1, 1] \<and> map doctor_id (appointments ex_db) = [1, 1]
   \<and> delete_patient 2 ex_env ex_db (ex_request POST (E_delete_patient 2) [] admin_session)
       = (Redirect E_patients, flash M_patient_deleted C_warning admin_session,
          ex_db\<lparr>patients := [hd (patients ex_db)]\<rparr>)
   \<and> delete_doctor 2 ex_env ex_db (ex_request POST (E_delete_doctor 2) [] admin_session)
       = (Redirect E_doctors, flash M_doctor_deleted C_warning admin_session,
          ex_db\<lparr>doctors := [hd (doctors ex_db)]\<rparr>)
   \<and> delete_appointment 1 ex_env ex_db (ex_request POST (E_delete_appointment 1) [] admin_session)
       = (Redirect E_appointments, flash M_appointment_deleted C_warning admin_session,
          ex_db\<lparr>appointments := [last (appointments ex_db)]\<rparr>)
   \<and> delete_patient 1 ex_env ex_db (ex_request POST (E_delete_patient 1) [] admin_session)
       = (Abort 500, admin_session, ex_db)
   \<and> patients_view ex_env (ex_db\<lparr>patients := [hd (patients ex_db)]\<rparr>)
        (ex_request GET E_patients [] admin_session)
       = (Render (patients_html \<lparr>items = [hd (patients ex_db)], page = 1, per_page = 10, total = 1\<rparr>),
          admin_session, ex_db\<lparr>patients := [hd (patients ex_db)]\<rparr>)
   \<and> doctors_view ex_env (ex_db\<lparr>doctors := [hd (doctors ex_db)]\<rparr>)
        (ex_request GET E_doctors [] admin_session)
       = (Render (doctors_html \<lparr>items = [hd (doctors ex_db)], page = 1, per_page = 10, total = 1\<rparr>),
          admin_session, ex_db\<lparr>doctors := [hd (doctors ex_db)]\<rparr>)
   \<and> appointments_view ex_env (ex_db\<lparr>appointments := [last (appointments ex_db)]\<rparr>)
        (ex_request GET E_appointments [] admin_session)
       = (Render (appointments_html
            \<lparr>items = [last (appointments ex_db)], page = 1, per_page = 10, total = 1\<rparr>),
          admin_session, ex_db\<lparr>appointments := [last (appointments ex_db)]\<rparr>)
   \<and> delete_patient 2 ex_env (ex_db\<lparr>patients := [hd (patients ex_db)]\<rparr>)
        (ex_request POST (E_delete_patient 2) [] admin_session)
       = (Abort 404, admin_session, ex_db\<lparr>patients := [hd (patients ex_db)]\<rparr>)
   \<and> delete_doctor 2 ex_env (ex_db\<lparr>doctors := [hd (doctors ex_db)]\<rparr>)
        (ex_request POST (E_delete_doctor 2) [] admin_session)
       = (Abort 404, admin_session, ex_db\<lparr>doctors := [hd (doctors ex_db)]\<rparr>)
   \<and> delete_appointment 1 ex_env (ex_db\<lparr>appointments := [last (appointments ex_db)]\<rparr>)
        (ex_request POST (E_delete_appointment 1) [] admin_session)
       = (Abort 404, admin_session, ex_db\<lparr>appointments := [last (appointments ex_db)]\<rparr>)"
proof -
  let ?rp = "ex_request POST (E_delete_patient 2) [] admin_session"
  let ?rd = "ex_request POST (E_delete_doctor 2) [] admin_session"
  let ?ra = "ex_request POST (E_delete_appointment 1) [] admin_session"
  let ?r1 = "ex_request POST (E_delete_patient 1) [] admin_session"
  let ?sp = "ex_db\<lparr>patients := [hd (patients ex_db)]\<rparr>"
  let ?sd = "ex_db\<lparr>doctors := [hd (doctors ex_db)]\<rparr>"
  let ?sa = "ex_db\<lparr>appointments := [last (appointments ex_db)]\<rparr>"
  have ids: "map p_id (patients ex_db) = [1, 2]" "map d_id (doctors ex_db) = [1, 2]"
    "map a_id (appointments ex_db) = [1, 2]"
    "map patient_id (appointments ex_db) = [1, 1]" "map doctor_id (appointments ex_db) = [1, 1]"
    by (simp_all add: ex_db_def)
  have fp: "ex_db\<lparr>patients := filter (\<lambda>r. p_id r \<noteq> 2) (patients ex_db)\<rparr> = ?sp"
    and fd: "ex_db\<lparr>doctors := filter (\<lambda>r. d_id r \<noteq> 2) (doctors ex_db)\<rparr> = ?sd"
    and fa: "ex_db\<lparr>appointments := filter (\<lambda>r. a_id r \<noteq> 1) (appointments ex_db)\<rparr> = ?sa"
    by (simp_all add: ex_db_def)
  have hp: "\<exists>p. query_get p_id (patients ex_db) 2 = Some p \<and> (\<forall>a \<in> set (appointments ex_db). patient_id a \<noteq> 2)"
    and hd: "\<exists>d. query_get d_id (doctors ex_db) 2 = Some d \<and> (\<forall>a \<in> set (appointments ex_db). doctor_id a \<noteq> 2)"
    and ha: "\<exists>a. query_get a_id (appointments ex_db) 1 = Some a"
    and h1: "\<exists>p. query_get p_id (patients ex_db) 1 = Some p \<and> (\<exists>a \<in> set (appointments ex_db). patient_id a = 1)"
    by (simp_all add: query_get_def ex_db_def)
  note P = delete_then_gone[where st = ex_db and i = 2 and e = ex_env and req = ?rp
      and s' = "flash M_patient_deleted C_warning admin_session" and st' = ?sp]
  note D = delete_then_gone[where st = ex_db and i = 2 and e = ex_env and req = ?rd
      and s' = "flash M_doctor_deleted C_warning admin_session" and st' = ?sd]
  note A = delete_then_gone[where st = ex_db and i = 1 and e = ex_env and req = ?ra
      and s' = "flash M_appointment_deleted C_warning admin_session" and st' = ?sa]
  note O = delete_then_gone[where st = ex_db and i = 1 and e = ex_env and req = ?r1]
  have dp: "delete_patient 2 ex_env ex_db ?rp
       = (Redirect E_patients, flash M_patient_deleted C_warning admin_session, ?sp)"
    using P[THEN conjunct1] hp by (auto simp: fp)
  have dd: "delete_doctor 2 ex_env ex_db ?rd
       = (Redirect E_doctors, flash M_doctor_deleted C_warning admin_session, ?sd)"
    using D[THEN conjunct2, THEN conjunct1] hd by (auto simp: fd)
  have da: "delete_appointment 1 ex_env ex_db ?ra
       = (Redirect E_appointments, flash M_appointment_deleted C_warning admin_session, ?sa)"
    using A[THEN conjunct2, THEN conjunct2, THEN conjunct1] ha by (auto simp: fa)
  have d1: "delete_patient 1 ex_env ex_db ?r1 = (Abort 500, admin_session, ex_db)"
    using O[THEN conjunct2, THEN conjunct2, THEN conjunct2, THEN conjunct1] h1 by auto
  note Pg = P[THEN conjunct2, THEN conjunct2, THEN conjunct2, THEN conjunct2, THEN conjunct2,
      THEN conjunct1, rule_format, OF dp]
  note Dg = D[THEN conjunct2, THEN conjunct2, THEN conjunct2, THEN conjunct2, THEN conjunct2,
      THEN conjunct2, THEN conjunct1, rule_format, OF dd]
  note Ag = A[THEN conjunct2, THEN conjunct2, THEN conjunct2, THEN conjunct2, THEN conjunct2,
      THEN conjunct2, THEN conjunct2, rule_format, OF da]
  have vp: "patients_view ex_env ?sp (ex_request GET E_patients [] admin_session)
       = (Render (patients_html \<lparr>items = [hd (patients ex_db)], page = 1, per_page = 10, total = 1\<rparr>),
          admin_session, ?sp)"
    by (simp add: patients_view_def page_arg_def paginate_def)
  have vd: "doctors_view ex_env ?sd (ex_request GET E_doctors [] admin_session)
       = (Render (doctors_html \<lparr>items = [hd (doctors ex_db)], page = 1, per_page = 10, total = 1\<rparr>),
          admin_session, ?sd)"
    by (simp add: doctors_view_def page_arg_def paginate_def)
  have va: "appointments_view ex_env ?sa (ex_request GET E_appointments [] admin_session)
       = (Render (appointments_html
            \<lparr>items = [last (appointments ex_db)], page = 1, per_page = 10, total = 1\<rparr>),
          admin_session, ?sa)"
    by (simp add: appointments_view_def page_arg_def paginate_def)
  have gp: "delete_patient 2 ex_env ?sp ?rp = (Abort 404, admin_session, ?sp)"
    using Pg[THEN conjunct2, THEN conjunct2, THEN conjunct2, THEN conjunct2, rule_format,
        where ?e3.0 = ex_env and ?r3.0 = ?rp] by simp
  have gd: "delete_doctor 2 ex_env ?sd ?rd = (Abort 404, admin_session, ?sd)"
    using Dg[THEN conjunct2, THEN conjunct2, THEN conjunct2, THEN conjunct2, rule_format,
        where ?e3.0 = ex_env and ?r3.0 = ?rd] by simp
  have ga: "delete_appointment 1 ex_env ?sa ?ra = (Abort 404, admin_session, ?sa)"
    using Ag[THEN conjunct2, THEN conjunct2, THEN conjunct2, THEN conjunct2, rule_format,
        where ?e3.0 = ex_env and ?r3.0 = ?ra] by simp
  show ?thesis
    by (rule conjI[OF ids(1) conjI[OF ids(2) conjI[OF ids(3) conjI[OF ids(4) conjI[OF ids(5)
          conjI[OF dp conjI[OF dd conjI[OF da conjI[OF d1 conjI[OF vp conjI[OF vd conjI[OF va
          conjI[OF gp conjI[OF gd ga]]]]]]]]]]]]]])
qed

lemma paginate_page:
  assumes "paginate rows pg 10 = Some p"
  shows "length (items p) \<le> 10 \<and> page p = pg \<and> 1 \<le> page p
       \<and> items p = take 10 (drop (nat (page p - 1) * 10) rows)"
  using paginate_items[OF assms] by simp

lemma patients_view_page:
  assumes "patients_view e st req = (Render (patients_html pg), s', st')"
  shows "length (items pg) \<le> 10 \<and> page pg = page_arg e req \<and> 1 \<le> page pg
       \<and> items pg = take 10 (drop (nat (page pg - 1) * 10) (patients st))"
proof -
  from assms have "paginate (patients st) (page_arg e req) 10 = Some pg"
    by (auto simp: patients_view_def split: option.splits)
  then show ?thesis by (rule paginate_page)
qed

lemma doctors_view_page:
  assumes "doctors_view e st req = (Render (doctors_html pg), s', st')"
  shows "length (items pg) \<le> 10 \<and> page pg = page_arg e req \<and> 1 \<le> page pg
       \<and> items pg = take 10 (drop (nat (page pg - 1) * 10) (doctors st))"
proof -
  from assms have "paginate (doctors st) (page_arg e req) 10 = Some pg"
    by (auto simp: doctors_view_def split: option.splits)
  then show ?thesis by (rule paginate_page)
qed

lemma add_patient_appends:
  assumes "add_patient e st req = (r, s', st')"
  shows "patients st' = patients st
       \<or> (\<exists>p. patients st' = patients st @ [p] \<and> p_id p \<notin> p_id ` set (patients st))"
  using assms next_id_fresh[of "map p_id (patients st)"]
  by (auto simp: add_patient_def Let_def split: if_splits option.splits)

lemma add_doctor_appends:
  assumes "add_doctor e st req = (r, s', st')"
  shows "doctors st' = doctors st
       \<or> (\<exists>d. doctors st' = doctors st @ [d] \<and> d_id d \<notin> d_id ` set (doctors st))"
  using assms next_id_fresh[of "map d_id (doctors st)"]
  by (auto simp: add_doctor_def Let_def split: if_splits option.splits)

lemma map_key_update:
  "(\<And>r. key (g r) = key r) \<Longrightarrow> map key (map (\<lambda>r. if key r = i then g r else r) rows) = map key rows"
  by (induction rows) simp_all

lemma edit_patient_keeps_order:
  assumes "edit_patient i e st req = (r, s', st')"
  shows "map p_id (patients st') = map p_id (patients st)"
  using assms
  by (auto simp: edit_patient_def Let_def o_def if_distrib[of p_id] split: if_splits option.splits)

lemma edit_doctor_keeps_order:
  assumes "edit_doctor i e st req = (r, s', st')"
  shows "map d_id (doctors st') = map d_id (doctors st)"
  using assms
  by (auto simp: edit_doctor_def Let_def o_def if_distrib[of d_id] split: if_splits option.splits)

lemma delete_patient_keeps_order:
  assumes "delete_patient i e st req = (r, s', st')"
  shows "patients st' = patients st \<or> patients st' = filter (\<lambda>p. p_id p \<noteq> i) (patients st)"
  using assms by (auto simp: delete_patient_def split: if_splits option.splits)

lemma delete_doctor_keeps_order:
  assumes "delete_doctor i e st req = (r, s', st')"
  shows "doctors st' = doctors st \<or> doctors st' = filter (\<lambda>d. d_id d \<noteq> i) (doctors st)"
  using assms by (auto simp: delete_doctor_def split: if_splits option.splits)

lemma strip_nonempty_iff: "strip s \<noteq> [] \<longleftrightarrow> (\<exists>c \<in> set s. \<not> isspace c)"
proof -
  have "strip s \<noteq> [] \<longleftrightarrow> (\<exists>c \<in> set (dropWhile isspace s). \<not> isspace c)"
    by (simp add: strip_def dropWhile_eq_Nil_conv)
  also have "\<dots> \<longleftrightarrow> (\<exists>c \<in> set s. \<not> isspace c)"
  proof
    assume "\<exists>c \<in> set (dropWhile isspace s). \<not> isspace c"
    then show "\<exists>c \<in> set s. \<not> isspace c" by (meson set_dropWhileD)
  next
    assume "\<exists>c \<in> set s. \<not> isspace c"
    then have "dropWhile isspace s \<noteq> []" by (simp add: dropWhile_eq_Nil_conv)
    then have "hd (dropWhile isspace s) \<in> set (dropWhile isspace s)"
      "\<not> isspace (hd (dropWhile isspace s))"
      by (simp_all add: hd_dropWhile)
    then show "\<exists>c \<in> set (dropWhile isspace s). \<not> isspace c" by blast
  qed
  finally show ?thesis .
qed

lemma DataRequired_starts: "\<not> isspace c \<Longrightarrow> DataRequired (Some (c # cs)) = Pass"
  by (rule DataRequired_Pass) (auto simp: strip_nonempty_iff)

lemma ascii_Cons [simp]: "ascii (c # cs) = of_char c # ascii cs" and ascii_Nil [simp]: "ascii [] = []"
  by (simp_all add: ascii_def)

lemma ex_add_patient:
  "add_patient ex_env ex_db (ex_request POST E_add_patient
      [(''full_name'', ascii ''Boris Ivanov''), (''phone'', ascii ''555-0103''),
       (''email'', ascii ''boris@example.org'')] admin_session)
   = (Redirect E_patients, flash M_patient_added C_success admin_session,
      ex_db\<lparr>patients := patients ex_db @
         [\<lparr>p_id = 3, p_full_name = ascii ''Boris Ivanov'', p_phone = ascii ''555-0103'',
           p_email = Some (ascii ''boris@example.org''), p_birth_date = None, p_address = None\<rparr>]\<rparr>)"
  by (simp add: add_patient_def PatientForm_validate_on_submit_def PatientForm_init_def
      PatientForm_validate_def formdata_def process_str_def process_date_def tag_def csrf_errors_def
      DataRequired_starts Length_def Email_def isspace_def ex_env_def ex_validate_email_def
      next_id_def ex_db_def Let_def)

lemma ex_patients_view:
  "patients_view ex_env ex_db (ex_request GET E_patients [] admin_session)
   = (Render (patients_html \<lparr>items = patients ex_db, page = 1, per_page = 10, total = 2\<rparr>),
      admin_session, ex_db)"
  by (simp add: patients_view_def page_arg_def paginate_def ex_db_def)

section \<open>The appointment form\<close>

lemma chain_single_Nil: "run_validation_chain errs [v] = [] \<longleftrightarrow> errs = [] \<and> v = Pass"
  by (cases v) simp_all

lemma chain_single_errors: "errs \<noteq> [] \<Longrightarrow> run_validation_chain errs [v] \<noteq> []"
  by (simp add: chain_single_Nil)

lemma tag_Nil [simp]: "tag name errs = [] \<longleftrightarrow> errs = []"
  by (simp add: tag_def)

lemma in_tag [simp]: "(n, x) \<in> set (tag name errs) \<longleftrightarrow> n = name \<and> x \<in> set errs"
  by (auto simp: tag_def)

lemma pre_validate_Nil: "pre_validate choices d = [] \<longleftrightarrow> (\<exists>v. d = Some v \<and> v \<in> set choices)"
  by (cases d) (simp_all add: pre_validate_def)

lemma DataRequired_int_Pass: "DataRequired_int d = Pass \<longleftrightarrow> (\<exists>n. d = Some n \<and> n \<noteq> 0)"
  by (cases d) (simp_all add: DataRequired_int_def)

lemmas af_defs = AppointmentForm_validate_on_submit_def AppointmentForm_validate_def
  AppointmentForm_init_def set_choices_def formdata_def Let_def

text \<open>The fields of the bound appointment form.\<close>

lemma af_fields:
  assumes "is_submitted req"
  shows "af_patient_id (AppointmentForm_validate_on_submit e st obj req)
           = fst (process_int e (Some (form req)) ''patient_id'' (map_option patient_id obj))"
    and "af_doctor_id (AppointmentForm_validate_on_submit e st obj req)
           = fst (process_int e (Some (form req)) ''doctor_id'' (map_option doctor_id obj))"
    and "af_appointment_date (AppointmentForm_validate_on_submit e st obj req)
           = process_text (Some (form req)) ''appointment_date''
               (case obj of None \<Rightarrow> No_data | Some a \<Rightarrow> Object (appointment_date a))"
    and "af_status (AppointmentForm_validate_on_submit e st obj req)
           = process_str (Some (form req)) ''status'' (case obj of None \<Rightarrow> None | Some a \<Rightarrow> status a)"
    and "map fst (af_patient_choices (AppointmentForm_validate_on_submit e st obj req)) = map p_id (patients st)"
    and "map fst (af_doctor_choices (AppointmentForm_validate_on_submit e st obj req)) = map d_id (doctors st)"
  using assms by (simp_all add: af_defs o_def)

lemma af_errors_eq:
  assumes "is_submitted req"
  shows "af_errors (AppointmentForm_validate_on_submit e st obj req) =
      tag ''patient_id'' (run_validation_chain
          (snd (process_int e (Some (form req)) ''patient_id'' (map_option patient_id obj))
           @ pre_validate (map p_id (patients st))
               (af_patient_id (AppointmentForm_validate_on_submit e st obj req)))
          [DataRequired_int (af_patient_id (AppointmentForm_validate_on_submit e st obj req))])
    @ tag ''doctor_id'' (run_validation_chain
          (snd (process_int e (Some (form req)) ''doctor_id'' (map_option doctor_id obj))
           @ pre_validate (map d_id (doctors st))
               (af_doctor_id (AppointmentForm_validate_on_submit e st obj req)))
          [DataRequired_int (af_doctor_id (AppointmentForm_validate_on_submit e st obj req))])
    @ tag ''appointment_date'' (run_validation_chain []
          [DataRequired_field (af_appointment_date (AppointmentForm_validate_on_submit e st obj req))])
    @ tag ''status'' (pre_validate status_choices (af_status (AppointmentForm_validate_on_submit e st obj req)))
    @ csrf_errors req"
  using assms by (simp add: af_defs o_def)

lemma af_valid:
  assumes "is_submitted req" and "af_errors (AppointmentForm_validate_on_submit e st obj req) = []"
  shows "\<exists>pid did s. af_patient_id (AppointmentForm_validate_on_submit e st obj req) = Some pid
          \<and> pid \<in> p_id ` set (patients st)
          \<and> af_doctor_id (AppointmentForm_validate_on_submit e st obj req) = Some did
          \<and> did \<in> d_id ` set (doctors st)
          \<and> af_status (AppointmentForm_validate_on_submit e st obj req) = Some s
          \<and> s \<in> set status_choices"
  using assms(2) unfolding af_errors_eq[OF assms(1)]
  by (auto simp: chain_single_Nil pre_validate_Nil)

text \<open>What the two appointment views answer to a submission, case by case.\<close>

lemma add_appointment_invalid:
  assumes "is_submitted req" and "af_errors (AppointmentForm_validate_on_submit e st None req) \<noteq> []"
  shows "add_appointment e st req
       = (Render (appointment_form_html (AppointmentForm_validate_on_submit e st None req) Add_title),
          cookie req, st)"
  using assms by (simp add: add_appointment_def Let_def)


lemma add_appointment_stored:
  assumes "is_submitted req" and "af_errors (AppointmentForm_validate_on_submit e st None req) = []"
    and "form req ''appointment_date'' = Some s" and "strptime s = Some t"
  shows "\<exists>pid did v. pid \<in> p_id ` set (patients st) \<and> did \<in> d_id ` set (doctors st)
          \<and> v \<in> set status_choices
          \<and> af_status (AppointmentForm_validate_on_submit e st None req) = Some v
          \<and> add_appointment e st req
             = (Redirect E_appointments, flash M_appointment_added C_success (cookie req),
                st\<lparr>appointments := appointments st @
                   [\<lparr>a_id = next_id (map a_id (appointments st)), patient_id = pid, doctor_id = did,
                     appointment_date = t, status = Some v\<rparr>]\<rparr>)"
proof -
  from af_valid[OF assms(1,2)] obtain pid did v where
    v: "af_patient_id (AppointmentForm_validate_on_submit e st None req) = Some pid"
       "pid \<in> p_id ` set (patients st)"
       "af_doctor_id (AppointmentForm_validate_on_submit e st None req) = Some did"
       "did \<in> d_id ` set (doctors st)"
       "af_status (AppointmentForm_validate_on_submit e st None req) = Some v"
       "v \<in> set status_choices"
    by blast
  have "add_appointment e st req
             = (Redirect E_appointments, flash M_appointment_added C_success (cookie req),
                st\<lparr>appointments := appointments st @
                   [\<lparr>a_id = next_id (map a_id (appointments st)), patient_id = pid, doctor_id = did,
                     appointment_date = t, status = Some v\<rparr>]\<rparr>)"
    using assms v(1,3,5)
    by (simp add: add_appointment_def Let_def af_fields(3) process_text_def strptime_field_def
        Appointment_add_def)
  with v show ?thesis by blast
qed

lemma edit_appointment_invalid:
  assumes "is_submitted req" and "query_get a_id (appointments st) i = Some a"
    and "af_errors (AppointmentForm_validate_on_submit e st (Some a) req) \<noteq> []"
  shows "edit_appointment i e st req
       = (Render (appointment_form_html
            ((AppointmentForm_validate_on_submit e st (Some a) req)
               \<lparr>af_appointment_date := Text (strftime (appointment_date a))\<rparr>) Edit_title),
          cookie req, st)"
  using assms by (simp add: edit_appointment_def Let_def)


lemma edit_appointment_stored:
  assumes "is_submitted req" and "query_get a_id (appointments st) i = Some a"
    and "af_errors (AppointmentForm_validate_on_submit e st (Some a) req) = []"
    and "form req ''appointment_date'' = Some s" and "strptime s = Some t"
  shows "\<exists>pid did v. pid \<in> p_id ` set (patients st) \<and> did \<in> d_id ` set (doctors st)
          \<and> v \<in> set status_choices
          \<and> af_status (AppointmentForm_validate_on_submit e st (Some a) req) = Some v
          \<and> edit_appointment i e st req
             = (Redirect E_appointments, flash M_appointment_updated C_success (cookie req),
                st\<lparr>appointments := map (\<lambda>r. if a_id r = i
                     then r\<lparr>patient_id := pid, doctor_id := did, appointment_date := t,
                            status := Some v\<rparr>
                     else r) (appointments st)\<rparr>)"
proof -
  from af_valid[OF assms(1,3)] obtain pid did v where
    v: "af_patient_id (AppointmentForm_validate_on_submit e st (Some a) req) = Some pid"
       "pid \<in> p_id ` set (patients st)"
       "af_doctor_id (AppointmentForm_validate_on_submit e st (Some a) req) = Some did"
       "did \<in> d_id ` set (doctors st)"
       "af_status (AppointmentForm_validate_on_submit e st (Some a) req) = Some v"
       "v \<in> set status_choices"
    by blast
  have "edit_appointment i e st req
             = (Redirect E_appointments, flash M_appointment_updated C_success (cookie req),
                st\<lparr>appointments := map (\<lambda>r. if a_id r = i
                     then r\<lparr>patient_id := pid, doctor_id := did, appointment_date := t,
                            status := Some v\<rparr>
                     else r) (appointments st)\<rparr>)"
    using assms v(1,3,5)
    by (simp add: edit_appointment_def Let_def af_fields(3) process_text_def strptime_field_def)
  with v show ?thesis by blast
qed

lemma add_appointment_unchanged_or_stored:
  assumes "add_appointment e st req = (r, s', st')"
  shows "st' = st
       \<or> (\<exists>a. st' = st\<lparr>appointments := appointments st @ [a]\<rparr>
              \<and> patient_id a \<in> p_id ` set (patients st) \<and> doctor_id a \<in> d_id ` set (doctors st)
              \<and> status a \<in> Some ` set status_choices)"
proof (cases "is_submitted req \<and> af_errors (AppointmentForm_validate_on_submit e st None req) = []")
  case False
  with assms show ?thesis by (auto simp: add_appointment_def Let_def)
next
  case True
  let ?f = "AppointmentForm_validate_on_submit e st None req"
  from True have sub: "is_submitted req" and ok: "af_errors ?f = []" by simp_all
  from af_valid[OF sub ok] obtain pid did s where
    v: "af_patient_id ?f = Some pid" "pid \<in> p_id ` set (patients st)"
       "af_doctor_id ?f = Some did" "did \<in> d_id ` set (doctors st)"
       "af_status ?f = Some s" "s \<in> set status_choices" by blast
  from assms sub ok v show ?thesis
    by (cases "strptime_field (af_appointment_date ?f)")
       (auto simp: add_appointment_def Let_def Appointment_add_def)
qed

lemma edit_appointment_unchanged_or_stored:
  assumes "edit_appointment i e st req = (r, s', st')"
  shows "st' = st
       \<or> (\<exists>pid did v t. pid \<in> p_id ` set (patients st) \<and> did \<in> d_id ` set (doctors st)
              \<and> v \<in> set status_choices
              \<and> st' = st\<lparr>appointments := map (\<lambda>r. if a_id r = i
                     then r\<lparr>patient_id := pid, doctor_id := did, appointment_date := t,
                            status := Some v\<rparr>
                     else r) (appointments st)\<rparr>)"
proof (cases "query_get a_id (appointments st) i")
  case None
  with assms show ?thesis by (simp add: edit_appointment_def)
next
  case (Some a)
  let ?f = "AppointmentForm_validate_on_submit e st (Some a) req"
  show ?thesis
  proof (cases "is_submitted req \<and> af_errors ?f = []")
    case False
    with assms Some show ?thesis by (auto simp: edit_appointment_def Let_def)
  next
    case True
    then have sub: "is_submitted req" and ok: "af_errors ?f = []" by simp_all
    from af_valid[OF sub ok] obtain pid did s where
      v: "af_patient_id ?f = Some pid" "pid \<in> p_id ` set (patients st)"
         "af_doctor_id ?f = Some did" "did \<in> d_id ` set (doctors st)"
         "af_status ?f = Some s" "s \<in> set status_choices" by blast
    show ?thesis
    proof (cases "strptime_field (af_appointment_date ?f)")
      case (Parsed t)
      with assms Some sub ok v have "st' = st\<lparr>appointments := map (\<lambda>r. if a_id r = i
                     then r\<lparr>patient_id := pid, doctor_id := did, appointment_date := t,
                            status := Some s\<rparr>
                     else r) (appointments st)\<rparr>"
        by (auto simp: edit_appointment_def Let_def)
      with v show ?thesis by blast
    next
      case ValueError
      with assms Some sub ok show ?thesis by (auto simp: edit_appointment_def Let_def)
    next
      case TypeError
      with assms Some sub ok show ?thesis by (auto simp: edit_appointment_def Let_def)
    qed
  qed
qed

section \<open>The date of an appointment\<close>

lemma strptime_examples:
  "strptime (ascii ''2024-13-40 25:99'') = None"
  "strptime (ascii ''2024-03-15 14:30'')
     = Some \<lparr>year = 2024, month = 3, day = 15, hour = 14, minute = 30, second = 0, microsecond = 0\<rparr>"
  by (simp_all add: strptime_def re_match_def re_YmdHM_def re_Ymd_def re_Y_def re_m_def re_d_def
      re_H_def re_M_def re_unfold re_range_def re_char_def re_digit_def decimal_digit_def
      nd_zeros_def isspace_def valid_date_def days_in_month_def)

text \<open>
  Decimal digits of other scripts are read by their value where the pattern has \<open>\d\<close>: a
  year in Arabic-Indic digits and a last digit of the minutes in fullwidth form parse.
  Where the pattern has a bracketed class only the ASCII digit matches: with the first
  digit of the minutes in fullwidth form, \<open>\d\<close> takes it alone and text remains; with the
  second digit of the month in fullwidth form nothing matches.
\<close>

lemma strptime_other_digits:
  "strptime [1634, 1632, 1634, 1636, 45, 48, 51, 45, 49, 53, 32, 49, 52, 58, 51, 65296]
     = Some \<lparr>year = 2024, month = 3, day = 15, hour = 14, minute = 30, second = 0, microsecond = 0\<rparr>"
  "strptime [50, 48, 50, 52, 45, 48, 51, 45, 49, 53, 32, 49, 52, 58, 65299, 65296] = None"
  "strptime [50, 48, 50, 52, 45, 48, 65299, 45, 49, 53, 32, 49, 52, 58, 51, 48] = None"
  by (simp_all add: strptime_def re_match_def re_YmdHM_def re_Ymd_def re_Y_def re_m_def re_d_def
      re_H_def re_M_def re_unfold re_range_def re_char_def re_digit_def decimal_digit_def
      nd_zeros_def isspace_def valid_date_def days_in_month_def)

lemma af_posted:
  assumes "is_submitted req"
  shows "form req ''appointment_date'' = Some s \<Longrightarrow>
           af_appointment_date (AppointmentForm_validate_on_submit e st obj req) = Text s"
    and "form req ''status'' = Some v \<Longrightarrow>
           af_status (AppointmentForm_validate_on_submit e st obj req) = Some v"
    and "form req ''patient_id'' = Some w \<Longrightarrow> py_int e w = Some n \<Longrightarrow>
           af_patient_id (AppointmentForm_validate_on_submit e st obj req) = Some n"
    and "form req ''doctor_id'' = Some w \<Longrightarrow> py_int e w = Some n \<Longrightarrow>
           af_doctor_id (AppointmentForm_validate_on_submit e st obj req) = Some n"
  by (simp_all add: af_fields[OF assms] process_text_def process_str_def process_int_def)


lemma good_date_added:
  assumes "is_submitted req" and "form req ''appointment_date'' = Some s" and "strptime s = Some t"
    and "af_errors (AppointmentForm_validate_on_submit e st None req) = []"
  shows "\<exists>a. add_appointment e st req
           = (Redirect E_appointments, flash M_appointment_added C_success (cookie req),
              st\<lparr>appointments := appointments st @ [a]\<rparr>)
          \<and> appointment_date a = t"
proof -
  from add_appointment_stored[OF assms(1,4,2,3)] obtain pid did v where
    "add_appointment e st req
             = (Redirect E_appointments, flash M_appointment_added C_success (cookie req),
                st\<lparr>appointments := appointments st @
                   [\<lparr>a_id = next_id (map a_id (appointments st)), patient_id = pid, doctor_id = did,
                     appointment_date = t, status = Some v\<rparr>]\<rparr>)" by blast
  then show ?thesis by (intro exI conjI) (assumption, simp)
qed

lemma good_date_updated:
  assumes "is_submitted req" and "form req ''appointment_date'' = Some s" and "strptime s = Some t"
    and "query_get a_id (appointments st) i = Some a"
    and "af_errors (AppointmentForm_validate_on_submit e st (Some a) req) = []"
  shows "fst (edit_appointment i e st req) = Redirect E_appointments
       \<and> (\<exists>a'. query_get a_id (appointments (snd (snd (edit_appointment i e st req)))) i = Some a'
              \<and> appointment_date a' = t)"
proof -
  from edit_appointment_stored[OF assms(1,4,5,2,3)] obtain pid did v where
    "edit_appointment i e st req
             = (Redirect E_appointments, flash M_appointment_updated C_success (cookie req),
                st\<lparr>appointments := map (\<lambda>r. if a_id r = i
                     then r\<lparr>patient_id := pid, doctor_id := did, appointment_date := t,
                            status := Some v\<rparr>
                     else r) (appointments st)\<rparr>)" by blast
  with assms(4) show ?thesis by (simp add: query_get_map_update)
qed


lemma ex_appointment_form_valid:
  assumes "\<not> isspace c"
  shows "af_errors (AppointmentForm_validate_on_submit ex_env ex_db obj
           (ex_request POST ep [(''patient_id'', ascii ''2''), (''doctor_id'', ascii ''2''),
              (''appointment_date'', c # cs), (''status'', status_cancelled)] admin_session)) = []"
  using assms
  by (simp add: af_errors_eq af_fields process_int_def process_text_def process_str_def
      ex_env_def ex_int_def isdigit_def pre_validate_def DataRequired_int_def
      DataRequired_field_def DataRequired_starts status_choices_def csrf_errors_def ex_db_def)


section \<open>Patient, doctor and status of an appointment\<close>

lemma chain_single_witness: "errs \<noteq> [] \<Longrightarrow> \<exists>x. x \<in> set (run_validation_chain errs [v])"
  using chain_single_errors[of errs v] by (cases "run_validation_chain errs [v]") auto

lemma patient_id_rejected:
  assumes "is_submitted req" and "form req ''patient_id'' = Some w"
    and "\<forall>p \<in> set (patients st). py_int e w \<noteq> Some (p_id p)"
  shows "\<exists>err. (''patient_id'', err) \<in> set (af_errors (AppointmentForm_validate_on_submit e st obj req))"
proof -
  let ?f = "AppointmentForm_validate_on_submit e st obj req"
  have "snd (process_int e (Some (form req)) ''patient_id'' (map_option patient_id obj))
           @ pre_validate (map p_id (patients st)) (af_patient_id ?f) \<noteq> []"
    using assms(2,3)
    by (cases "py_int e w") (auto simp: af_fields(1)[OF assms(1)] process_int_def pre_validate_def)
  from chain_single_witness[OF this, of "DataRequired_int (af_patient_id ?f)"]
  show ?thesis unfolding af_errors_eq[OF assms(1)] by auto
qed

lemma doctor_id_rejected:
  assumes "is_submitted req" and "form req ''doctor_id'' = Some w"
    and "\<forall>d \<in> set (doctors st). py_int e w \<noteq> Some (d_id d)"
  shows "\<exists>err. (''doctor_id'', err) \<in> set (af_errors (AppointmentForm_validate_on_submit e st obj req))"
proof -
  let ?f = "AppointmentForm_validate_on_submit e st obj req"
  have "snd (process_int e (Some (form req)) ''doctor_id'' (map_option doctor_id obj))
           @ pre_validate (map d_id (doctors st)) (af_doctor_id ?f) \<noteq> []"
    using assms(2,3)
    by (cases "py_int e w") (auto simp: af_fields(2)[OF assms(1)] process_int_def pre_validate_def)
  from chain_single_witness[OF this, of "DataRequired_int (af_doctor_id ?f)"]
  show ?thesis unfolding af_errors_eq[OF assms(1)] by auto
qed

lemma status_rejected:
  assumes "is_submitted req" and "form req ''status'' = Some v" and "v \<notin> set status_choices"
  shows "(''status'', NotValidChoice) \<in> set (af_errors (AppointmentForm_validate_on_submit e st obj req))
       \<and> af_status (AppointmentForm_validate_on_submit e st obj req) = Some v"
  using assms(2,3) unfolding af_errors_eq[OF assms(1)]
  by (simp add: af_posted(2)[OF assms(1)] pre_validate_def)

lemma status_missing:
  assumes "is_submitted req" and "form req ''status'' = None"
  shows "(''status'', NotValidChoice) \<in> set (af_errors (AppointmentForm_validate_on_submit e st None req))"
  using assms(2) unfolding af_errors_eq[OF assms(1)]
  by (simp add: af_fields(4)[OF assms(1)] process_str_def pre_validate_def)

text \<open>A field error makes both views render the form again and write nothing.\<close>

lemma field_error_rerenders:
  assumes "is_submitted req"
    and "\<And>obj. (n, err) \<in> set (af_errors (AppointmentForm_validate_on_submit e st obj req))"
  shows "(\<exists>f. add_appointment e st req = (Render (appointment_form_html f Add_title), cookie req, st)
            \<and> (n, err) \<in> set (af_errors f)
            \<and> af_status f = af_status (AppointmentForm_validate_on_submit e st None req))
       \<and> (\<forall>a. query_get a_id (appointments st) i = Some a \<longrightarrow>
            (\<exists>f. edit_appointment i e st req = (Render (appointment_form_html f Edit_title), cookie req, st)
               \<and> (n, err) \<in> set (af_errors f)
               \<and> af_status f = af_status (AppointmentForm_validate_on_submit e st (Some a) req)))"
proof (intro conjI allI impI)
  have "af_errors (AppointmentForm_validate_on_submit e st None req) \<noteq> []"
    using assms(2)[of None] by auto
  from add_appointment_invalid[OF assms(1) this] assms(2)[of None]
  show "\<exists>f. add_appointment e st req = (Render (appointment_form_html f Add_title), cookie req, st)
            \<and> (n, err) \<in> set (af_errors f)
            \<and> af_status f = af_status (AppointmentForm_validate_on_submit e st None req)"
    by blast
next
  fix a assume a: "query_get a_id (appointments st) i = Some a"
  have "af_errors (AppointmentForm_validate_on_submit e st (Some a) req) \<noteq> []"
    using assms(2)[of "Some a"] by auto
  from edit_appointment_invalid[OF assms(1) a this] assms(2)[of "Some a"]
  show "\<exists>f. edit_appointment i e st req = (Render (appointment_form_html f Edit_title), cookie req, st)
               \<and> (n, err) \<in> set (af_errors f)
               \<and> af_status f = af_status (AppointmentForm_validate_on_submit e st (Some a) req)"
    by (intro exI[of _ "(AppointmentForm_validate_on_submit e st (Some a) req)
               \<lparr>af_appointment_date := Text (strftime (appointment_date a))\<rparr>"]) simp
qed

lemma add_rejects:
  assumes "is_submitted req"
    and "(n, err) \<in> set (af_errors (AppointmentForm_validate_on_submit e st None req))"
  shows "\<exists>f err. add_appointment e st req = (Render (appointment_form_html f Add_title), cookie req, st)
            \<and> (n, err) \<in> set (af_errors f)"
proof -
  have "af_errors (AppointmentForm_validate_on_submit e st None req) \<noteq> []" using assms(2) by auto
  from add_appointment_invalid[OF assms(1) this] assms(2) show ?thesis by blast
qed

lemma edit_rejects:
  assumes "is_submitted req" and "query_get a_id (appointments st) i = Some a"
    and "(n, err) \<in> set (af_errors (AppointmentForm_validate_on_submit e st (Some a) req))"
  shows "\<exists>f err. edit_appointment i e st req = (Render (appointment_form_html f Edit_title), cookie req, st)
            \<and> (n, err) \<in> set (af_errors f)"
proof -
  have "af_errors (AppointmentForm_validate_on_submit e st (Some a) req) \<noteq> []" using assms(3) by auto
  from edit_appointment_invalid[OF assms(1,2) this] assms(3) show ?thesis
    by (intro exI[of _ "(AppointmentForm_validate_on_submit e st (Some a) req)
               \<lparr>af_appointment_date := Text (strftime (appointment_date a))\<rparr>"] exI[of _ err]) simp
qed

text \<open>
  Claim C4. A submission of the appointment form (create or update) whose posted
  \<open>patient_id\<close> is not the id of a row of the patients table (as an integer, or not an
  integer at all) is answered with the form rendered again, an error on the field
  \<open>patient_id\<close>, and nothing written; the same for \<open>doctor_id\<close> and the doctors table.
  So whenever one of the two views changes the database, the row it wrote refers to a
  patient and a doctor that the tables hold at that moment.
\<close>

theorem appointment_references_exist:
  assumes "meth req = POST"
  shows
    "(\<forall>w. form req ''patient_id'' = Some w
           \<and> (\<forall>p \<in> set (patients st). py_int e w \<noteq> Some (p_id p)) \<longrightarrow>
        (\<exists>f err. add_appointment e st req
                    = (Render (appointment_form_html f Add_title), cookie req, st)
                \<and> (''patient_id'', err) \<in> set (af_errors f))
      \<and> (\<forall>a. query_get a_id (appointments st) i = Some a \<longrightarrow>
            (\<exists>f err. edit_appointment i e st req
                        = (Render (appointment_form_html f Edit_title), cookie req, st)
                    \<and> (''patient_id'', err) \<in> set (af_errors f))))
   \<and> (\<forall>w. form req ''doctor_id'' = Some w
           \<and> (\<forall>d \<in> set (doctors st). py_int e w \<noteq> Some (d_id d)) \<longrightarrow>
        (\<exists>f err. add_appointment e st req
                    = (Render (appointment_form_html f Add_title), cookie req, st)
                \<and> (''doctor_id'', err) \<in> set (af_errors f))
      \<and> (\<forall>a. query_get a_id (appointments st) i = Some a \<longrightarrow>
            (\<exists>f err. edit_appointment i e st req
                        = (Render (appointment_form_html f Edit_title), cookie req, st)
                    \<and> (''doctor_id'', err) \<in> set (af_errors f))))
   \<and> (\<forall>r s' st'. add_appointment e st req = (r, s', st') \<longrightarrow>
        st' = st
        \<or> (\<exists>a. st' = st\<lparr>appointments := appointments st @ [a]\<rparr>
               \<and> patient_id a \<in> p_id ` set (patients st)
               \<and> doctor_id a \<in> d_id ` set (doctors st)))
   \<and> (\<forall>r s' st'. edit_appointment i e st req = (r, s', st') \<longrightarrow>
        st' = st
        \<or> (\<exists>pid did v t. pid \<in> p_id ` set (patients st) \<and> did \<in> d_id ` set (doctors st)
               \<and> st' = st\<lparr>appointments := map (\<lambda>r. if a_id r = i
                     then r\<lparr>patient_id := pid, doctor_id := did, appointment_date := t,
                            status := Some v\<rparr>
                     else r) (appointments st)\<rparr>))"
proof -
  have sub: "is_submitted req" using assms by simp
  have 1: "\<forall>w. form req ''patient_id'' = Some w
           \<and> (\<forall>p \<in> set (patients st). py_int e w \<noteq> Some (p_id p)) \<longrightarrow>
        (\<exists>f err. add_appointment e st req
                    = (Render (appointment_form_html f Add_title), cookie req, st)
                \<and> (''patient_id'', err) \<in> set (af_errors f))
      \<and> (\<forall>a. query_get a_id (appointments st) i = Some a \<longrightarrow>
            (\<exists>f err. edit_appointment i e st req
                        = (Render (appointment_form_html f Edit_title), cookie req, st)
                    \<and> (''patient_id'', err) \<in> set (af_errors f)))"
  proof (intro allI impI conjI)
    fix w
    assume h: "form req ''patient_id'' = Some w
           \<and> (\<forall>p \<in> set (patients st). py_int e w \<noteq> Some (p_id p))"
    from patient_id_rejected[OF sub conjunct1[OF h] conjunct2[OF h], of None]
    obtain err where "(''patient_id'', err) \<in> set (af_errors (AppointmentForm_validate_on_submit e st None req))" ..
    then show "\<exists>f err. add_appointment e st req
                    = (Render (appointment_form_html f Add_title), cookie req, st)
                \<and> (''patient_id'', err) \<in> set (af_errors f)"
      by (rule add_rejects[OF sub])
  next
    fix w a
    assume h: "form req ''patient_id'' = Some w
           \<and> (\<forall>p \<in> set (patients st). py_int e w \<noteq> Some (p_id p))"
      and a: "query_get a_id (appointments st) i = Some a"
    from patient_id_rejected[OF sub conjunct1[OF h] conjunct2[OF h], of "Some a"]
    obtain err where "(''patient_id'', err) \<in> set (af_errors (AppointmentForm_validate_on_submit e st (Some a) req))" ..
    then show "\<exists>f err. edit_appointment i e st req
                        = (Render (appointment_form_html f Edit_title), cookie req, st)
                    \<and> (''patient_id'', err) \<in> set (af_errors f)"
      by (rule edit_rejects[OF sub a])
  qed
  have 2: "\<forall>w. form req ''doctor_id'' = Some w
           \<and> (\<forall>d \<in> set (doctors st). py_int e w \<noteq> Some (d_id d)) \<longrightarrow>
        (\<exists>f err. add_appointment e st req
                    = (Render (appointment_form_html f Add_title), cookie req, st)
                \<and> (''doctor_id'', err) \<in> set (af_errors f))
      \<and> (\<forall>a. query_get a_id (appointments st) i = Some a \<longrightarrow>
            (\<exists>f err. edit_appointment i e st req
                        = (Render (appointment_form_html f Edit_title), cookie req, st)
                    \<and> (''doctor_id'', err) \<in> set (af_errors f)))"
  proof (intro allI impI conjI)
    fix w
    assume h: "form req ''doctor_id'' = Some w
           \<and> (\<forall>d \<in> set (doctors st). py_int e w \<noteq> Some (d_id d))"
    from doctor_id_rejected[OF sub conjunct1[OF h] conjunct2[OF h], of None]
    obtain err where "(''doctor_id'', err) \<in> set (af_errors (AppointmentForm_validate_on_submit e st None req))" ..
    then show "\<exists>f err. add_appointment e st req
                    = (Render (appointment_form_html f Add_title), cookie req, st)
                \<and> (''doctor_id'', err) \<in> set (af_errors f)"
      by (rule add_rejects[OF sub])
  next
    fix w a
    assume h: "form req ''doctor_id'' = Some w
           \<and> (\<forall>d \<in> set (doctors st). py_int e w \<noteq> Some (d_id d))"
      and a: "query_get a_id (appointments st) i = Some a"
    from doctor_id_rejected[OF sub conjunct1[OF h] conjunct2[OF h], of "Some a"]
    obtain err where "(''doctor_id'', err) \<in> set (af_errors (AppointmentForm_validate_on_submit e st (Some a) req))" ..
    then show "\<exists>f err. edit_appointment i e st req
                        = (Render (appointment_form_html f Edit_title), cookie req, st)
                    \<and> (''doctor_id'', err) \<in> set (af_errors f)"
      by (rule edit_rejects[OF sub a])
  qed
  have 3: "\<forall>r s' st'. add_appointment e st req = (r, s', st') \<longrightarrow>
        st' = st
        \<or> (\<exists>a. st' = st\<lparr>appointments := appointments st @ [a]\<rparr>
               \<and> patient_id a \<in> p_id ` set (patients st)
               \<and> doctor_id a \<in> d_id ` set (doctors st))"
  proof (intro allI impI)
    fix r s' st' assume "add_appointment e st req = (r, s', st')"
    from add_appointment_unchanged_or_stored[OF this]
    show "st' = st
        \<or> (\<exists>a. st' = st\<lparr>appointments := appointments st @ [a]\<rparr>
               \<and> patient_id a \<in> p_id ` set (patients st)
               \<and> doctor_id a \<in> d_id ` set (doctors st))"
    proof (elim disjE exE conjE)
      assume "st' = st" then show ?thesis by (rule disjI1)
    next
      fix a assume "st' = st\<lparr>appointments := appointments st @ [a]\<rparr>"
        "patient_id a \<in> p_id ` set (patients st)" "doctor_id a \<in> d_id ` set (doctors st)"
      then show ?thesis by (intro disjI2 exI[of _ a] conjI)
    qed
  qed
  have 4: "\<forall>r s' st'. edit_appointment i e st req = (r, s', st') \<longrightarrow>
        st' = st
        \<or> (\<exists>pid did v t. pid \<in> p_id ` set (patients st) \<and> did \<in> d_id ` set (doctors st)
               \<and> st' = st\<lparr>appointments := map (\<lambda>r. if a_id r = i
                     then r\<lparr>patient_id := pid, doctor_id := did, appointment_date := t,
                            status := Some v\<rparr>
                     else r) (appointments st)\<rparr>)"
  proof (intro allI impI)
    fix r s' st' assume "edit_appointment i e st req = (r, s', st')"
    from edit_appointment_unchanged_or_stored[OF this]
    show "st' = st
        \<or> (\<exists>pid did v t. pid \<in> p_id ` set (patients st) \<and> did \<in> d_id ` set (doctors st)
               \<and> st' = st\<lparr>appointments := map (\<lambda>r. if a_id r = i
                     then r\<lparr>patient_id := pid, doctor_id := did, appointment_date := t,
                            status := Some v\<rparr>
                     else r) (appointments st)\<rparr>)"
    proof (elim disjE exE conjE)
      assume "st' = st" then show ?thesis by (rule disjI1)
    next
      fix pid did v t assume "pid \<in> p_id ` set (patients st)" "did \<in> d_id ` set (doctors st)"
        "st' = st\<lparr>appointments := map (\<lambda>r. if a_id r = i
                     then r\<lparr>patient_id := pid, doctor_id := did, appointment_date := t,
                            status := Some v\<rparr>
                     else r) (appointments st)\<rparr>"
      then show ?thesis by (intro disjI2 exI[of _ pid] exI[of _ did] exI[of _ v] exI[of _ t] conjI)
    qed
  qed
  show ?thesis by (rule conjI[OF 1 conjI[OF 2 conjI[OF 3 4]]])
qed

theorem appointment_references_exist_witness:
  "py_int ex_env (ascii ''7'') = Some 7
   \<and> map p_id (patients ex_db) = [1, 2]
   \<and> (\<exists>f err. add_appointment ex_env ex_db
          (ex_request POST E_add_appointment [(''patient_id'', ascii ''7''), (''doctor_id'', ascii ''2''),
             (''appointment_date'', ascii ''2024-03-15 14:30''), (''status'', status_cancelled)] admin_session)
        = (Render (appointment_form_html f Add_title), admin_session, ex_db)
      \<and> (''patient_id'', err) \<in> set (af_errors f))
   \<and> (\<exists>a. snd (snd (add_appointment ex_env ex_db
          (ex_request POST E_add_appointment [(''patient_id'', ascii ''2''), (''doctor_id'', ascii ''2''),
             (''appointment_date'', ascii ''2024-03-15 14:30''), (''status'', status_cancelled)] admin_session)))
        = ex_db\<lparr>appointments := appointments ex_db @ [a]\<rparr>
      \<and> patient_id a \<in> p_id ` set (patients ex_db)
      \<and> doctor_id a \<in> d_id ` set (doctors ex_db))"
proof -
  let ?bad = "ex_request POST E_add_appointment [(''patient_id'', ascii ''7''), (''doctor_id'', ascii ''2''),
             (''appointment_date'', ascii ''2024-03-15 14:30''), (''status'', status_cancelled)] admin_session"
  let ?good = "ex_request POST E_add_appointment [(''patient_id'', ascii ''2''), (''doctor_id'', ascii ''2''),
             (''appointment_date'', ascii ''2024-03-15 14:30''), (''status'', status_cancelled)] admin_session"
  have h: "\<forall>p \<in> set (patients ex_db). py_int ex_env (ascii ''7'') \<noteq> Some (p_id p)"
    by (simp add: ex_db_def ex_env_def ex_int_def isdigit_def)
  have mb: "meth ?bad = POST" and mg: "meth ?good = POST" by simp_all
  have fb: "form ?bad ''patient_id'' = Some (ascii ''7'')" by simp
  note B = appointment_references_exist[OF mb, where e = ex_env and st = ex_db, THEN conjunct1,
      rule_format, OF conjI[OF fb h], THEN conjunct1]
  have 1: "\<exists>f err. add_appointment ex_env ex_db ?bad
        = (Render (appointment_form_html f Add_title), admin_session, ex_db)
      \<and> (''patient_id'', err) \<in> set (af_errors f)"
    using B by simp
  have nsp: "\<not> isspace (of_char CHR ''2'')" by (simp add: isspace_def)
  have vg: "af_errors (AppointmentForm_validate_on_submit ex_env ex_db None ?good) = []"
    using ex_appointment_form_valid[OF nsp] by simp
  have sg: "is_submitted ?good" by simp
  have dg: "form ?good ''appointment_date'' = Some (ascii ''2024-03-15 14:30'')" by simp
  from good_date_added[OF sg dg strptime_examples(2) vg] obtain a0 where
    a0: "add_appointment ex_env ex_db ?good
           = (Redirect E_appointments, flash M_appointment_added C_success (cookie ?good),
              ex_db\<lparr>appointments := appointments ex_db @ [a0]\<rparr>)" by blast
  note G = appointment_references_exist[OF mg, where e = ex_env and st = ex_db, THEN conjunct2,
      THEN conjunct2, THEN conjunct1, rule_format, OF a0]
  have ne: "ex_db\<lparr>appointments := appointments ex_db @ [a0]\<rparr> \<noteq> ex_db"
  proof
    assume "ex_db\<lparr>appointments := appointments ex_db @ [a0]\<rparr> = ex_db"
    then have "appointments (ex_db\<lparr>appointments := appointments ex_db @ [a0]\<rparr>) = appointments ex_db"
      by (rule arg_cong)
    then show False by simp
  qed
  from G ne have 2: "\<exists>a. ex_db\<lparr>appointments := appointments ex_db @ [a0]\<rparr>
          = ex_db\<lparr>appointments := appointments ex_db @ [a]\<rparr>
      \<and> patient_id a \<in> p_id ` set (patients ex_db)
      \<and> doctor_id a \<in> d_id ` set (doctors ex_db)"
    by (elim disjE) simp_all
  have 3: "snd (snd (add_appointment ex_env ex_db ?good)) = ex_db\<lparr>appointments := appointments ex_db @ [a0]\<rparr>"
    by (simp only: a0 snd_conv)
  have h1: "py_int ex_env (ascii ''7'') = Some 7"
    by (simp add: ex_env_def ex_int_def isdigit_def)
  have h2: "map p_id (patients ex_db) = [1, 2]"
    by (simp add: ex_db_def)
  show ?thesis by (intro conjI) (rule h1, rule h2, rule 1, simp only: 3, rule 2)
qed

lemma status_choices_distinct: "distinct status_choices"
  by (simp add: status_choices_def status_scheduled_def status_completed_def status_cancelled_def)

lemma add_appointment_Redirect:
  assumes "fst (add_appointment e st req) = Redirect ep"
  shows "is_submitted req \<and> af_errors (AppointmentForm_validate_on_submit e st None req) = []
       \<and> (\<exists>t pid did. add_appointment e st req
             = (Redirect E_appointments, flash M_appointment_added C_success (cookie req),
                Appointment_add pid did t (af_status (AppointmentForm_validate_on_submit e st None req)) st))"
  using assms
  by (auto simp: add_appointment_def Let_def split: if_splits parsed.splits option.splits)

lemma edit_appointment_Redirect:
  assumes "fst (edit_appointment i e st req) = Redirect ep"
  shows "\<exists>a. query_get a_id (appointments st) i = Some a \<and> is_submitted req
       \<and> af_errors (AppointmentForm_validate_on_submit e st (Some a) req) = []
       \<and> (\<exists>t pid did. edit_appointment i e st req
             = (Redirect E_appointments, flash M_appointment_updated C_success (cookie req),
                st\<lparr>appointments := map (\<lambda>r. if a_id r = i
                     then r\<lparr>patient_id := pid, doctor_id := did, appointment_date := t,
                            status := af_status (AppointmentForm_validate_on_submit e st (Some a) req)\<rparr>
                     else r) (appointments st)\<rparr>))"
  using assms
  by (auto simp: edit_appointment_def Let_def split: if_splits parsed.splits option.splits)

lemma status_rejected_add:
  assumes "is_submitted req" and "form req ''status'' = Some v" and "v \<notin> set status_choices"
  shows "\<exists>f. add_appointment e st req = (Render (appointment_form_html f Add_title), cookie req, st)
           \<and> (''status'', NotValidChoice) \<in> set (af_errors f) \<and> af_status f = Some v"
proof -
  note r = status_rejected[OF assms, of e st None]
  then have "af_errors (AppointmentForm_validate_on_submit e st None req) \<noteq> []" by auto
  from add_appointment_invalid[OF assms(1) this] r show ?thesis by blast
qed

lemma status_rejected_edit:
  assumes "is_submitted req" and "form req ''status'' = Some v" and "v \<notin> set status_choices"
    and "query_get a_id (appointments st) i = Some a"
  shows "\<exists>f. edit_appointment i e st req = (Render (appointment_form_html f Edit_title), cookie req, st)
           \<and> (''status'', NotValidChoice) \<in> set (af_errors f) \<and> af_status f = Some v"
proof -
  note r = status_rejected[OF assms(1-3), of e st "Some a"]
  then have "af_errors (AppointmentForm_validate_on_submit e st (Some a) req) \<noteq> []" by auto
  from edit_appointment_invalid[OF assms(1,4) this] r show ?thesis
    by (intro exI[of _ "(AppointmentForm_validate_on_submit e st (Some a) req)
               \<lparr>af_appointment_date := Text (strftime (appointment_date a))\<rparr>"]) simp
qed

lemma status_missing_add:
  assumes "is_submitted req" and "form req ''status'' = None"
  shows "\<exists>f. add_appointment e st req = (Render (appointment_form_html f Add_title), cookie req, st)
           \<and> (''status'', NotValidChoice) \<in> set (af_errors f)"
proof -
  note r = status_missing[OF assms, of e st]
  then have "af_errors (AppointmentForm_validate_on_submit e st None req) \<noteq> []" by auto
  from add_appointment_invalid[OF assms(1) this] r show ?thesis by blast
qed

lemma status_stored_add:
  assumes "form req ''status'' = Some v" and "fst (add_appointment e st req) = Redirect E_appointments"
  shows "v \<in> set status_choices
       \<and> (\<exists>a. snd (snd (add_appointment e st req)) = st\<lparr>appointments := appointments st @ [a]\<rparr>
              \<and> status a = Some v)"
proof -
  let ?f = "AppointmentForm_validate_on_submit e st None req"
  from add_appointment_Redirect[OF assms(2)] obtain t pid did where
    sub: "is_submitted req" and ok: "af_errors ?f = []"
    and r: "add_appointment e st req
             = (Redirect E_appointments, flash M_appointment_added C_success (cookie req),
                Appointment_add pid did t (af_status ?f) st)" by blast
  have s: "af_status ?f = Some v" using af_posted(2)[OF sub assms(1)] .
  from af_valid[OF sub ok] s have "v \<in> set status_choices" by auto
  moreover have "\<exists>a. snd (snd (add_appointment e st req)) = st\<lparr>appointments := appointments st @ [a]\<rparr>
              \<and> status a = Some v"
    unfolding r s
    by (intro exI[of _ "\<lparr>a_id = next_id (map a_id (appointments st)), patient_id = pid,
          doctor_id = did, appointment_date = t, status = Some v\<rparr>"])
       (simp add: Appointment_add_def)
  ultimately show ?thesis ..
qed

lemma status_stored_edit:
  assumes "form req ''status'' = Some v" and "fst (edit_appointment i e st req) = Redirect E_appointments"
  shows "v \<in> set status_choices
       \<and> (\<forall>a' \<in> set (appointments (snd (snd (edit_appointment i e st req)))).
              a_id a' = i \<longrightarrow> status a' = Some v)"
proof -
  from edit_appointment_Redirect[OF assms(2)] obtain a t pid did where
    sub: "is_submitted req"
    and ok: "af_errors (AppointmentForm_validate_on_submit e st (Some a) req) = []"
    and r: "edit_appointment i e st req
             = (Redirect E_appointments, flash M_appointment_updated C_success (cookie req),
                st\<lparr>appointments := map (\<lambda>r. if a_id r = i
                     then r\<lparr>patient_id := pid, doctor_id := did, appointment_date := t,
                            status := af_status (AppointmentForm_validate_on_submit e st (Some a) req)\<rparr>
                     else r) (appointments st)\<rparr>)" by blast
  have s: "af_status (AppointmentForm_validate_on_submit e st (Some a) req) = Some v"
    using af_posted(2)[OF sub assms(1)] .
  from af_valid[OF sub ok] s have "v \<in> set status_choices" by auto
  moreover have "\<forall>a' \<in> set (appointments (snd (snd (edit_appointment i e st req)))).
              a_id a' = i \<longrightarrow> status a' = Some v"
  proof (intro ballI impI)
    fix a' assume m: "a' \<in> set (appointments (snd (snd (edit_appointment i e st req))))"
      and k: "a_id a' = i"
    define F where "F = (\<lambda>r :: Appointment. if a_id r = i
        then r\<lparr>patient_id := pid, doctor_id := did, appointment_date := t, status := Some v\<rparr>
        else r)"
    have "appointments (snd (snd (edit_appointment i e st req))) = map F (appointments st)"
      by (simp add: r s F_def)
    with m have "a' \<in> F ` set (appointments st)" by simp
    then obtain r0 where r0: "a' = F r0" ..
    show "status a' = Some v"
    proof (cases "a_id r0 = i")
      case True
      then show ?thesis by (simp add: r0 F_def)
    next
      case False
      with k show ?thesis by (simp add: r0 F_def)
    qed
  qed
  ultimately show ?thesis ..
qed

lemma status_posted_add:
  assumes "fst (add_appointment e st q) = Redirect E_appointments"
  shows "\<exists>w a. form q ''status'' = Some w \<and> w \<in> set status_choices
           \<and> snd (snd (add_appointment e st q)) = st\<lparr>appointments := appointments st @ [a]\<rparr>
           \<and> status a = Some w"
proof -
  from add_appointment_Redirect[OF assms] have sub: "is_submitted q"
    and ok: "af_errors (AppointmentForm_validate_on_submit e st None q) = []" by blast+
  have "form q ''status'' \<noteq> None"
  proof
    assume "form q ''status'' = None"
    from status_missing[OF sub this, of e st] ok show False by simp
  qed
  then obtain w where w: "form q ''status'' = Some w" by blast
  from status_stored_add[OF w assms] w show ?thesis by blast
qed

lemma status_kept_edit:
  assumes "form q ''status'' = None" and "query_get a_id (appointments st) i = Some a"
    and "fst (edit_appointment i e st q) = Redirect E_appointments"
  shows "(\<exists>w. status a = Some w \<and> w \<in> set status_choices)
       \<and> (\<forall>a' \<in> set (appointments (snd (snd (edit_appointment i e st q)))).
              a_id a' = i \<longrightarrow> status a' = status a)"
proof -
  from edit_appointment_Redirect[OF assms(3)] assms(2) obtain t pid did where
    sub: "is_submitted q"
    and ok: "af_errors (AppointmentForm_validate_on_submit e st (Some a) q) = []"
    and r: "edit_appointment i e st q
             = (Redirect E_appointments, flash M_appointment_updated C_success (cookie q),
                st\<lparr>appointments := map (\<lambda>r. if a_id r = i
                     then r\<lparr>patient_id := pid, doctor_id := did, appointment_date := t,
                            status := af_status (AppointmentForm_validate_on_submit e st (Some a) q)\<rparr>
                     else r) (appointments st)\<rparr>)" by auto
  have s: "af_status (AppointmentForm_validate_on_submit e st (Some a) q) = status a"
    using assms(1) by (simp add: af_fields(4)[OF sub] process_str_def)
  from af_valid[OF sub ok] s have 1: "\<exists>w. status a = Some w \<and> w \<in> set status_choices" by auto
  have 2: "\<forall>a' \<in> set (appointments (snd (snd (edit_appointment i e st q)))).
              a_id a' = i \<longrightarrow> status a' = status a"
  proof (intro ballI impI)
    fix a' assume m: "a' \<in> set (appointments (snd (snd (edit_appointment i e st q))))"
      and k: "a_id a' = i"
    define F where "F = (\<lambda>r :: Appointment. if a_id r = i
        then r\<lparr>patient_id := pid, doctor_id := did, appointment_date := t, status := status a\<rparr>
        else r)"
    have "appointments (snd (snd (edit_appointment i e st q))) = map F (appointments st)"
      by (simp add: r s F_def)
    with m have "a' \<in> F ` set (appointments st)" by simp
    then obtain r0 where r0: "a' = F r0" ..
    show "status a' = status a"
    proof (cases "a_id r0 = i")
      case True
      then show ?thesis by (simp add: r0 F_def)
    next
      case False
      with k show ?thesis by (simp add: r0 F_def)
    qed
  qed
  from 1 2 show ?thesis ..
qed

lemma status_missing_None:
  assumes "is_submitted req" and "form req ''status'' = None"
  shows "af_status (AppointmentForm_validate_on_submit e st None req) = None"
  using assms(2) by (simp add: af_fields(4)[OF assms(1)] process_str_def)

lemma ex_appointment_form_no_status:
  assumes "\<not> isspace c"
  shows "af_errors (AppointmentForm_validate_on_submit ex_env ex_db None
           (ex_request POST ep [(''patient_id'', ascii ''2''), (''doctor_id'', ascii ''2''),
              (''appointment_date'', c # cs)] admin_session)) = [(''status'', NotValidChoice)]"
  using assms
  by (simp add: af_errors_eq af_fields process_int_def process_text_def process_str_def
      ex_env_def ex_int_def isdigit_def pre_validate_def DataRequired_int_def
      DataRequired_field_def DataRequired_starts status_choices_def csrf_errors_def ex_db_def tag_def)

lemma query_get_SomeD: "query_get key rows i = Some r \<Longrightarrow> r \<in> set rows \<and> key r = i"
  by (auto simp: query_get_def find_Some_iff)

text \<open>
  Claim C7. The status of an appointment is one of the three values of
  \<open>status_choices\<close> (the source's words for scheduled, completed and cancelled). A
  submission of the appointment form (create or update) that posts any other status is
  answered with the form rendered again, the error that the value is not a valid choice
  on the field \<open>status\<close>, the posted value still in the field, and nothing written. When
  a view stores an appointment, the stored status is the posted one, unchanged. No
  status is ever filled in for a submission that leaves it out: a create submission
  without a status is rejected with the same error and nothing written, so every
  appointment the create view stores was posted with one of the three values; an update
  submission without a status, when it is stored, keeps the status the row had.
\<close>

theorem appointment_status_enumeration:
  assumes "meth req = POST" and "form req ''status'' = Some v"
  shows
    "(v \<notin> set status_choices \<longrightarrow>
        (\<exists>f. add_appointment e st req = (Render (appointment_form_html f Add_title), cookie req, st)
            \<and> (''status'', NotValidChoice) \<in> set (af_errors f) \<and> af_status f = Some v)
      \<and> (\<forall>a. query_get a_id (appointments st) i = Some a \<longrightarrow>
            (\<exists>f. edit_appointment i e st req = (Render (appointment_form_html f Edit_title), cookie req, st)
                \<and> (''status'', NotValidChoice) \<in> set (af_errors f) \<and> af_status f = Some v)))
   \<and> (fst (add_appointment e st req) = Redirect E_appointments \<longrightarrow>
        v \<in> set status_choices
        \<and> (\<exists>a. snd (snd (add_appointment e st req)) = st\<lparr>appointments := appointments st @ [a]\<rparr>
               \<and> status a = Some v))
   \<and> (fst (edit_appointment i e st req) = Redirect E_appointments \<longrightarrow>
        v \<in> set status_choices
        \<and> (\<forall>a' \<in> set (appointments (snd (snd (edit_appointment i e st req)))).
               a_id a' = i \<longrightarrow> status a' = Some v))
   \<and> (\<forall>q :: request. meth q = POST \<and> form q ''status'' = None \<longrightarrow>
        (\<exists>f. add_appointment e st q = (Render (appointment_form_html f Add_title), cookie q, st)
            \<and> (''status'', NotValidChoice) \<in> set (af_errors f) \<and> af_status f = None))
   \<and> status_choices = [status_scheduled, status_completed, status_cancelled]
   \<and> distinct status_choices
   \<and> (\<forall>q :: request. fst (add_appointment e st q) = Redirect E_appointments \<longrightarrow>
        (\<exists>w a. form q ''status'' = Some w \<and> w \<in> set status_choices
              \<and> snd (snd (add_appointment e st q)) = st\<lparr>appointments := appointments st @ [a]\<rparr>
              \<and> status a = Some w))
   \<and> (\<forall>(q :: request) a. form q ''status'' = None \<and> query_get a_id (appointments st) i = Some a
          \<and> fst (edit_appointment i e st q) = Redirect E_appointments \<longrightarrow>
        (\<exists>w. status a = Some w \<and> w \<in> set status_choices)
        \<and> (\<forall>a' \<in> set (appointments (snd (snd (edit_appointment i e st q)))).
               a_id a' = i \<longrightarrow> status a' = status a))"
proof -
  have sub: "is_submitted req" using assms(1) by simp
  have 1: "v \<notin> set status_choices \<longrightarrow>
        (\<exists>f. add_appointment e st req = (Render (appointment_form_html f Add_title), cookie req, st)
            \<and> (''status'', NotValidChoice) \<in> set (af_errors f) \<and> af_status f = Some v)
      \<and> (\<forall>a. query_get a_id (appointments st) i = Some a \<longrightarrow>
            (\<exists>f. edit_appointment i e st req = (Render (appointment_form_html f Edit_title), cookie req, st)
                \<and> (''status'', NotValidChoice) \<in> set (af_errors f) \<and> af_status f = Some v))"
    by (intro impI conjI allI)
       (rule status_rejected_add[OF sub assms(2)], assumption,
        rule status_rejected_edit[OF sub assms(2)], assumption, assumption)
  have 2: "fst (add_appointment e st req) = Redirect E_appointments \<longrightarrow>
        v \<in> set status_choices
        \<and> (\<exists>a. snd (snd (add_appointment e st req)) = st\<lparr>appointments := appointments st @ [a]\<rparr>
               \<and> status a = Some v)"
    by (rule impI) (rule status_stored_add[OF assms(2)])
  have 3: "fst (edit_appointment i e st req) = Redirect E_appointments \<longrightarrow>
        v \<in> set status_choices
        \<and> (\<forall>a' \<in> set (appointments (snd (snd (edit_appointment i e st req)))).
               a_id a' = i \<longrightarrow> status a' = Some v)"
    by (rule impI) (rule status_stored_edit[OF assms(2)])
  have 4: "\<forall>q :: request. meth q = POST \<and> form q ''status'' = None \<longrightarrow>
        (\<exists>f. add_appointment e st q = (Render (appointment_form_html f Add_title), cookie q, st)
            \<and> (''status'', NotValidChoice) \<in> set (af_errors f) \<and> af_status f = None)"
  proof (intro allI impI)
    fix q :: request assume q: "meth q = POST \<and> form q ''status'' = None"
    then have s: "is_submitted q" by simp
    let ?f = "AppointmentForm_validate_on_submit e st None q"
    note m = status_missing[OF s conjunct2[OF q], of e st]
    then have "af_errors ?f \<noteq> []" by auto
    from add_appointment_invalid[OF s this] m status_missing_None[OF s conjunct2[OF q], of e st]
    show "\<exists>f. add_appointment e st q = (Render (appointment_form_html f Add_title), cookie q, st)
            \<and> (''status'', NotValidChoice) \<in> set (af_errors f) \<and> af_status f = None"
      by (intro exI[of _ ?f]) simp
  qed
  have 5: "status_choices = [status_scheduled, status_completed, status_cancelled]"
    by (rule status_choices_def)
  have 6: "\<forall>q :: request. fst (add_appointment e st q) = Redirect E_appointments \<longrightarrow>
        (\<exists>w a. form q ''status'' = Some w \<and> w \<in> set status_choices
              \<and> snd (snd (add_appointment e st q)) = st\<lparr>appointments := appointments st @ [a]\<rparr>
              \<and> status a = Some w)"
    by (intro allI impI) (rule status_posted_add)
  have 7: "\<forall>(q :: request) a. form q ''status'' = None \<and> query_get a_id (appointments st) i = Some a
          \<and> fst (edit_appointment i e st q) = Redirect E_appointments \<longrightarrow>
        (\<exists>w. status a = Some w \<and> w \<in> set status_choices)
        \<and> (\<forall>a' \<in> set (appointments (snd (snd (edit_appointment i e st q)))).
               a_id a' = i \<longrightarrow> status a' = status a)"
  proof (intro allI impI)
    fix q :: request and a
    assume h: "form q ''status'' = None \<and> query_get a_id (appointments st) i = Some a
          \<and> fst (edit_appointment i e st q) = Redirect E_appointments"
    show "(\<exists>w. status a = Some w \<and> w \<in> set status_choices)
        \<and> (\<forall>a' \<in> set (appointments (snd (snd (edit_appointment i e st q)))).
               a_id a' = i \<longrightarrow> status a' = status a)"
      by (rule status_kept_edit[OF conjunct1[OF h] conjunct1[OF conjunct2[OF h]]
            conjunct2[OF conjunct2[OF h]]])
  qed
  show ?thesis
    by (rule conjI[OF 1 conjI[OF 2 conjI[OF 3 conjI[OF 4 conjI[OF 5
          conjI[OF status_choices_distinct conjI[OF 6 7]]]]]]])
qed

theorem appointment_status_enumeration_witness:
  "ascii ''done'' \<notin> set status_choices
   \<and> (\<exists>f. add_appointment ex_env ex_db
          (ex_request POST E_add_appointment [(''patient_id'', ascii ''2''), (''doctor_id'', ascii ''2''),
             (''appointment_date'', ascii ''2024-03-15 14:30''), (''status'', ascii ''done'')] admin_session)
        = (Render (appointment_form_html f Add_title), admin_session, ex_db)
      \<and> (''status'', NotValidChoice) \<in> set (af_errors f) \<and> af_status f = Some (ascii ''done''))
   \<and> fst (add_appointment ex_env ex_db
          (ex_request POST E_add_appointment [(''patient_id'', ascii ''2''), (''doctor_id'', ascii ''2''),
             (''appointment_date'', ascii ''2024-03-15 14:30''), (''status'', status_cancelled)] admin_session))
       = Redirect E_appointments
   \<and> status_cancelled \<in> set status_choices
   \<and> (\<exists>a. snd (snd (add_appointment ex_env ex_db
          (ex_request POST E_add_appointment [(''patient_id'', ascii ''2''), (''doctor_id'', ascii ''2''),
             (''appointment_date'', ascii ''2024-03-15 14:30''), (''status'', status_cancelled)] admin_session)))
        = ex_db\<lparr>appointments := appointments ex_db @ [a]\<rparr>
      \<and> status a = Some status_cancelled)
   \<and> map_option status (query_get a_id (appointments ex_db) 1) = Some (Some status_scheduled)
   \<and> (\<exists>f. edit_appointment 1 ex_env ex_db
          (ex_request POST (E_edit_appointment 1) [(''patient_id'', ascii ''2''), (''doctor_id'', ascii ''2''),
             (''appointment_date'', ascii ''2024-03-15 14:30''), (''status'', ascii ''done'')] admin_session)
        = (Render (appointment_form_html f Edit_title), admin_session, ex_db)
      \<and> (''status'', NotValidChoice) \<in> set (af_errors f) \<and> af_status f = Some (ascii ''done''))
   \<and> fst (edit_appointment 1 ex_env ex_db
          (ex_request POST (E_edit_appointment 1) [(''patient_id'', ascii ''2''), (''doctor_id'', ascii ''2''),
             (''appointment_date'', ascii ''2024-03-15 14:30''), (''status'', status_cancelled)] admin_session))
       = Redirect E_appointments
   \<and> (\<exists>a'. query_get a_id (appointments (snd (snd (edit_appointment 1 ex_env ex_db
          (ex_request POST (E_edit_appointment 1) [(''patient_id'', ascii ''2''), (''doctor_id'', ascii ''2''),
             (''appointment_date'', ascii ''2024-03-15 14:30''), (''status'', status_cancelled)]
             admin_session))))) 1 = Some a'
      \<and> status a' = Some status_cancelled)"
proof -
  let ?bad = "ex_request POST E_add_appointment [(''patient_id'', ascii ''2''), (''doctor_id'', ascii ''2''),
             (''appointment_date'', ascii ''2024-03-15 14:30''), (''status'', ascii ''done'')] admin_session"
  let ?good = "ex_request POST E_add_appointment [(''patient_id'', ascii ''2''), (''doctor_id'', ascii ''2''),
             (''appointment_date'', ascii ''2024-03-15 14:30''), (''status'', status_cancelled)] admin_session"
  let ?ebad = "ex_request POST (E_edit_appointment 1) [(''patient_id'', ascii ''2''), (''doctor_id'', ascii ''2''),
             (''appointment_date'', ascii ''2024-03-15 14:30''), (''status'', ascii ''done'')] admin_session"
  let ?egood = "ex_request POST (E_edit_appointment 1) [(''patient_id'', ascii ''2''), (''doctor_id'', ascii ''2''),
             (''appointment_date'', ascii ''2024-03-15 14:30''), (''status'', status_cancelled)] admin_session"
  have nd: "ascii ''done'' \<notin> set status_choices"
    by (simp add: status_choices_def status_scheduled_def status_completed_def status_cancelled_def)
  have mb: "meth ?bad = POST" and sb: "form ?bad ''status'' = Some (ascii ''done'')" by simp_all
  have mg: "meth ?good = POST" and sg: "form ?good ''status'' = Some status_cancelled" by simp_all
  have meb: "meth ?ebad = POST" and seb: "form ?ebad ''status'' = Some (ascii ''done'')" by simp_all
  have meg: "meth ?egood = POST" and seg: "form ?egood ''status'' = Some status_cancelled" by simp_all
  note B = appointment_status_enumeration[OF mb sb, where e = ex_env and st = ex_db, THEN conjunct1,
      rule_format, OF nd, THEN conjunct1]
  have 1: "\<exists>f. add_appointment ex_env ex_db ?bad
        = (Render (appointment_form_html f Add_title), admin_session, ex_db)
      \<and> (''status'', NotValidChoice) \<in> set (af_errors f) \<and> af_status f = Some (ascii ''done'')"
    using B by simp
  have nsp: "\<not> isspace (of_char CHR ''2'')" by (simp add: isspace_def)
  have vg: "af_errors (AppointmentForm_validate_on_submit ex_env ex_db None ?good) = []"
    using ex_appointment_form_valid[OF nsp] by simp
  have ig: "is_submitted ?good" by simp
  have dg: "form ?good ''appointment_date'' = Some (ascii ''2024-03-15 14:30'')" by simp
  from good_date_added[OF ig dg strptime_examples(2) vg] obtain a0 where
    a0: "add_appointment ex_env ex_db ?good
           = (Redirect E_appointments, flash M_appointment_added C_success (cookie ?good),
              ex_db\<lparr>appointments := appointments ex_db @ [a0]\<rparr>)" by blast
  have 2: "fst (add_appointment ex_env ex_db ?good) = Redirect E_appointments"
    by (simp only: a0 fst_conv)
  note G = appointment_status_enumeration[OF mg sg, where e = ex_env and st = ex_db, THEN conjunct2,
      THEN conjunct1, rule_format, OF 2]
  obtain a1 where a1: "query_get a_id (appointments ex_db) 1 = Some a1"
    and s1: "status a1 = Some status_scheduled"
    by (simp add: query_get_def ex_db_def)
  have 3: "map_option status (query_get a_id (appointments ex_db) 1) = Some (Some status_scheduled)"
    by (simp add: a1 s1)
  note EB = appointment_status_enumeration[OF meb seb, where e = ex_env and st = ex_db and i = 1,
      THEN conjunct1, rule_format, OF nd, THEN conjunct2, rule_format, OF a1]
  have 4: "\<exists>f. edit_appointment 1 ex_env ex_db ?ebad
        = (Render (appointment_form_html f Edit_title), admin_session, ex_db)
      \<and> (''status'', NotValidChoice) \<in> set (af_errors f) \<and> af_status f = Some (ascii ''done'')"
    using EB by simp
  have veg: "af_errors (AppointmentForm_validate_on_submit ex_env ex_db (Some a1) ?egood) = []"
    using ex_appointment_form_valid[OF nsp] by simp
  have ieg: "is_submitted ?egood" by simp
  have deg: "form ?egood ''appointment_date'' = Some (ascii ''2024-03-15 14:30'')" by simp
  note U = good_date_updated[OF ieg deg strptime_examples(2) a1 veg]
  have 5: "fst (edit_appointment 1 ex_env ex_db ?egood) = Redirect E_appointments"
    by (rule conjunct1[OF U])
  from conjunct2[OF U] obtain a' where
    a': "query_get a_id (appointments (snd (snd (edit_appointment 1 ex_env ex_db ?egood)))) 1 = Some a'"
    by blast
  note EG = appointment_status_enumeration[OF meg seg, where e = ex_env and st = ex_db and i = 1,
      THEN conjunct2, THEN conjunct2, THEN conjunct1, rule_format, OF 5]
  from query_get_SomeD[OF a'] conjunct2[OF EG] have "status a' = Some status_cancelled" by blast
  with a' have 6: "\<exists>a'. query_get a_id (appointments (snd (snd (edit_appointment 1 ex_env ex_db ?egood)))) 1
        = Some a' \<and> status a' = Some status_cancelled" by blast
  show ?thesis
    by (intro conjI)
       (rule nd, rule 1, rule 2, rule conjunct1[OF G], rule conjunct2[OF G], rule 3, rule 4, rule 5,
        rule 6)
qed

text \<open>
  A create submission without a status. The form is posted with a patient and a doctor
  of the clinic and a date that parses, and with no \<open>status\<close>: the answer is the form
  rendered again with the one error that the status is not a valid choice, and no
  appointment is created, with the default status or any other. The same submission
  with the status scheduled added is stored.
\<close>

theorem create_without_status_rejected:
  "strptime (ascii ''2024-03-15 14:30'')
     = Some \<lparr>year = 2024, month = 3, day = 15, hour = 14, minute = 30, second = 0, microsecond = 0\<rparr>
   \<and> (\<exists>f. add_appointment ex_env ex_db
          (ex_request POST E_add_appointment [(''patient_id'', ascii ''2''), (''doctor_id'', ascii ''2''),
             (''appointment_date'', ascii ''2024-03-15 14:30'')] admin_session)
        = (Render (appointment_form_html f Add_title), admin_session, ex_db)
      \<and> af_errors f = [(''status'', NotValidChoice)] \<and> af_status f = None)
   \<and> (\<exists>a. add_appointment ex_env ex_db
          (ex_request POST E_add_appointment [(''patient_id'', ascii ''2''), (''doctor_id'', ascii ''2''),
             (''appointment_date'', ascii ''2024-03-15 14:30''), (''status'', status_scheduled)]
             admin_session)
        = (Redirect E_appointments, flash M_appointment_added C_success admin_session,
           ex_db\<lparr>appointments := appointments ex_db @ [a]\<rparr>)
      \<and> status a = Some status_scheduled)"
proof -
  let ?q = "ex_request POST E_add_appointment [(''patient_id'', ascii ''2''), (''doctor_id'', ascii ''2''),
             (''appointment_date'', ascii ''2024-03-15 14:30'')] admin_session"
  let ?g = "ex_request POST E_add_appointment [(''patient_id'', ascii ''2''), (''doctor_id'', ascii ''2''),
             (''appointment_date'', ascii ''2024-03-15 14:30''), (''status'', status_scheduled)]
             admin_session"
  let ?f = "AppointmentForm_validate_on_submit ex_env ex_db None ?q"
  have nsp: "\<not> isspace (of_char CHR ''2'')" by (simp add: isspace_def)
  have sq: "is_submitted ?q" by simp
  have er: "af_errors ?f = [(''status'', NotValidChoice)]"
    using ex_appointment_form_no_status[OF nsp] by simp
  then have "af_errors ?f \<noteq> []" by simp
  from add_appointment_invalid[OF sq this]
  have r: "add_appointment ex_env ex_db ?q = (Render (appointment_form_html ?f Add_title), admin_session, ex_db)"
    by simp
  have n: "af_status ?f = None"
    by (rule status_missing_None[OF sq]) simp
  have 1: "\<exists>f. add_appointment ex_env ex_db ?q
        = (Render (appointment_form_html f Add_title), admin_session, ex_db)
      \<and> af_errors f = [(''status'', NotValidChoice)] \<and> af_status f = None"
    using r er n by blast
  have sg: "is_submitted ?g" by simp
  have vg: "af_errors (AppointmentForm_validate_on_submit ex_env ex_db None ?g) = []"
    using nsp
    by (simp add: af_errors_eq af_fields process_int_def process_text_def process_str_def
      ex_env_def ex_int_def isdigit_def pre_validate_def DataRequired_int_def
      DataRequired_field_def DataRequired_starts status_choices_def csrf_errors_def ex_db_def)
  have dg: "form ?g ''appointment_date'' = Some (ascii ''2024-03-15 14:30'')" by simp
  have stg: "form ?g ''status'' = Some status_scheduled" by simp
  from add_appointment_stored[OF sg vg dg strptime_examples(2)] obtain pid did w where
    g: "add_appointment ex_env ex_db ?g
         = (Redirect E_appointments, flash M_appointment_added C_success (cookie ?g),
            ex_db\<lparr>appointments := appointments ex_db @
               [\<lparr>a_id = next_id (map a_id (appointments ex_db)), patient_id = pid, doctor_id = did,
                 appointment_date = \<lparr>year = 2024, month = 3, day = 15, hour = 14, minute = 30,
                                      second = 0, microsecond = 0\<rparr>,
                 status = Some w\<rparr>]\<rparr>)"
    and w: "af_status (AppointmentForm_validate_on_submit ex_env ex_db None ?g) = Some w"
    by blast
  have "w = status_scheduled" using w af_posted(2)[OF sg stg, of ex_env ex_db None] by simp
  with g have 2: "\<exists>a. add_appointment ex_env ex_db ?g
        = (Redirect E_appointments, flash M_appointment_added C_success admin_session,
           ex_db\<lparr>appointments := appointments ex_db @ [a]\<rparr>)
      \<and> status a = Some status_scheduled"
    by (intro exI conjI) (simp, simp)
  show ?thesis by (rule conjI[OF strptime_examples(2) conjI[OF 1 2]])
qed

section \<open>The e-mail of a patient or doctor\<close>

lemma filter_tag:
  "filter (\<lambda>x. fst x \<noteq> n) (tag m errs) = (if m = n then [] else tag m errs)"
  by (induction errs) (simp_all add: tag_def)

lemma filter_csrf: "filter (\<lambda>x. fst x \<noteq> ''email'') (csrf_errors req) = csrf_errors req"
  by (simp add: csrf_errors_def)

lemma email_chain:
  "run_validation_chain [] [Length 120 (Some v), Email e (Some v)] = []
     \<longleftrightarrow> length v \<le> 120 \<and> validate_email e v"
  by (simp add: Length_def Email_def)

lemma chain_required:
  "run_validation_chain [] (DataRequired d # vs) = [] \<Longrightarrow> d \<noteq> None"
  by (cases d) (simp_all add: DataRequired_def)

lemmas pf_defs = PatientForm_validate_on_submit_def PatientForm_validate_def PatientForm_init_def
  formdata_def Let_def

lemmas df_defs = DoctorForm_validate_on_submit_def DoctorForm_validate_def DoctorForm_init_def
  formdata_def Let_def

lemma pf_errors_split:
  assumes "is_submitted req" and "form req ''email'' = Some v"
  shows "pf_errors (PatientForm_validate_on_submit e obj req) = []
     \<longleftrightarrow> filter (\<lambda>x. fst x \<noteq> ''email'') (pf_errors (PatientForm_validate_on_submit e obj req)) = []
         \<and> length v \<le> 120 \<and> validate_email e v"
  using assms
  by (simp add: pf_defs process_str_def filter_tag filter_csrf email_chain del: run_validation_chain.simps)
     blast

lemma pf_valid_names:
  assumes "is_submitted req" and "pf_errors (PatientForm_validate_on_submit e obj req) = []"
  shows "pf_full_name (PatientForm_validate_on_submit e obj req) \<noteq> None
       \<and> pf_phone (PatientForm_validate_on_submit e obj req) \<noteq> None"
  using assms
  by (auto simp: pf_defs dest!: chain_required simp del: run_validation_chain.simps)

lemma add_patient_success_iff:
  assumes "is_submitted req"
  shows "fst (add_patient e st req) = Redirect E_patients
     \<longleftrightarrow> pf_errors (PatientForm_validate_on_submit e None req) = []"
  using assms pf_valid_names[OF assms, of e None]
  by (auto simp: add_patient_def Let_def split: option.splits)

lemma edit_patient_success_iff:
  assumes "is_submitted req" and "query_get p_id (patients st) i = Some p"
  shows "fst (edit_patient i e st req) = Redirect E_patients
     \<longleftrightarrow> pf_errors (PatientForm_validate_on_submit e (Some p) req) = []"
  using assms pf_valid_names[OF assms(1), of e "Some p"]
  by (auto simp: edit_patient_def Let_def split: option.splits)

lemma df_errors_split:
  assumes "is_submitted req" and "form req ''email'' = Some v"
  shows "df_errors (DoctorForm_validate_on_submit e obj req) = []
     \<longleftrightarrow> filter (\<lambda>x. fst x \<noteq> ''email'') (df_errors (DoctorForm_validate_on_submit e obj req)) = []
         \<and> length v \<le> 120 \<and> validate_email e v"
  using assms
  by (simp add: df_defs process_str_def filter_tag filter_csrf email_chain del: run_validation_chain.simps)
     blast

lemma df_valid_names:
  assumes "is_submitted req" and "df_errors (DoctorForm_validate_on_submit e obj req) = []"
  shows "df_full_name (DoctorForm_validate_on_submit e obj req) \<noteq> None
       \<and> df_specialty (DoctorForm_validate_on_submit e obj req) \<noteq> None
       \<and> df_phone (DoctorForm_validate_on_submit e obj req) \<noteq> None"
  using assms
  by (auto simp: df_defs dest!: chain_required simp del: run_validation_chain.simps)

lemma add_doctor_success_iff:
  assumes "is_submitted req"
  shows "fst (add_doctor e st req) = Redirect E_doctors
     \<longleftrightarrow> df_errors (DoctorForm_validate_on_submit e None req) = []"
  using assms df_valid_names[OF assms, of e None]
  by (auto simp: add_doctor_def Let_def split: option.splits)

lemma edit_doctor_success_iff:
  assumes "is_submitted req" and "query_get d_id (doctors st) i = Some d"
  shows "fst (edit_doctor i e st req) = Redirect E_doctors
     \<longleftrightarrow> df_errors (DoctorForm_validate_on_submit e (Some d) req) = []"
  using assms df_valid_names[OF assms(1), of e "Some d"]
  by (auto simp: edit_doctor_def Let_def split: option.splits)

lemma add_patient_invalid:
  assumes "is_submitted req" and "pf_errors (PatientForm_validate_on_submit e None req) \<noteq> []"
  shows "add_patient e st req
       = (Render (patient_form_html (PatientForm_validate_on_submit e None req) Add_title),
          cookie req, st)"
  using assms by (simp add: add_patient_def Let_def)

text \<open>
  Claim C8, as amended. For the patient form and the doctor form, on create and on update:
  when a submission posts a non-empty e-mail and every other field of the form is valid
  (the form has no error on a field other than \<open>email\<close>), it succeeds exactly when the
  e-mail has at most 120 characters and the syntax check accepts it.
\<close>

theorem email_accepted_iff:
  assumes "meth req = POST" and "form req ''email'' = Some v" and "v \<noteq> []"
  shows
    "(filter (\<lambda>x. fst x \<noteq> ''email'') (pf_errors (PatientForm_validate_on_submit e None req)) = [] \<longrightarrow>
        (fst (add_patient e st req) = Redirect E_patients
           \<longleftrightarrow> length v \<le> 120 \<and> validate_email e v))
   \<and> (\<forall>p. query_get p_id (patients st) i = Some p
           \<and> filter (\<lambda>x. fst x \<noteq> ''email'') (pf_errors (PatientForm_validate_on_submit e (Some p) req)) = []
        \<longrightarrow> (fst (edit_patient i e st req) = Redirect E_patients
               \<longleftrightarrow> length v \<le> 120 \<and> validate_email e v))
   \<and> (filter (\<lambda>x. fst x \<noteq> ''email'') (df_errors (DoctorForm_validate_on_submit e None req)) = [] \<longrightarrow>
        (fst (add_doctor e st req) = Redirect E_doctors
           \<longleftrightarrow> length v \<le> 120 \<and> validate_email e v))
   \<and> (\<forall>d. query_get d_id (doctors st) i = Some d
           \<and> filter (\<lambda>x. fst x \<noteq> ''email'') (df_errors (DoctorForm_validate_on_submit e (Some d) req)) = []
        \<longrightarrow> (fst (edit_doctor i e st req) = Redirect E_doctors
               \<longleftrightarrow> length v \<le> 120 \<and> validate_email e v))"
proof -
  have sub: "is_submitted req" using assms(1) by simp
  note em = assms(2)
  have 1: "filter (\<lambda>x. fst x \<noteq> ''email'') (pf_errors (PatientForm_validate_on_submit e None req)) = [] \<longrightarrow>
        (fst (add_patient e st req) = Redirect E_patients
           \<longleftrightarrow> length v \<le> 120 \<and> validate_email e v)"
    by (simp add: add_patient_success_iff[OF sub] pf_errors_split[OF sub em])
  have 2: "\<forall>p. query_get p_id (patients st) i = Some p
           \<and> filter (\<lambda>x. fst x \<noteq> ''email'') (pf_errors (PatientForm_validate_on_submit e (Some p) req)) = []
        \<longrightarrow> (fst (edit_patient i e st req) = Redirect E_patients
               \<longleftrightarrow> length v \<le> 120 \<and> validate_email e v)"
    by (simp add: edit_patient_success_iff[OF sub] pf_errors_split[OF sub em])
  have 3: "filter (\<lambda>x. fst x \<noteq> ''email'') (df_errors (DoctorForm_validate_on_submit e None req)) = [] \<longrightarrow>
        (fst (add_doctor e st req) = Redirect E_doctors
           \<longleftrightarrow> length v \<le> 120 \<and> validate_email e v)"
    by (simp add: add_doctor_success_iff[OF sub] df_errors_split[OF sub em])
  have 4: "\<forall>d. query_get d_id (doctors st) i = Some d
           \<and> filter (\<lambda>x. fst x \<noteq> ''email'') (df_errors (DoctorForm_validate_on_submit e (Some d) req)) = []
        \<longrightarrow> (fst (edit_doctor i e st req) = Redirect E_doctors
               \<longleftrightarrow> length v \<le> 120 \<and> validate_email e v)"
    by (simp add: edit_doctor_success_iff[OF sub] df_errors_split[OF sub em])
  show ?thesis by (rule conjI[OF 1 conjI[OF 2 conjI[OF 3 4]]])
qed

lemma ex_validate_email_short: "ex_validate_email (ascii ''boris@example.org'')"
  by (simp add: ex_validate_email_def isspace_def)

lemma ex_patient_others_valid:
  assumes "\<not> isspace c" "\<not> isspace d" "length cs < 150" "length ds < 20"
  shows "filter (\<lambda>x. fst x \<noteq> ''email'')
           (pf_errors (PatientForm_validate_on_submit e None
              (ex_request POST E_add_patient
                 [(''full_name'', c # cs), (''phone'', d # ds), (''email'', v)] admin_session))) = []"
  using assms
  by (simp add: pf_defs process_str_def process_date_def filter_tag filter_csrf csrf_errors_def
      DataRequired_starts Length_def)

lemma long_email_valid: "ex_validate_email long_email \<and> long_email \<noteq> [] \<and> length long_email = 125"
proof -
  have t: "takeWhile (\<lambda>c. c \<noteq> 64) long_email = replicate 60 97"
    unfolding long_email_def by (subst takeWhile_append2) simp_all
  have d: "drop 61 long_email = replicate 60 98 @ ascii ''.com''"
    unfolding long_email_def by simp
  have s: "\<forall>c \<in> set long_email. \<not> isspace c"
    unfolding long_email_def by (auto simp: isspace_def)
  show ?thesis
    using s by (simp add: ex_validate_email_def t d) (simp add: long_email_def)
qed

theorem email_accepted_iff_witness:
  "filter (\<lambda>x. fst x \<noteq> ''email'')
      (pf_errors (PatientForm_validate_on_submit ex_env None
         (ex_request POST E_add_patient
            [(''full_name'', ascii ''Boris Ivanov''), (''phone'', ascii ''555-0103''),
             (''email'', ascii ''boris@example.org'')] admin_session))) = []
   \<and> length (ascii ''boris@example.org'') \<le> 120
   \<and> validate_email ex_env (ascii ''boris@example.org'')
   \<and> fst (add_patient ex_env ex_db
         (ex_request POST E_add_patient
            [(''full_name'', ascii ''Boris Ivanov''), (''phone'', ascii ''555-0103''),
             (''email'', ascii ''boris@example.org'')] admin_session)) = Redirect E_patients"
proof -
  let ?r = "ex_request POST E_add_patient
            [(''full_name'', ascii ''Boris Ivanov''), (''phone'', ascii ''555-0103''),
             (''email'', ascii ''boris@example.org'')] admin_session"
  have m: "meth ?r = POST" and f: "form ?r ''email'' = Some (ascii ''boris@example.org'')"
    and n: "ascii ''boris@example.org'' \<noteq> []" by simp_all
  have o: "filter (\<lambda>x. fst x \<noteq> ''email'') (pf_errors (PatientForm_validate_on_submit ex_env None ?r)) = []"
    using ex_patient_others_valid[of "of_char CHR ''B''" "of_char CHR ''5''" "ascii ''oris Ivanov''"
        "ascii ''55-0103''" ex_env "ascii ''boris@example.org''"]
    by (simp add: isspace_def)
  have l: "length (ascii ''boris@example.org'') \<le> 120" by simp
  have v: "validate_email ex_env (ascii ''boris@example.org'')"
    using ex_validate_email_short by (simp add: ex_env_def)
  from email_accepted_iff[OF m f n, where e = ex_env and st = ex_db, THEN conjunct1, rule_format, OF o] l v
  have "fst (add_patient ex_env ex_db ?r) = Redirect E_patients" by blast
  with o l v show ?thesis by (intro conjI)
qed

text \<open>
  The claim as written fails: an address of 125 characters that the syntax check accepts
  (a local part of 60 letters, a domain of 60 letters and \<open>.com\<close>) is rejected by the
  length validator of the field, with every other field valid, and nothing is written.
\<close>

theorem long_email_rejected:
  "validate_email ex_env long_email
   \<and> long_email \<noteq> []
   \<and> filter (\<lambda>x. fst x \<noteq> ''email'')
        (pf_errors (PatientForm_validate_on_submit ex_env None
           (ex_request POST E_add_patient
              [(''full_name'', ascii ''Boris Ivanov''), (''phone'', ascii ''555-0103''),
               (''email'', long_email)] admin_session))) = []
   \<and> fst (add_patient ex_env ex_db
           (ex_request POST E_add_patient
              [(''full_name'', ascii ''Boris Ivanov''), (''phone'', ascii ''555-0103''),
               (''email'', long_email)] admin_session)) \<noteq> Redirect E_patients
   \<and> snd (snd (add_patient ex_env ex_db
           (ex_request POST E_add_patient
              [(''full_name'', ascii ''Boris Ivanov''), (''phone'', ascii ''555-0103''),
               (''email'', long_email)] admin_session))) = ex_db"
proof -
  let ?r = "ex_request POST E_add_patient
              [(''full_name'', ascii ''Boris Ivanov''), (''phone'', ascii ''555-0103''),
               (''email'', long_email)] admin_session"
  have sub: "is_submitted ?r" and f: "form ?r ''email'' = Some long_email" by simp_all
  have v: "validate_email ex_env long_email" using long_email_valid by (simp add: ex_env_def)
  have n: "long_email \<noteq> []" using long_email_valid by simp
  have o: "filter (\<lambda>x. fst x \<noteq> ''email'') (pf_errors (PatientForm_validate_on_submit ex_env None ?r)) = []"
    using ex_patient_others_valid[of "of_char CHR ''B''" "of_char CHR ''5''" "ascii ''oris Ivanov''"
        "ascii ''55-0103''" ex_env long_email]
    by (simp add: isspace_def)
  have e: "pf_errors (PatientForm_validate_on_submit ex_env None ?r) \<noteq> []"
    using pf_errors_split[OF sub f, of ex_env None] long_email_valid by simp
  note inv = add_patient_invalid[OF sub e, of ex_db]
  have 1: "fst (add_patient ex_env ex_db ?r) \<noteq> Redirect E_patients"
    by (simp only: inv fst_conv) simp
  have 2: "snd (snd (add_patient ex_env ex_db ?r)) = ex_db"
    by (simp only: inv snd_conv)
  from v n o 1 2 show ?thesis by (intro conjI)
qed

text \<open>An empty e-mail goes through the same validator as any other text: the submission
  succeeds only if the syntax check accepts the empty text.\<close>

lemma empty_email_rejected:
  assumes "meth req = POST" and "form req ''email'' = Some []" and "\<not> validate_email e []"
  shows "fst (add_patient e st req) \<noteq> Redirect E_patients \<and> snd (snd (add_patient e st req)) = st"
proof -
  have sub: "is_submitted req" using assms(1) by simp
  have e: "pf_errors (PatientForm_validate_on_submit e None req) \<noteq> []"
    using pf_errors_split[OF sub assms(2), of e None] assms(3) by simp
  note inv = add_patient_invalid[OF sub e, of st]
  show ?thesis by (simp only: inv fst_conv snd_conv) simp
qed

section \<open>The pages of the patient list and of the doctor list\<close>

lemma paginate_Some:
  assumes "1 \<le> pg" and "pg = 1 \<or> nat (pg - 1) * n < length rows" and "0 < n"
  shows "paginate rows pg n
       = Some \<lparr>items = take n (drop (nat (pg - 1) * n) rows), page = pg, per_page = n,
               total = length rows\<rparr>"
  using assms by (auto simp: paginate_def Let_def)

lemma paginate_None:
  assumes "pg < 1 \<or> (pg \<noteq> 1 \<and> length rows \<le> nat (pg - 1) * n)"
  shows "paginate rows pg n = None"
  using assms by (auto simp: paginate_def Let_def)

lemma patients_view_renders:
  assumes "1 \<le> page_arg e req"
    and "page_arg e req = 1 \<or> nat (page_arg e req - 1) * 10 < length (patients st)"
  shows "patients_view e st req
       = (Render (patients_html
            \<lparr>items = take 10 (drop (nat (page_arg e req - 1) * 10) (patients st)),
             page = page_arg e req, per_page = 10, total = length (patients st)\<rparr>),
          cookie req, st)"
  by (simp add: patients_view_def paginate_Some[OF assms])

lemma doctors_view_renders:
  assumes "1 \<le> page_arg e req"
    and "page_arg e req = 1 \<or> nat (page_arg e req - 1) * 10 < length (doctors st)"
  shows "doctors_view e st req
       = (Render (doctors_html
            \<lparr>items = take 10 (drop (nat (page_arg e req - 1) * 10) (doctors st)),
             page = page_arg e req, per_page = 10, total = length (doctors st)\<rparr>),
          cookie req, st)"
  by (simp add: doctors_view_def paginate_Some[OF assms])

lemma patients_view_404:
  assumes "page_arg e req < 1
         \<or> (page_arg e req \<noteq> 1 \<and> length (patients st) \<le> nat (page_arg e req - 1) * 10)"
  shows "patients_view e st req = (Abort 404, cookie req, st)"
  by (simp add: patients_view_def paginate_None[OF assms])

lemma doctors_view_404:
  assumes "page_arg e req < 1
         \<or> (page_arg e req \<noteq> 1 \<and> length (doctors st) \<le> nat (page_arg e req - 1) * 10)"
  shows "doctors_view e st req = (Abort 404, cookie req, st)"
  by (simp add: doctors_view_def paginate_None[OF assms])

lemma add_patient_valid:
  assumes "is_submitted req" and "pf_errors (PatientForm_validate_on_submit e None req) = []"
  shows "\<exists>p. add_patient e st req
           = (Redirect E_patients, flash M_patient_added C_success (cookie req),
              st\<lparr>patients := patients st @ [p]\<rparr>)
         \<and> p_id p = next_id (map p_id (patients st))"
proof -
  from pf_valid_names[OF assms] obtain n ph where
    "pf_full_name (PatientForm_validate_on_submit e None req) = Some n"
    "pf_phone (PatientForm_validate_on_submit e None req) = Some ph" by auto
  with assms have "add_patient e st req
      = (Redirect E_patients, flash M_patient_added C_success (cookie req),
         st\<lparr>patients := patients st @
            [\<lparr>p_id = next_id (map p_id (patients st)), p_full_name = n, p_phone = ph,
              p_email = pf_email (PatientForm_validate_on_submit e None req),
              p_birth_date = pf_birth_date (PatientForm_validate_on_submit e None req),
              p_address = pf_address (PatientForm_validate_on_submit e None req)\<rparr>]\<rparr>)"
    by (simp add: add_patient_def Let_def)
  then show ?thesis by (intro exI conjI) (assumption, simp)
qed

lemma add_doctor_valid:
  assumes "is_submitted req" and "df_errors (DoctorForm_validate_on_submit e None req) = []"
  shows "\<exists>d. add_doctor e st req
           = (Redirect E_doctors, flash M_doctor_added C_success (cookie req),
              st\<lparr>doctors := doctors st @ [d]\<rparr>)
         \<and> d_id d = next_id (map d_id (doctors st))"
proof -
  from df_valid_names[OF assms] obtain n sp ph where
    "df_full_name (DoctorForm_validate_on_submit e None req) = Some n"
    "df_specialty (DoctorForm_validate_on_submit e None req) = Some sp"
    "df_phone (DoctorForm_validate_on_submit e None req) = Some ph" by auto
  with assms have "add_doctor e st req
      = (Redirect E_doctors, flash M_doctor_added C_success (cookie req),
         st\<lparr>doctors := doctors st @
            [\<lparr>d_id = next_id (map d_id (doctors st)), d_full_name = n, d_specialty = sp,
              d_phone = ph, d_email = df_email (DoctorForm_validate_on_submit e None req),
              d_room = df_room (DoctorForm_validate_on_submit e None req)\<rparr>]\<rparr>)"
    by (simp add: add_doctor_def Let_def)
  then show ?thesis by (intro exI conjI) (assumption, simp)
qed

lemma ex_add_doctor:
  "add_doctor ex_env ex_db (ex_request POST E_add_doctor
      [(''full_name'', ascii ''Nina Lebedeva''), (''specialty'', ascii ''Cardiologist''),
       (''phone'', ascii ''555-0203''), (''email'', ascii ''nina@example.org''),
       (''room'', ascii ''7'')] admin_session)
   = (Redirect E_doctors, flash M_doctor_added C_success admin_session,
      ex_db\<lparr>doctors := doctors ex_db @
         [\<lparr>d_id = 3, d_full_name = ascii ''Nina Lebedeva'', d_specialty = ascii ''Cardiologist'',
           d_phone = ascii ''555-0203'', d_email = Some (ascii ''nina@example.org''),
           d_room = Some (ascii ''7'')\<rparr>]\<rparr>)"
  by (simp add: add_doctor_def DoctorForm_validate_on_submit_def DoctorForm_init_def
      DoctorForm_validate_def formdata_def process_str_def tag_def csrf_errors_def
      DataRequired_starts Length_def Email_def isspace_def ex_env_def ex_validate_email_def
      next_id_def ex_db_def Let_def)

lemma ex_page_arg:
  "page_arg ex_env (ex_request GET ep [] admin_session) = 1"
  "page_arg ex_env (ex_page_request ep (ascii ''2'')) = 2"
  "page_arg ex_env (ex_page_request ep (ascii ''3'')) = 3"
  "page_arg ex_env (ex_page_request ep (ascii ''0'')) = 0"
  by (simp_all add: page_arg_def ex_page_request_def ex_env_def ex_int_def isdigit_def)

lemma twelve_doctors_ids:
  "map d_id (doctors twelve_doctors) = [1, 2, 3, 4, 5, 6, 7, 8, 9, 10, 11, 12]"
  by (simp add: twelve_doctors_def)

text \<open>
  Claim C6. The patient list and the doctor list are paged by ten. For the page number
  \<open>n\<close> of the request (1 when none is given), the view renders the rows of the table
  from position \<open>10 * (n - 1)\<close> on, at most 10 of them, in table order, whenever \<open>n\<close> is
  1 or that part of the table is not empty; a page below 1, or an empty page other than
  the first, is answered 404. The table order is the order of insertion: a valid
  submission of the create form puts the new row, with the next id, behind all others;
  an edit keeps every row in its place; a delete removes rows and keeps the order of the
  rest. The source asks for no ordering; the order is that of the table scan, taken here
  to be SQLite's rowid order.
\<close>

theorem lists_paged_in_insertion_order:
  "(patients_view e st req = (Render (patients_html pg), s', st') \<longrightarrow>
      length (items pg) \<le> 10 \<and> page pg = page_arg e req \<and> 1 \<le> page pg
      \<and> items pg = take 10 (drop (nat (page pg - 1) * 10) (patients st)))
 \<and> (add_patient e st req = (r, s', st') \<longrightarrow>
      patients st' = patients st
      \<or> (\<exists>p. patients st' = patients st @ [p] \<and> p_id p \<notin> p_id ` set (patients st)))
 \<and> (edit_patient i e st req = (r, s', st') \<longrightarrow> map p_id (patients st') = map p_id (patients st))
 \<and> (delete_patient i e st req = (r, s', st') \<longrightarrow>
      patients st' = patients st \<or> patients st' = filter (\<lambda>p. p_id p \<noteq> i) (patients st))
 \<and> (doctors_view e st req = (Render (doctors_html dpg), s', st') \<longrightarrow>
      length (items dpg) \<le> 10 \<and> page dpg = page_arg e req \<and> 1 \<le> page dpg
      \<and> items dpg = take 10 (drop (nat (page dpg - 1) * 10) (doctors st)))
 \<and> (add_doctor e st req = (r, s', st') \<longrightarrow>
      doctors st' = doctors st
      \<or> (\<exists>d. doctors st' = doctors st @ [d] \<and> d_id d \<notin> d_id ` set (doctors st)))
 \<and> (edit_doctor i e st req = (r, s', st') \<longrightarrow> map d_id (doctors st') = map d_id (doctors st))
 \<and> (delete_doctor i e st req = (r, s', st') \<longrightarrow>
      doctors st' = doctors st \<or> doctors st' = filter (\<lambda>d. d_id d \<noteq> i) (doctors st))
 \<and> (1 \<le> page_arg e req
      \<and> (page_arg e req = 1 \<or> nat (page_arg e req - 1) * 10 < length (patients st)) \<longrightarrow>
      patients_view e st req
        = (Render (patients_html
             \<lparr>items = take 10 (drop (nat (page_arg e req - 1) * 10) (patients st)),
              page = page_arg e req, per_page = 10, total = length (patients st)\<rparr>),
           cookie req, st))
 \<and> (page_arg e req < 1
      \<or> (page_arg e req \<noteq> 1 \<and> length (patients st) \<le> nat (page_arg e req - 1) * 10) \<longrightarrow>
      patients_view e st req = (Abort 404, cookie req, st))
 \<and> (1 \<le> page_arg e req
      \<and> (page_arg e req = 1 \<or> nat (page_arg e req - 1) * 10 < length (doctors st)) \<longrightarrow>
      doctors_view e st req
        = (Render (doctors_html
             \<lparr>items = take 10 (drop (nat (page_arg e req - 1) * 10) (doctors st)),
              page = page_arg e req, per_page = 10, total = length (doctors st)\<rparr>),
           cookie req, st))
 \<and> (page_arg e req < 1
      \<or> (page_arg e req \<noteq> 1 \<and> length (doctors st) \<le> nat (page_arg e req - 1) * 10) \<longrightarrow>
      doctors_view e st req = (Abort 404, cookie req, st))
 \<and> (is_submitted req \<and> pf_errors (PatientForm_validate_on_submit e None req) = [] \<longrightarrow>
      (\<exists>p. add_patient e st req
              = (Redirect E_patients, flash M_patient_added C_success (cookie req),
                 st\<lparr>patients := patients st @ [p]\<rparr>)
          \<and> p_id p = next_id (map p_id (patients st))))
 \<and> (is_submitted req \<and> df_errors (DoctorForm_validate_on_submit e None req) = [] \<longrightarrow>
      (\<exists>d. add_doctor e st req
              = (Redirect E_doctors, flash M_doctor_added C_success (cookie req),
                 st\<lparr>doctors := doctors st @ [d]\<rparr>)
          \<and> d_id d = next_id (map d_id (doctors st))))"
proof -
  have 9: "1 \<le> page_arg e req
      \<and> (page_arg e req = 1 \<or> nat (page_arg e req - 1) * 10 < length (patients st)) \<longrightarrow>
      patients_view e st req
        = (Render (patients_html
             \<lparr>items = take 10 (drop (nat (page_arg e req - 1) * 10) (patients st)),
              page = page_arg e req, per_page = 10, total = length (patients st)\<rparr>),
           cookie req, st)"
    using patients_view_renders by blast
  have 10: "page_arg e req < 1
      \<or> (page_arg e req \<noteq> 1 \<and> length (patients st) \<le> nat (page_arg e req - 1) * 10) \<longrightarrow>
      patients_view e st req = (Abort 404, cookie req, st)"
    by (rule impI) (rule patients_view_404)
  have 11: "1 \<le> page_arg e req
      \<and> (page_arg e req = 1 \<or> nat (page_arg e req - 1) * 10 < length (doctors st)) \<longrightarrow>
      doctors_view e st req
        = (Render (doctors_html
             \<lparr>items = take 10 (drop (nat (page_arg e req - 1) * 10) (doctors st)),
              page = page_arg e req, per_page = 10, total = length (doctors st)\<rparr>),
           cookie req, st)"
    using doctors_view_renders by blast
  have 12: "page_arg e req < 1
      \<or> (page_arg e req \<noteq> 1 \<and> length (doctors st) \<le> nat (page_arg e req - 1) * 10) \<longrightarrow>
      doctors_view e st req = (Abort 404, cookie req, st)"
    by (rule impI) (rule doctors_view_404)
  have 13: "is_submitted req \<and> pf_errors (PatientForm_validate_on_submit e None req) = [] \<longrightarrow>
      (\<exists>p. add_patient e st req
              = (Redirect E_patients, flash M_patient_added C_success (cookie req),
                 st\<lparr>patients := patients st @ [p]\<rparr>)
          \<and> p_id p = next_id (map p_id (patients st)))"
    using add_patient_valid by blast
  have 14: "is_submitted req \<and> df_errors (DoctorForm_validate_on_submit e None req) = [] \<longrightarrow>
      (\<exists>d. add_doctor e st req
              = (Redirect E_doctors, flash M_doctor_added C_success (cookie req),
                 st\<lparr>doctors := doctors st @ [d]\<rparr>)
          \<and> d_id d = next_id (map d_id (doctors st)))"
    using add_doctor_valid by blast
  note a = impI[OF patients_view_page] impI[OF add_patient_appends] impI[OF edit_patient_keeps_order]
    impI[OF delete_patient_keeps_order] impI[OF doctors_view_page] impI[OF add_doctor_appends]
    impI[OF edit_doctor_keeps_order] impI[OF delete_doctor_keeps_order]
  show ?thesis
    by (rule conjI[OF a(1) conjI[OF a(2) conjI[OF a(3) conjI[OF a(4) conjI[OF a(5) conjI[OF a(6)
          conjI[OF a(7) conjI[OF a(8) conjI[OF 9 conjI[OF 10 conjI[OF 11 conjI[OF 12
          conjI[OF 13 14]]]]]]]]]]]]])
qed

theorem lists_paged_in_insertion_order_witness:
  "patients_view ex_env ex_db (ex_request GET E_patients [] admin_session)
   = (Render (patients_html \<lparr>items = patients ex_db, page = 1, per_page = 10, total = 2\<rparr>),
      admin_session, ex_db)
   \<and> map p_id (patients ex_db) = [1, 2]
   \<and> length (patients ex_db) \<le> 10
   \<and> patients ex_db = take 10 (drop (nat (1 - 1) * 10) (patients ex_db))
   \<and> (\<exists>p. patients (snd (snd (add_patient ex_env ex_db (ex_request POST E_add_patient
             [(''full_name'', ascii ''Boris Ivanov''), (''phone'', ascii ''555-0103''),
              (''email'', ascii ''boris@example.org'')] admin_session))))
           = patients ex_db @ [p]
         \<and> p_id p \<notin> p_id ` set (patients ex_db))
   \<and> map d_id (doctors twelve_doctors) = [1, 2, 3, 4, 5, 6, 7, 8, 9, 10, 11, 12]
   \<and> doctors_view ex_env twelve_doctors (ex_request GET E_doctors [] admin_session)
       = (Render (doctors_html \<lparr>items = take 10 (doctors twelve_doctors), page = 1, per_page = 10,
                                total = 12\<rparr>), admin_session, twelve_doctors)
   \<and> map d_id (take 10 (doctors twelve_doctors)) = [1, 2, 3, 4, 5, 6, 7, 8, 9, 10]
   \<and> doctors_view ex_env twelve_doctors (ex_page_request E_doctors (ascii ''2''))
       = (Render (doctors_html \<lparr>items = drop 10 (doctors twelve_doctors), page = 2, per_page = 10,
                                total = 12\<rparr>), admin_session, twelve_doctors)
   \<and> map d_id (drop 10 (doctors twelve_doctors)) = [11, 12]
   \<and> doctors_view ex_env twelve_doctors (ex_page_request E_doctors (ascii ''3''))
       = (Abort 404, admin_session, twelve_doctors)
   \<and> doctors_view ex_env twelve_doctors (ex_page_request E_doctors (ascii ''0''))
       = (Abort 404, admin_session, twelve_doctors)
   \<and> (\<exists>d. add_doctor ex_env ex_db (ex_request POST E_add_doctor
             [(''full_name'', ascii ''Nina Lebedeva''), (''specialty'', ascii ''Cardiologist''),
              (''phone'', ascii ''555-0203''), (''email'', ascii ''nina@example.org''),
              (''room'', ascii ''7'')] admin_session)
           = (Redirect E_doctors, flash M_doctor_added C_success admin_session,
              ex_db\<lparr>doctors := doctors ex_db @ [d]\<rparr>)
         \<and> d_id d = 3)"
proof -
  let ?pg = "\<lparr>items = patients ex_db, page = 1, per_page = 10, total = 2\<rparr>"
  let ?a = "ex_request POST E_add_patient
             [(''full_name'', ascii ''Boris Ivanov''), (''phone'', ascii ''555-0103''),
              (''email'', ascii ''boris@example.org'')] admin_session"
  let ?st = "ex_db\<lparr>patients := patients ex_db @
         [\<lparr>p_id = 3, p_full_name = ascii ''Boris Ivanov'', p_phone = ascii ''555-0103'',
           p_email = Some (ascii ''boris@example.org''), p_birth_date = None, p_address = None\<rparr>]\<rparr>"
  let ?ad = "ex_request POST E_add_doctor
             [(''full_name'', ascii ''Nina Lebedeva''), (''specialty'', ascii ''Cardiologist''),
              (''phone'', ascii ''555-0203''), (''email'', ascii ''nina@example.org''),
              (''room'', ascii ''7'')] admin_session"
  let ?g1 = "ex_request GET E_doctors [] admin_session"
  let ?g2 = "ex_page_request E_doctors (ascii ''2'')"
  let ?g3 = "ex_page_request E_doctors (ascii ''3'')"
  let ?g0 = "ex_page_request E_doctors (ascii ''0'')"
  from lists_paged_in_insertion_order[where e = ex_env and st = ex_db
      and req = "ex_request GET E_patients [] admin_session" and pg = "?pg" and s' = admin_session
      and st' = ex_db, THEN conjunct1, rule_format, OF ex_patients_view]
  have 1: "length (patients ex_db) \<le> 10"
    "patients ex_db = take 10 (drop (nat (1 - 1) * 10) (patients ex_db))" by simp_all
  from lists_paged_in_insertion_order[where e = ex_env and st = ex_db and req = "?a" and st' = "?st"
      and r = "Redirect E_patients" and s' = "flash M_patient_added C_success admin_session",
      THEN conjunct2, THEN conjunct1, rule_format, OF ex_add_patient]
  have 2: "\<exists>p. patients ?st = patients ex_db @ [p] \<and> p_id p \<notin> p_id ` set (patients ex_db)"
    by simp
  have 3: "map p_id (patients ex_db) = [1, 2]" by (simp add: ex_db_def)
  have len: "length (doctors twelve_doctors) = 12" by (simp add: twelve_doctors_def)
  have ck: "cookie ?g2 = admin_session" "cookie ?g3 = admin_session" "cookie ?g0 = admin_session"
    by (simp_all add: ex_page_request_def)
  note T = lists_paged_in_insertion_order[where e = ex_env and st = twelve_doctors,
      THEN conjunct2, THEN conjunct2, THEN conjunct2, THEN conjunct2, THEN conjunct2,
      THEN conjunct2, THEN conjunct2, THEN conjunct2, THEN conjunct2, THEN conjunct2]
  note Tr = T[THEN conjunct1, rule_format] and T4 = T[THEN conjunct2, THEN conjunct1, rule_format]
  have h1: "1 \<le> page_arg ex_env ?g1
      \<and> (page_arg ex_env ?g1 = 1 \<or> nat (page_arg ex_env ?g1 - 1) * 10 < length (doctors twelve_doctors))"
    and h2: "1 \<le> page_arg ex_env ?g2
      \<and> (page_arg ex_env ?g2 = 1 \<or> nat (page_arg ex_env ?g2 - 1) * 10 < length (doctors twelve_doctors))"
    and h3: "page_arg ex_env ?g3 < 1
      \<or> (page_arg ex_env ?g3 \<noteq> 1 \<and> length (doctors twelve_doctors) \<le> nat (page_arg ex_env ?g3 - 1) * 10)"
    and h0: "page_arg ex_env ?g0 < 1
      \<or> (page_arg ex_env ?g0 \<noteq> 1 \<and> length (doctors twelve_doctors) \<le> nat (page_arg ex_env ?g0 - 1) * 10)"
    unfolding ex_page_arg len by simp_all
  have tk: "take 10 (drop (nat (1 - 1) * 10) (doctors twelve_doctors)) = take 10 (doctors twelve_doctors)"
    "take 10 (drop (nat (2 - 1) * 10) (doctors twelve_doctors)) = drop 10 (doctors twelve_doctors)"
    by (simp_all add: len)
  have 4: "doctors_view ex_env twelve_doctors ?g1
       = (Render (doctors_html \<lparr>items = take 10 (doctors twelve_doctors), page = 1, per_page = 10,
                                total = 12\<rparr>), admin_session, twelve_doctors)"
    using Tr[where req = ?g1, OF h1] unfolding ex_page_arg len tk ex_request_sel .
  have 5: "doctors_view ex_env twelve_doctors ?g2
       = (Render (doctors_html \<lparr>items = drop 10 (doctors twelve_doctors), page = 2, per_page = 10,
                                total = 12\<rparr>), admin_session, twelve_doctors)"
    using Tr[where req = ?g2, OF h2] unfolding ex_page_arg len tk ck .
  have 6: "doctors_view ex_env twelve_doctors ?g3 = (Abort 404, admin_session, twelve_doctors)"
    using T4[where req = ?g3, OF h3] unfolding ck .
  have 7: "doctors_view ex_env twelve_doctors ?g0 = (Abort 404, admin_session, twelve_doctors)"
    using T4[where req = ?g0, OF h0] unfolding ck .
  have ids: "map d_id (take 10 (doctors twelve_doctors)) = [1, 2, 3, 4, 5, 6, 7, 8, 9, 10]"
    "map d_id (drop 10 (doctors twelve_doctors)) = [11, 12]"
    by (simp_all add: twelve_doctors_def)
  have 8: "\<exists>d. add_doctor ex_env ex_db ?ad
           = (Redirect E_doctors, flash M_doctor_added C_success admin_session,
              ex_db\<lparr>doctors := doctors ex_db @ [d]\<rparr>)
         \<and> d_id d = 3"
    by (rule exI, rule conjI, rule ex_add_doctor) simp
  show ?thesis
    apply (simp only: ex_patients_view ex_add_patient snd_conv simp_thms)
    apply (rule conjI[OF 3 conjI[OF 1(1) conjI[OF 1(2) conjI[OF 2 conjI[OF twelve_doctors_ids
          conjI[OF 4 conjI[OF ids(1) conjI[OF 5 conjI[OF ids(2) conjI[OF 6 conjI[OF 7 8]]]]]]]]]]])
    done
qed

end
